theory Spec2Isabelle
  imports Complex_Main "HOL-Library.Word"
begin

section \<open>Values exchanged with the Vulkan API\<close>

text \<open>
  The program of \<^verbatim>\<open>09_create_sbt.hpp\<close> drives a GPU through the Vulkan API. The API is
  the environment of the program: the model passes the state of the outside world
  (the API calls issued so far, the contents of host-visible memory, the two output
  streams) explicitly, and takes what the driver answers from two records of functions,
  \<open>PhysicalDevice\<close> and \<open>Device\<close>.
\<close>

type_synonym uint8 = "8 word"
type_synonym uint32 = "32 word"
type_synonym DeviceSize = "64 word"
type_synonym DeviceAddress = "64 word"

text \<open>Every Vulkan object is named by the number it got when it was created.\<close>

type_synonym Handle = nat

text \<open>
  A \<^verbatim>\<open>float\<close> is carried as its IEEE-754 binary32 bit pattern; the program only stores
  float constants and never computes with them.
\<close>

type_synonym float = "32 word"

text \<open>
  \<^verbatim>\<open>vk::Flags<Bit>\<close> is a type-safe bit mask over an \<^verbatim>\<open>enum class\<close>: a set of its
  bits. \<^verbatim>\<open>a | b\<close> is the union and \<^verbatim>\<open>if (flags & bit)\<close> is membership.
\<close>

datatype BufferUsageFlagBits =
    eTransferSrc
  | eStorageBuffer
  | eShaderBindingTableKHR
  | eShaderDeviceAddress
  | eAccelerationStructureBuildInputReadOnlyKHR
  | eAccelerationStructureStorageKHR

type_synonym BufferUsageFlags = "BufferUsageFlagBits set"

datatype MemoryPropertyFlagBits = eDeviceLocal | eHostVisible | eHostCoherent

type_synonym MemoryPropertyFlags = "MemoryPropertyFlagBits set"

datatype MemoryAllocateFlagBits = eDeviceAddress

text \<open>
  \<^verbatim>\<open>vk::Result\<close>: success, the three other codes with which the creation of a
  ray-tracing pipeline can come back without having failed, or any other result code
  with its number.
\<close>

datatype Result =
    eSuccess
  | eOperationDeferredKHR
  | eOperationNotDeferredKHR
  | ePipelineCompileRequiredEXT
  | eOtherResult int

record MemoryRequirements =
  size_req :: DeviceSize
  alignment_req :: DeviceSize
  memoryTypeBits :: uint32

section \<open>Rounding a handle size up to the alignment\<close>

text \<open>
  Modelled from the spec: \<^verbatim>\<open>vkutils::getAlignedSize\<close> lives in \<^verbatim>\<open>vkutils.hpp\<close>, which is
  not among the sources. The spec gives its formula,
  \<^verbatim>\<open>((size + align - 1) / align) * align\<close>; the caller passes two \<^verbatim>\<open>uint32_t\<close> and
  stores the result in a \<^verbatim>\<open>uint32_t\<close>, so the arithmetic is that of 32-bit unsigned
  integers and wraps around. An integer division by zero does not return: that is
  \<open>None\<close>.
\<close>

definition getAlignedSize :: "uint32 \<Rightarrow> uint32 \<Rightarrow> uint32 option" where
  "getAlignedSize size' alignment =
     (if alignment = 0 then None
      else Some (((size' + alignment - 1) div alignment) * alignment))"

section \<open>Structures of the acceleration-structure and ray-tracing extensions\<close>

datatype AccelerationStructureTypeKHR = eTopLevel | eBottomLevel

datatype BuildAccelerationStructureModeKHR = eBuild | eUpdate

datatype BuildAccelerationStructureFlagBitsKHR = eAllowUpdate | ePreferFastTrace | ePreferFastBuild

datatype AccelerationStructureBuildTypeKHR = eHost | eDevice | eHostOrDevice

datatype GeometryTypeKHR = eTriangles | eAabbs | eInstances

datatype GeometryFlagBitsKHR = eOpaque | eNoDuplicateAnyHitInvocation

datatype Format = eUndefined | eR32G32B32Sfloat

datatype IndexType = eUint16 | eUint32

record AccelerationStructureGeometryTrianglesDataKHR =
  vertexFormat :: Format
  vertexData :: DeviceAddress
  vertexStride :: DeviceSize
  maxVertex :: uint32
  indexType :: IndexType
  indexData :: DeviceAddress

record AccelerationStructureGeometryInstancesDataKHR =
  arrayOfPointers :: bool
  instancesAddress :: DeviceAddress

datatype AccelerationStructureGeometryDataKHR =
    Triangles AccelerationStructureGeometryTrianglesDataKHR
  | Instances AccelerationStructureGeometryInstancesDataKHR

record AccelerationStructureGeometryKHR =
  geometryType :: GeometryTypeKHR
  geometry :: AccelerationStructureGeometryDataKHR
  geometryFlags :: "GeometryFlagBitsKHR set"

record AccelerationStructureBuildGeometryInfoKHR =
  buildType :: AccelerationStructureTypeKHR
  buildMode :: BuildAccelerationStructureModeKHR
  buildFlags :: "BuildAccelerationStructureFlagBitsKHR set"
  geometries :: "AccelerationStructureGeometryKHR list"
  dstAccelerationStructure :: "Handle option"
  scratchData :: DeviceAddress

record AccelerationStructureBuildSizesInfoKHR =
  accelerationStructureSize :: DeviceSize
  updateScratchSize :: DeviceSize
  buildScratchSize :: DeviceSize

record AccelerationStructureBuildRangeInfoKHR =
  primitiveCount :: uint32
  primitiveOffset :: uint32
  firstVertex :: uint32
  transformOffset :: uint32

record AccelerationStructureCreateInfoKHR =
  createBuffer :: "Handle option"
  createSize :: DeviceSize
  createType :: AccelerationStructureTypeKHR

text \<open>
  \<^verbatim>\<open>VkAccelerationStructureInstanceKHR\<close>: a 3x4 row-major transform, two 32-bit words
  holding a 24-bit and an 8-bit field each, and the 64-bit reference to the bottom-level
  structure.
\<close>

record AccelerationStructureInstanceKHR =
  transform :: "float list list"
  instanceCustomIndex :: uint32
  mask :: uint32
  instanceShaderBindingTableRecordOffset :: uint32
  instanceFlags :: uint32
  accelerationStructureReference :: "64 word"

text \<open>
  \<^verbatim>\<open>VK_GEOMETRY_INSTANCE_TRIANGLE_FACING_CULL_DISABLE_BIT_KHR\<close> and
  \<^verbatim>\<open>VK_SHADER_UNUSED_KHR\<close>, with the values the Vulkan headers give them.
\<close>

definition eTriangleFacingCullDisable :: uint32 where
  "eTriangleFacingCullDisable = 1"

definition VK_SHADER_UNUSED_KHR :: uint32 where
  "VK_SHADER_UNUSED_KHR = 0xFFFFFFFF"

datatype ShaderStageFlagBits =
    eVertex | eRaygenKHR | eAnyHitKHR | eClosestHitKHR | eMissKHR | eIntersectionKHR

datatype RayTracingShaderGroupTypeKHR = eGeneral | eTrianglesHitGroup | eProceduralHitGroup

record PipelineShaderStageCreateInfo =
  stage :: ShaderStageFlagBits
  module :: "Handle option"
  pName :: string

record RayTracingShaderGroupCreateInfoKHR =
  groupType :: RayTracingShaderGroupTypeKHR
  generalShader :: uint32
  closestHitShader :: uint32
  anyHitShader :: uint32
  intersectionShader :: uint32

record RayTracingPipelineCreateInfoKHR =
  pipelineStages :: "PipelineShaderStageCreateInfo list"
  pipelineGroups :: "RayTracingShaderGroupCreateInfoKHR list"
  maxPipelineRayRecursionDepth :: uint32
  layout :: "Handle option"

section \<open>The outside world\<close>

text \<open>
  One entry per call into the Vulkan API (and per \<^verbatim>\<open>memcpy\<close> into mapped memory), in
  the order the program issues them. A created object carries its handle first.
\<close>

datatype Call =
    CreateBuffer Handle DeviceSize BufferUsageFlags
  | GetBufferMemoryRequirements Handle
  | AllocateMemory Handle DeviceSize uint32 "MemoryAllocateFlagBits set"
  | BindBufferMemory Handle Handle DeviceSize
  | MapMemory Handle DeviceSize DeviceSize
  | Memcpy Handle "uint8 list"
  | UnmapMemory Handle
  | GetBufferAddress Handle
  | FreeMemory Handle
  | DestroyBuffer Handle
  | GetAccelerationStructureBuildSizes AccelerationStructureBuildTypeKHR
      AccelerationStructureBuildGeometryInfoKHR uint32
  | CreateAccelerationStructure Handle AccelerationStructureCreateInfoKHR
  | GetAccelerationStructureAddress Handle
  | AllocateCommandBuffer Handle
  | BeginCommandBuffer Handle
  | CmdBuildAccelerationStructures Handle AccelerationStructureBuildGeometryInfoKHR
      AccelerationStructureBuildRangeInfoKHR
  | EndCommandBuffer Handle
  | QueueSubmit Handle
  | QueueWaitIdle
  | FreeCommandBuffer Handle
  | CreateShaderModule Handle string
  | CreateDescriptorPool Handle
  | CreateDescriptorSetLayout Handle
  | AllocateDescriptorSet Handle "Handle option" "Handle option"
  | CreatePipelineLayout Handle "Handle option"
  | CreateRayTracingPipeline Handle RayTracingPipelineCreateInfoKHR
  | GetRayTracingProps
  | GetRayTracingShaderGroupHandles "Handle option" uint32 uint32 nat
  | DestroyAccelerationStructure Handle
  | DestroyShaderModule Handle
  | DestroyDescriptorPool Handle
  | DestroyDescriptorSetLayout Handle
  | FreeDescriptorSet Handle
  | DestroyPipelineLayout Handle
  | DestroyPipeline Handle

text \<open>
  \<open>hostMemory w m i\<close> is byte \<open>i\<close> of memory object \<open>m\<close> as the host has written it;
  \<open>None\<close> is a byte the host never wrote.
\<close>

record World =
  nextHandle :: Handle
  hostMemory :: "Handle \<Rightarrow> nat \<Rightarrow> uint8 option"
  calls :: "Call list"
  cout :: string
  cerr :: string

text \<open>What \<^verbatim>\<open>vk::PhysicalDevice\<close> reports: its memory types and ray-tracing properties.\<close>

record PhysicalDevice =
  memoryTypes :: "MemoryPropertyFlags list"
  shaderGroupHandleSize :: uint32
  shaderGroupHandleAlignment :: uint32

text \<open>
  What the driver answers through \<^verbatim>\<open>vk::Device\<close>. The shader-group handles are given
  as the byte the driver leaves at each position of the array it is handed.
\<close>

record Device =
  getBufferMemoryRequirements :: "DeviceSize \<Rightarrow> BufferUsageFlags \<Rightarrow> MemoryRequirements"
  getBufferAddressKHR :: "Handle \<Rightarrow> DeviceAddress"
  getAccelerationStructureBuildSizesKHR ::
    "AccelerationStructureBuildTypeKHR \<Rightarrow> AccelerationStructureBuildGeometryInfoKHR
       \<Rightarrow> uint32 \<Rightarrow> AccelerationStructureBuildSizesInfoKHR"
  getAccelerationStructureAddressKHR :: "Handle \<Rightarrow> DeviceAddress"
  createRayTracingPipelineKHR :: "RayTracingPipelineCreateInfoKHR \<Rightarrow> Result"
  getRayTracingShaderGroupHandlesKHR ::
    "Handle option \<Rightarrow> uint32 \<Rightarrow> uint32 \<Rightarrow> nat \<Rightarrow> Result \<times> (nat \<Rightarrow> uint8)"

text \<open>
  The ways a function ends without returning: the two \<^verbatim>\<open>std::abort\<close> calls of the
  source, the fatal failure of the memory-type search, the exception \<^verbatim>\<open>vk::SystemError\<close>
  that vulkan.hpp throws with the result code of the driver and that nothing in the
  source catches, and the undefined behaviour of C++ that the inputs of a function can
  trigger. The world at that moment comes with it.
\<close>

datatype Fatal =
    NoSuitableMemoryType
  | FailedToCreateRayTracingPipeline
  | FailedToGetShaderGroupHandles
  | SystemError Result
  | DivisionByZero
  | ReadPastEndOfSource
  | IndexOutOfRange

type_synonym 'a Outcome = "(Fatal \<times> World) + ('a \<times> World)"

definition emit :: "Call \<Rightarrow> World \<Rightarrow> World" where
  "emit c w = w\<lparr>calls := calls w @ [c]\<rparr>"

definition fresh :: "World \<Rightarrow> Handle \<times> World" where
  "fresh w = (nextHandle w, w\<lparr>nextHandle := Suc (nextHandle w)\<rparr>)"

definition print :: "string \<Rightarrow> World \<Rightarrow> World" where
  "print s w = w\<lparr>cout := cout w @ s\<rparr>"

definition printErr :: "string \<Rightarrow> World \<Rightarrow> World" where
  "printErr s w = w\<lparr>cerr := cerr w @ s\<rparr>"

text \<open>
  The members that hold Vulkan objects are \<^verbatim>\<open>vk::UniqueHandle\<close>s. Assigning a newly
  created object to one goes through \<^verbatim>\<open>reset\<close> of vulkan.hpp: the object held until
  then, if there is one and it is not the new object, is destroyed, by the call
  \<open>destroy\<close>. The destructor destroys the object held, if there is one.
\<close>

definition UniqueHandle_reset ::
  "(Handle \<Rightarrow> Call) \<Rightarrow> Handle option \<Rightarrow> Handle \<Rightarrow> World \<Rightarrow> World" where
  "UniqueHandle_reset destroy held new w =
     (case held of
        None \<Rightarrow> w
      | Some h \<Rightarrow> if h = new then w else emit (destroy h) w)"

definition UniqueHandle_destroy :: "(Handle \<Rightarrow> Call) \<Rightarrow> Handle option \<Rightarrow> World \<Rightarrow> World" where
  "UniqueHandle_destroy destroy held w =
     (case held of None \<Rightarrow> w | Some h \<Rightarrow> emit (destroy h) w)"

text \<open>\<^verbatim>\<open>memcpy(mappedPtr, data, n)\<close> into memory mapped from offset 0.\<close>

definition overwrite :: "uint8 list \<Rightarrow> (nat \<Rightarrow> uint8 option) \<Rightarrow> nat \<Rightarrow> uint8 option" where
  "overwrite bytes old i = (if i < length bytes then Some (bytes ! i) else old i)"

definition memcpy :: "Handle \<Rightarrow> uint8 list \<Rightarrow> World \<Rightarrow> World" where
  "memcpy m bytes w =
     emit (Memcpy m bytes)
       (w\<lparr>hostMemory := (hostMemory w)(m := overwrite bytes (hostMemory w m))\<rparr>)"

text \<open>Reading the first \<open>n\<close> bytes of a memory object back through a mapping.\<close>

definition readMapped :: "World \<Rightarrow> Handle \<Rightarrow> nat \<Rightarrow> uint8 option list" where
  "readMapped w m n = map (hostMemory w m) [0..<n]"

section \<open>Helpers of vkutils\<close>

text \<open>
  Modelled from the spec: \<^verbatim>\<open>vkutils::getMemoryType\<close> is in \<^verbatim>\<open>vkutils.hpp\<close>, not among
  the sources. The spec (4.1): the index of the first memory type whose bit is set in the
  requirements' mask and whose property flags include the requested ones; fatal when
  there is none.
\<close>

definition getMemoryType ::
  "PhysicalDevice \<Rightarrow> MemoryRequirements \<Rightarrow> MemoryPropertyFlags \<Rightarrow> Fatal + uint32" where
  "getMemoryType physicalDevice memoryReq memoryProperty =
     (case List.find
             (\<lambda>i. bit (memoryTypeBits memoryReq) i
                  \<and> memoryProperty \<subseteq> memoryTypes physicalDevice ! i)
             [0 ..< length (memoryTypes physicalDevice)] of
        None \<Rightarrow> Inl NoSuitableMemoryType
      | Some i \<Rightarrow> Inr (of_nat i))"

text \<open>
  Modelled from the spec: \<^verbatim>\<open>vkutils::oneTimeSubmit\<close> is in \<^verbatim>\<open>vkutils.hpp\<close>, not among
  the sources. The spec (4.3): allocate a command buffer, begin recording, let the
  callback record, end recording, submit, block until the queue is idle, release the
  command buffer. The callback is given as the commands it records.
\<close>

definition oneTimeSubmit :: "(Handle \<Rightarrow> Call list) \<Rightarrow> World \<Rightarrow> World" where
  "oneTimeSubmit record w =
     (let (commandBuffer, w1) = fresh w
      in w1\<lparr>calls := calls w1
               @ [AllocateCommandBuffer commandBuffer, BeginCommandBuffer commandBuffer]
               @ record commandBuffer
               @ [EndCommandBuffer commandBuffer, QueueSubmit commandBuffer, QueueWaitIdle,
                  FreeCommandBuffer commandBuffer]\<rparr>)"

text \<open>
  Modelled from the spec: \<^verbatim>\<open>vkutils::getRayTracingProps\<close> and
  \<^verbatim>\<open>vkutils::createShaderModule\<close> are in \<^verbatim>\<open>vkutils.hpp\<close>, not among the sources. The
  first reads the ray-tracing properties of the physical device (spec, 6); the second
  loads a shader file into a new module. The directory macro \<^verbatim>\<open>SHADER_DIR\<close> that
  prefixes the file name is not among the sources either and is left out of the record
  of the call.
\<close>

definition getRayTracingProps :: "PhysicalDevice \<Rightarrow> World \<Rightarrow> (uint32 \<times> uint32) \<times> World" where
  "getRayTracingProps physicalDevice w =
     ((shaderGroupHandleSize physicalDevice, shaderGroupHandleAlignment physicalDevice),
      emit GetRayTracingProps w)"

definition createShaderModule :: "string \<Rightarrow> World \<Rightarrow> Handle \<times> World" where
  "createShaderModule filename w =
     (let (h, w1) = fresh w in (h, emit (CreateShaderModule h filename) w1))"

section \<open>struct Buffer\<close>

record Buffer =
  buffer :: "Handle option"
  memory :: "Handle option"
  address :: DeviceAddress

text \<open>A default-constructed \<^verbatim>\<open>Buffer\<close>: two empty unique handles and \<^verbatim>\<open>address{}\<close>.\<close>

definition Buffer_new :: Buffer where
  "Buffer_new = \<lparr>buffer = None, memory = None, address = 0\<rparr>"

text \<open>
  \<^verbatim>\<open>Buffer::init\<close>. The source bytes behind \<^verbatim>\<open>data\<close> are the list the pointer points
  into, from the pointer on (\<open>None\<close> is the null pointer); copying more bytes than the
  list has reads past the end of the source. Calls that vulkan.hpp turns into an exception
  when the driver fails are followed on their success path. The assignments to
  \<^verbatim>\<open>buffer\<close> and \<^verbatim>\<open>memory\<close> destroy what the receiver held before.
\<close>

definition Buffer_init ::
  "PhysicalDevice \<Rightarrow> Device \<Rightarrow> DeviceSize \<Rightarrow> BufferUsageFlags \<Rightarrow> MemoryPropertyFlags
     \<Rightarrow> uint8 list option \<Rightarrow> Buffer \<Rightarrow> World \<Rightarrow> Buffer Outcome" where
  "Buffer_init physicalDevice device size' usage memoryProperty data self w =
     (let \<comment> \<open>Create buffer\<close>
          (b, w1) = fresh w;
          w2 = UniqueHandle_reset DestroyBuffer (buffer self) b
                 (emit (CreateBuffer b size' usage) w1);
          \<comment> \<open>Allocate memory\<close>
          memoryReq = getBufferMemoryRequirements device size' usage;
          w3 = emit (GetBufferMemoryRequirements b) w2;
          allocateFlags = (if eShaderDeviceAddress \<in> usage then {eDeviceAddress} else {})
      in case getMemoryType physicalDevice memoryReq memoryProperty of
           Inl fatal \<Rightarrow> Inl (fatal, w3)
         | Inr memoryType \<Rightarrow>
            (let (m, w4) = fresh w3;
                 w5 = UniqueHandle_reset FreeMemory (memory self) m
                        (emit (AllocateMemory m (size_req memoryReq) memoryType allocateFlags)
                           w4);
                 \<comment> \<open>Bind buffer to memory\<close>
                 w6 = emit (BindBufferMemory b m 0) w5;
                 \<comment> \<open>Copy data\<close>
                 copied =
                   (case data of
                      None \<Rightarrow> Inr w6
                    | Some bytes \<Rightarrow>
                       (let w7 = emit (MapMemory m 0 size') w6
                        in if unat size' \<le> length bytes
                           then Inr (emit (UnmapMemory m) (memcpy m (take (unat size') bytes) w7))
                           else Inl (ReadPastEndOfSource, w7)))
             in case copied of
                  Inl stop \<Rightarrow> Inl stop
                | Inr w8 \<Rightarrow>
                   \<comment> \<open>Get address\<close>
                   (if eShaderDeviceAddress \<in> usage
                    then Inr (\<lparr>buffer = Some b, memory = Some m,
                               address = getBufferAddressKHR device b\<rparr>,
                              emit (GetBufferAddress b) w8)
                    else Inr (\<lparr>buffer = Some b, memory = Some m, address = address self\<rparr>,
                              w8))))"

text \<open>
  A \<^verbatim>\<open>Buffer\<close> that is a local variable is destroyed where its scope ends: its members go
  in reverse order of declaration, the memory before the buffer.
\<close>

definition Buffer_destroy :: "Buffer \<Rightarrow> World \<Rightarrow> World" where
  "Buffer_destroy self w =
     (let w1 = (case memory self of None \<Rightarrow> w | Some m \<Rightarrow> emit (FreeMemory m) w)
      in case buffer self of None \<Rightarrow> w1 | Some b \<Rightarrow> emit (DestroyBuffer b) w1)"

section \<open>struct Vertex and the layout of uploaded data\<close>

text \<open>
  Host data reaches \<^verbatim>\<open>Buffer::init\<close> as bytes. Multi-byte values are laid out
  little-endian, as on the platforms Vulkan ray tracing runs on.
\<close>

definition le32 :: "uint32 \<Rightarrow> uint8 list" where
  "le32 x = [ucast x, ucast (drop_bit 8 x), ucast (drop_bit 16 x), ucast (drop_bit 24 x)]"

definition le64 :: "64 word \<Rightarrow> uint8 list" where
  "le64 x = [ucast x, ucast (drop_bit 8 x), ucast (drop_bit 16 x), ucast (drop_bit 24 x),
             ucast (drop_bit 32 x), ucast (drop_bit 40 x), ucast (drop_bit 48 x),
             ucast (drop_bit 56 x)]"

record Vertex =
  pos :: "float \<times> float \<times> float"

definition sizeof_Vertex :: nat where
  "sizeof_Vertex = 12"

definition sizeof_uint32_t :: nat where
  "sizeof_uint32_t = 4"

definition sizeof_AccelerationStructureInstanceKHR :: nat where
  "sizeof_AccelerationStructureInstanceKHR = 64"

definition bytes_of_Vertex :: "Vertex \<Rightarrow> uint8 list" where
  "bytes_of_Vertex v = (case pos v of (x, y, z) \<Rightarrow> le32 x @ le32 y @ le32 z)"

definition bytes_of_AccelerationStructureInstanceKHR ::
  "AccelerationStructureInstanceKHR \<Rightarrow> uint8 list" where
  "bytes_of_AccelerationStructureInstanceKHR i =
     concat (map le32 (concat (transform i)))
     @ le32 (or (and (instanceCustomIndex i) 0xFFFFFF) (push_bit 24 (and (mask i) 0xFF)))
     @ le32 (or (and (instanceShaderBindingTableRecordOffset i) 0xFFFFFF)
                (push_bit 24 (and (instanceFlags i) 0xFF)))
     @ le64 (accelerationStructureReference i)"

text \<open>
  \<^verbatim>\<open>v.data()\<close> of a \<^verbatim>\<open>std::vector\<close>: the bytes of its elements; an empty vector that was
  never given storage has the null pointer.
\<close>

definition vector_data :: "('a \<Rightarrow> uint8 list) \<Rightarrow> 'a list \<Rightarrow> uint8 list option" where
  "vector_data bytes_of v = (if v = [] then None else Some (concat (map bytes_of v)))"

text \<open>
  \<^verbatim>\<open>p + n\<close> on a byte pointer: what is readable from \<open>n\<close> bytes further on. The null
  pointer plus zero is the null pointer; moved by anything else it is a non-null pointer
  with nothing readable behind it.
\<close>

definition pointer_add :: "uint8 list option \<Rightarrow> nat \<Rightarrow> uint8 list option" where
  "pointer_add p n =
     (case p of
        None \<Rightarrow> (if n = 0 then None else Some [])
      | Some bytes \<Rightarrow> Some (drop n bytes))"

text \<open>The float constants of the source, as bit patterns.\<close>

definition f_1_0 :: float where "f_1_0 = 0x3F800000"
definition f_m1_0 :: float where "f_m1_0 = 0xBF800000"
definition f_0_0 :: float where "f_0_0 = 0"

section \<open>struct AccelStruct\<close>

text \<open>The member \<^verbatim>\<open>buffer\<close> of \<^verbatim>\<open>AccelStruct\<close> is the field \<open>accelBuffer\<close>.\<close>

record AccelStruct =
  accel :: "Handle option"
  accelBuffer :: Buffer

definition AccelStruct_new :: AccelStruct where
  "AccelStruct_new = \<lparr>accel = None, accelBuffer = Buffer_new\<rparr>"

text \<open>
  \<^verbatim>\<open>AccelStruct::init\<close>. The command pool and the queue are the single ones of the program
  and are not passed around. The assignment to \<^verbatim>\<open>accel\<close> destroys the structure the
  receiver held before. The local \<^verbatim>\<open>scratchBuffer\<close> is destroyed on return.
\<close>

definition AccelStruct_init ::
  "PhysicalDevice \<Rightarrow> Device \<Rightarrow> AccelerationStructureTypeKHR \<Rightarrow> AccelerationStructureGeometryKHR
     \<Rightarrow> uint32 \<Rightarrow> AccelStruct \<Rightarrow> World \<Rightarrow> AccelStruct Outcome" where
  "AccelStruct_init physicalDevice device type geometry' primitiveCount' self w =
     (let \<comment> \<open>Get build info\<close>
          buildInfo = \<lparr>buildType = type, buildMode = eBuild, buildFlags = {ePreferFastTrace},
                       geometries = [geometry'], dstAccelerationStructure = None,
                       scratchData = 0\<rparr>;
          buildSizes = getAccelerationStructureBuildSizesKHR device eDevice buildInfo
                         primitiveCount';
          w1 = emit (GetAccelerationStructureBuildSizes eDevice buildInfo primitiveCount') w
      in \<comment> \<open>Create buffer for AS\<close>
         case Buffer_init physicalDevice device (accelerationStructureSize buildSizes)
                {eAccelerationStructureStorageKHR} {eDeviceLocal} None (accelBuffer self) w1 of
           Inl stop \<Rightarrow> Inl stop
         | Inr (buffer1, w2) \<Rightarrow>
            (let \<comment> \<open>Create AS\<close>
                 createInfo = \<lparr>createBuffer = buffer buffer1,
                               createSize = accelerationStructureSize buildSizes,
                               createType = type\<rparr>;
                 (a, w3) = fresh w2;
                 w4 = UniqueHandle_reset DestroyAccelerationStructure (accel self) a
                        (emit (CreateAccelerationStructure a createInfo) w3)
             in \<comment> \<open>Create scratch buffer\<close>
                case Buffer_init physicalDevice device (buildScratchSize buildSizes)
                       {eStorageBuffer, eShaderDeviceAddress} {eDeviceLocal} None Buffer_new w4 of
                  Inl stop \<Rightarrow> Inl stop
                | Inr (scratchBuffer, w5) \<Rightarrow>
                   (let buildInfo2 = buildInfo\<lparr>dstAccelerationStructure := Some a,
                                                scratchData := address scratchBuffer\<rparr>;
                        buildRangeInfo = \<lparr>primitiveCount = primitiveCount',
                                          primitiveOffset = 0, firstVertex = 0,
                                          transformOffset = 0\<rparr>;
                        \<comment> \<open>Build\<close>
                        w6 = oneTimeSubmit
                               (\<lambda>commandBuffer.
                                  [CmdBuildAccelerationStructures commandBuffer buildInfo2
                                     buildRangeInfo]) w5;
                        \<comment> \<open>Get address\<close>
                        w7 = emit (GetAccelerationStructureAddress a) w6;
                        buffer2 = buffer1\<lparr>address :=
                                    getAccelerationStructureAddressKHR device a\<rparr>
                    in Inr (\<lparr>accel = Some a, accelBuffer = buffer2\<rparr>,
                            Buffer_destroy scratchBuffer w7))))"

section \<open>class Application\<close>

text \<open>
  The members of \<^verbatim>\<open>Application\<close> that the functions below read or write. The instance,
  the device, the queue, the command pool and the swapchain are set up before
  \<^verbatim>\<open>createBottomLevelAS\<close> runs and belong to the outside world.
\<close>

record Application =
  bottomAccel :: AccelStruct
  topAccel :: AccelStruct
  shaderStages :: "PipelineShaderStageCreateInfo list"
  shaderModules :: "Handle option list"
  shaderGroups :: "RayTracingShaderGroupCreateInfoKHR list"
  descPool :: "Handle option"
  descSetLayout :: "Handle option"
  descSet :: "Handle option"
  pipeline :: "Handle option"
  pipelineLayout :: "Handle option"
  handleSizeAligned :: uint32
  raygenSBT :: Buffer
  missSBT :: Buffer
  hitSBT :: Buffer

definition Application_new :: Application where
  "Application_new =
     \<lparr>bottomAccel = AccelStruct_new, topAccel = AccelStruct_new,
      shaderStages = [], shaderModules = [], shaderGroups = [],
      descPool = None, descSetLayout = None, descSet = None,
      pipeline = None, pipelineLayout = None,
      handleSizeAligned = 0,
      raygenSBT = Buffer_new, missSBT = Buffer_new, hitSBT = Buffer_new\<rparr>"

definition newline :: string where
  "newline = [CHR 0x0A]"

subsection \<open>createBottomLevelAS\<close>

text \<open>
  The body of \<^verbatim>\<open>createBottomLevelAS\<close> for any contents of its two local vectors; the
  function itself runs it on the triangle of the source. \<^verbatim>\<open>size()\<close> is a 64-bit
  \<^verbatim>\<open>size_t\<close>. The locals \<^verbatim>\<open>indexBuffer\<close> and \<^verbatim>\<open>vertexBuffer\<close> are destroyed on return,
  the one declared last first.
\<close>

definition createBottomLevelAS_of ::
  "Vertex list \<Rightarrow> uint32 list \<Rightarrow> PhysicalDevice \<Rightarrow> Device \<Rightarrow> Application \<Rightarrow> World
     \<Rightarrow> Application Outcome" where
  "createBottomLevelAS_of vertices indices physicalDevice device app w =
     (let w1 = print (''Create BLAS'' @ newline) w;
          \<comment> \<open>Create vertex buffer and index buffer\<close>
          bufferUsage = {eAccelerationStructureBuildInputReadOnlyKHR, eShaderDeviceAddress};
          memoryProperty = {eHostVisible, eHostCoherent}
      in case Buffer_init physicalDevice device
                (word_of_nat (length vertices) * word_of_nat sizeof_Vertex)
                bufferUsage memoryProperty (vector_data bytes_of_Vertex vertices)
                Buffer_new w1 of
           Inl stop \<Rightarrow> Inl stop
         | Inr (vertexBuffer, w2) \<Rightarrow>
            (case Buffer_init physicalDevice device
                    (word_of_nat (length indices) * word_of_nat sizeof_uint32_t)
                    bufferUsage memoryProperty (vector_data le32 indices)
                    Buffer_new w2 of
               Inl stop \<Rightarrow> Inl stop
             | Inr (indexBuffer, w3) \<Rightarrow>
                (let \<comment> \<open>Create geometry\<close>
                     triangles =
                       \<lparr>vertexFormat = eR32G32B32Sfloat,
                        vertexData = address vertexBuffer,
                        vertexStride = word_of_nat sizeof_Vertex,
                        maxVertex = word_of_nat (length vertices),
                        indexType = eUint32,
                        indexData = address indexBuffer\<rparr>;
                     geometry' =
                       \<lparr>geometryType = eTriangles, geometry = Triangles triangles,
                        geometryFlags = {eOpaque}\<rparr>;
                     \<comment> \<open>Create and build BLAS\<close>
                     primitiveCount' = (word_of_nat (length indices div 3) :: uint32)
                 in case AccelStruct_init physicalDevice device eBottomLevel geometry'
                           primitiveCount' (bottomAccel app) w3 of
                      Inl stop \<Rightarrow> Inl stop
                    | Inr (accel1, w4) \<Rightarrow>
                       Inr (app\<lparr>bottomAccel := accel1\<rparr>,
                            Buffer_destroy vertexBuffer (Buffer_destroy indexBuffer w4)))))"

definition triangle_vertices :: "Vertex list" where
  "triangle_vertices =
     [\<lparr>pos = (f_1_0, f_1_0, f_0_0)\<rparr>,
      \<lparr>pos = (f_m1_0, f_1_0, f_0_0)\<rparr>,
      \<lparr>pos = (f_0_0, f_m1_0, f_0_0)\<rparr>]"

definition triangle_indices :: "uint32 list" where
  "triangle_indices = [0, 1, 2]"

definition createBottomLevelAS ::
  "PhysicalDevice \<Rightarrow> Device \<Rightarrow> Application \<Rightarrow> World \<Rightarrow> Application Outcome" where
  "createBottomLevelAS = createBottomLevelAS_of triangle_vertices triangle_indices"

subsection \<open>createTopLevelAS\<close>

definition createTopLevelAS ::
  "PhysicalDevice \<Rightarrow> Device \<Rightarrow> Application \<Rightarrow> World \<Rightarrow> Application Outcome" where
  "createTopLevelAS physicalDevice device app w =
     (let w1 = print (''Create TLAS'' @ newline) w;
          \<comment> \<open>Create instance\<close>
          transform' = [[f_1_0, f_0_0, f_0_0, f_0_0],
                        [f_0_0, f_1_0, f_0_0, f_0_0],
                        [f_0_0, f_0_0, f_1_0, f_0_0]];
          accelInstance =
            \<lparr>transform = transform',
             instanceCustomIndex = 0,
             mask = 0xFF,
             instanceShaderBindingTableRecordOffset = 0,
             instanceFlags = eTriangleFacingCullDisable,
             accelerationStructureReference = address (accelBuffer (bottomAccel app))\<rparr>
      in case Buffer_init physicalDevice device
                (word_of_nat sizeof_AccelerationStructureInstanceKHR)
                {eAccelerationStructureBuildInputReadOnlyKHR, eShaderDeviceAddress}
                {eHostVisible, eHostCoherent}
                (Some (bytes_of_AccelerationStructureInstanceKHR accelInstance))
                Buffer_new w1 of
           Inl stop \<Rightarrow> Inl stop
         | Inr (instanceBuffer, w2) \<Rightarrow>
            (let \<comment> \<open>Create geometry\<close>
                 instancesData = \<lparr>arrayOfPointers = False,
                                  instancesAddress = address instanceBuffer\<rparr>;
                 geometry' = \<lparr>geometryType = eInstances, geometry = Instances instancesData,
                              geometryFlags = {eOpaque}\<rparr>;
                 \<comment> \<open>Create and build TLAS\<close>
                 primitiveCount' = (1 :: uint32)
             in case AccelStruct_init physicalDevice device eTopLevel geometry'
                       primitiveCount' (topAccel app) w2 of
                  Inl stop \<Rightarrow> Inl stop
                | Inr (accel1, w3) \<Rightarrow>
                   Inr (app\<lparr>topAccel := accel1\<rparr>, Buffer_destroy instanceBuffer w3)))"

subsection \<open>addShader and prepareShaders\<close>

text \<open>
  \<^verbatim>\<open>addShader\<close> writes three vectors by index; an index outside a vector is undefined
  behaviour of \<^verbatim>\<open>operator[]\<close>. The module that the slot held before is destroyed by the
  assignment.
\<close>

definition addShader ::
  "uint32 \<Rightarrow> uint32 \<Rightarrow> string \<Rightarrow> ShaderStageFlagBits \<Rightarrow> Application \<Rightarrow> World
     \<Rightarrow> Application Outcome" where
  "addShader shaderIndex groupIndex filename stage' app w =
     (let (shaderModule, w1) = createShaderModule filename w;
          si = unat shaderIndex;
          gi = unat groupIndex
      in if \<not> (si < length (shaderModules app) \<and> si < length (shaderStages app)
                \<and> gi < length (shaderGroups app))
         then Inl (IndexOutOfRange, w1)
         else
          (let w2 = UniqueHandle_reset DestroyShaderModule (shaderModules app ! si)
                      shaderModule w1;
               modules = (shaderModules app)[si := Some shaderModule];
               stages = (shaderStages app)
                          [si := (shaderStages app ! si)
                                   \<lparr>stage := stage', module := modules ! si, pName := ''main''\<rparr>];
               cleared = (shaderGroups app ! gi)
                           \<lparr>generalShader := VK_SHADER_UNUSED_KHR,
                            closestHitShader := VK_SHADER_UNUSED_KHR,
                            anyHitShader := VK_SHADER_UNUSED_KHR,
                            intersectionShader := VK_SHADER_UNUSED_KHR\<rparr>;
               group =
                 (if stage' = eRaygenKHR \<or> stage' = eMissKHR
                  then cleared\<lparr>groupType := eGeneral, generalShader := shaderIndex\<rparr>
                  else if stage' = eClosestHitKHR
                  then cleared\<lparr>groupType := eTrianglesHitGroup, closestHitShader := shaderIndex\<rparr>
                  else cleared)
           in Inr (app\<lparr>shaderModules := modules, shaderStages := stages,
                       shaderGroups := (shaderGroups app)[gi := group]\<rparr>, w2)))"

text \<open>
  \<^verbatim>\<open>v.resize(n)\<close>: cut to the first \<open>n\<close> elements, or filled up with value-initialised
  ones. The elements cut off are destroyed, which for the shader modules is a call each;
  the order among them is that of libstdc++, front to back.
\<close>

definition resize :: "nat \<Rightarrow> 'a \<Rightarrow> 'a list \<Rightarrow> 'a list" where
  "resize n d v = take n v @ replicate (n - length v) d"

definition PipelineShaderStageCreateInfo_new :: PipelineShaderStageCreateInfo where
  "PipelineShaderStageCreateInfo_new = \<lparr>stage = eVertex, module = None, pName = []\<rparr>"

text \<open>
  The four shader slots of a value-initialised group are overwritten by \<^verbatim>\<open>addShader\<close>
  before anything reads them.
\<close>

definition RayTracingShaderGroupCreateInfoKHR_new :: RayTracingShaderGroupCreateInfoKHR where
  "RayTracingShaderGroupCreateInfoKHR_new =
     \<lparr>groupType = eGeneral, generalShader = 0, closestHitShader = 0, anyHitShader = 0,
      intersectionShader = 0\<rparr>"

definition prepareShaders :: "Application \<Rightarrow> World \<Rightarrow> Application Outcome" where
  "prepareShaders app w =
     (let w0 = print (''Prepare shaders'' @ newline) w;
          w1 = foldl (\<lambda>v held. UniqueHandle_destroy DestroyShaderModule held v) w0
                 (drop 3 (shaderModules app));
          app1 = app\<lparr>shaderStages := resize 3 PipelineShaderStageCreateInfo_new (shaderStages app),
                     shaderModules := resize 3 None (shaderModules app),
                     shaderGroups :=
                       resize 3 RayTracingShaderGroupCreateInfoKHR_new (shaderGroups app)\<rparr>
      in case addShader 0 0 ''raygen.rgen.spv'' eRaygenKHR app1 w1 of
           Inl stop \<Rightarrow> Inl stop
         | Inr (app2, w2) \<Rightarrow>
            (case addShader 1 1 ''miss.rmiss.spv'' eMissKHR app2 w2 of
               Inl stop \<Rightarrow> Inl stop
             | Inr (app3, w3) \<Rightarrow> addShader 2 2 ''closesthit.rchit.spv'' eClosestHitKHR app3 w3))"

subsection \<open>Descriptors\<close>

text \<open>
  The three descriptor functions configure objects that no other function here looks
  into; each is kept as the creation of its object and its assignment to the member.
\<close>

definition createDescriptorPool :: "Application \<Rightarrow> World \<Rightarrow> Application \<times> World" where
  "createDescriptorPool app w =
     (let (h, w1) = fresh w
      in (app\<lparr>descPool := Some h\<rparr>,
          UniqueHandle_reset DestroyDescriptorPool (descPool app) h
            (emit (CreateDescriptorPool h) w1)))"

definition createDescSetLayout :: "Application \<Rightarrow> World \<Rightarrow> Application \<times> World" where
  "createDescSetLayout app w =
     (let (h, w1) = fresh w
      in (app\<lparr>descSetLayout := Some h\<rparr>,
          UniqueHandle_reset DestroyDescriptorSetLayout (descSetLayout app) h
            (emit (CreateDescriptorSetLayout h) w1)))"

definition createDescriptorSet :: "Application \<Rightarrow> World \<Rightarrow> Application \<times> World" where
  "createDescriptorSet app w =
     (let w1 = print (''Create desc set'' @ newline) w;
          (h, w2) = fresh w1
      in (app\<lparr>descSet := Some h\<rparr>,
          UniqueHandle_reset FreeDescriptorSet (descSet app) h
            (emit (AllocateDescriptorSet h (descPool app) (descSetLayout app)) w2)))"

subsection \<open>createRayTracingPipeline\<close>

text \<open>
  The source is written for vulkan.hpp with exceptions: it assigns what
  \<^verbatim>\<open>createBufferUnique\<close> and the like return straight to a handle. There
  \<^verbatim>\<open>createRayTracingPipelineKHRUnique\<close> hands the result code to its caller only when it is
  \<^verbatim>\<open>eSuccess\<close>, \<^verbatim>\<open>eOperationDeferredKHR\<close>, \<^verbatim>\<open>eOperationNotDeferredKHR\<close> or
  \<^verbatim>\<open>ePipelineCompileRequiredEXT\<close>, and throws \<^verbatim>\<open>vk::SystemError\<close> for every other code
  before the check of the source is reached.
\<close>

definition createRayTracingPipeline ::
  "Device \<Rightarrow> Application \<Rightarrow> World \<Rightarrow> Application Outcome" where
  "createRayTracingPipeline device app w =
     (let w1 = print (''Create pipeline'' @ newline) w;
          \<comment> \<open>Create pipeline layout\<close>
          (l, w2) = fresh w1;
          w3 = UniqueHandle_reset DestroyPipelineLayout (pipelineLayout app) l
                 (emit (CreatePipelineLayout l (descSetLayout app)) w2);
          app1 = app\<lparr>pipelineLayout := Some l\<rparr>;
          \<comment> \<open>Create pipeline\<close>
          pipelineCreateInfo =
            \<lparr>pipelineStages = shaderStages app1, pipelineGroups = shaderGroups app1,
             maxPipelineRayRecursionDepth = 1, layout = pipelineLayout app1\<rparr>;
          (p, w4) = fresh w3;
          w5 = emit (CreateRayTracingPipeline p pipelineCreateInfo) w4;
          result = createRayTracingPipelineKHR device pipelineCreateInfo
      in if result \<notin> {eSuccess, eOperationDeferredKHR, eOperationNotDeferredKHR,
                       ePipelineCompileRequiredEXT}
         then Inl (SystemError result, w5)
         else if result \<noteq> eSuccess
         then Inl (FailedToCreateRayTracingPipeline,
                   printErr (''Failed to create ray tracing pipeline.'' @ newline) w5)
         else Inr (app1\<lparr>pipeline := Some p\<rparr>,
                   UniqueHandle_reset DestroyPipeline (pipeline app1) p w5))"

subsection \<open>createShaderBindingTable\<close>

text \<open>
  \<^verbatim>\<open>shaderHandleStorage\<close> is a vector of \<^verbatim>\<open>sbtSize\<close> bytes that the driver fills; the
  three uploads read it from \<^verbatim>\<open>data() + i * handleSizeAligned\<close> on. The product
  \<^verbatim>\<open>i * handleSizeAligned\<close> is computed in \<^verbatim>\<open>uint32_t\<close>.
\<close>

definition createShaderBindingTable ::
  "PhysicalDevice \<Rightarrow> Device \<Rightarrow> Application \<Rightarrow> World \<Rightarrow> Application Outcome" where
  "createShaderBindingTable physicalDevice device app w =
     (let \<comment> \<open>Get RT props\<close>
          ((handleSize, handleAlignment), w1) = getRayTracingProps physicalDevice w
      in case getAlignedSize handleSize handleAlignment of
           None \<Rightarrow> Inl (DivisionByZero, w1)
         | Some aligned \<Rightarrow>
            (let app1 = app\<lparr>handleSizeAligned := aligned\<rparr>;
                 groupCount = (word_of_nat (length (shaderGroups app1)) :: uint32);
                 sbtSize = groupCount * handleSizeAligned app1;
                 \<comment> \<open>Get shader group handles\<close>
                 (result, filled) =
                    getRayTracingShaderGroupHandlesKHR device (pipeline app1) 0 groupCount
                      (unat sbtSize);
                 shaderHandleStorage = map filled [0 ..< unat sbtSize];
                 w2 = emit (GetRayTracingShaderGroupHandles (pipeline app1) 0 groupCount
                              (unat sbtSize)) w1
             in if result \<noteq> eSuccess
                then Inl (FailedToGetShaderGroupHandles,
                          printErr (''Failed to get ray tracing shader group handles.''
                                    @ newline) w2)
                else
                 (let \<comment> \<open>Create SBT\<close>
                      sbtBufferUsage = {eShaderBindingTableKHR, eTransferSrc,
                                        eShaderDeviceAddress};
                      sbtMemoryProperty = {eHostVisible, eHostCoherent}
                  in case Buffer_init physicalDevice device (ucast handleSize)
                            sbtBufferUsage sbtMemoryProperty
                            (pointer_add (vector_data (\<lambda>b. [b]) shaderHandleStorage)
                                     (unat (0 * handleSizeAligned app1)))
                            (raygenSBT app1) w2 of
                       Inl stop \<Rightarrow> Inl stop
                     | Inr (raygen, w3) \<Rightarrow>
                        (case Buffer_init physicalDevice device (ucast handleSize)
                                sbtBufferUsage sbtMemoryProperty
                                (pointer_add (vector_data (\<lambda>b. [b]) shaderHandleStorage)
                                     (unat (1 * handleSizeAligned app1)))
                                (missSBT app1) w3 of
                           Inl stop \<Rightarrow> Inl stop
                         | Inr (miss, w4) \<Rightarrow>
                            (case Buffer_init physicalDevice device (ucast handleSize)
                                    sbtBufferUsage sbtMemoryProperty
                                    (pointer_add (vector_data (\<lambda>b. [b]) shaderHandleStorage)
                                     (unat (2 * handleSizeAligned app1)))
                                    (hitSBT app1) w4 of
                               Inl stop \<Rightarrow> Inl stop
                             | Inr (hit, w5) \<Rightarrow>
                                Inr (app1\<lparr>raygenSBT := raygen, missSBT := miss,
                                          hitSBT := hit\<rparr>, w5))))))"

subsection \<open>initVulkan\<close>

text \<open>
  \<^verbatim>\<open>initVulkan\<close> from \<^verbatim>\<open>createBottomLevelAS()\<close> on; what it does before (instance,
  device, queue, command pool, swapchain) builds the outside world the rest runs in.
\<close>

definition initVulkan ::
  "PhysicalDevice \<Rightarrow> Device \<Rightarrow> Application \<Rightarrow> World \<Rightarrow> Application Outcome" where
  "initVulkan physicalDevice device app w =
     (case createBottomLevelAS physicalDevice device app w of
        Inl stop \<Rightarrow> Inl stop
      | Inr (app1, w1) \<Rightarrow>
         (case createTopLevelAS physicalDevice device app1 w1 of
            Inl stop \<Rightarrow> Inl stop
          | Inr (app2, w2) \<Rightarrow>
             (case prepareShaders app2 w2 of
                Inl stop \<Rightarrow> Inl stop
              | Inr (app3, w3) \<Rightarrow>
                 (let (app4, w4) = createDescriptorPool app3 w3;
                      (app5, w5) = createDescSetLayout app4 w4;
                      (app6, w6) = createDescriptorSet app5 w5
                  in case createRayTracingPipeline device app6 w6 of
                       Inl stop \<Rightarrow> Inl stop
                     | Inr (app7, w7) \<Rightarrow>
                        createShaderBindingTable physicalDevice device app7 w7))))"

section \<open>Observing a run\<close>

text \<open>The calls issued by the time a function returned or the process ended.\<close>

definition calls_of :: "'a Outcome \<Rightarrow> Call list" where
  "calls_of r = (case r of Inl (fatal, w) \<Rightarrow> calls w | Inr (x, w) \<Rightarrow> calls w)"

text \<open>What a function returned, if it returned.\<close>

definition value_of :: "'a Outcome \<Rightarrow> 'a option" where
  "value_of r = (case r of Inl stop \<Rightarrow> None | Inr (x, w) \<Rightarrow> Some x)"


definition world_of :: "'a Outcome \<Rightarrow> World" where
  "world_of r = (case r of Inl (fatal, w) \<Rightarrow> w | Inr (x, w) \<Rightarrow> w)"

text \<open>
  The call, if any, by which the assignment of the new object \<open>new\<close> to a unique handle
  destroys the object \<open>held\<close> before.
\<close>

definition released :: "(Handle \<Rightarrow> Call) \<Rightarrow> Handle option \<Rightarrow> Handle \<Rightarrow> Call list" where
  "released destroy held new =
     (case held of
        None \<Rightarrow> []
      | Some h \<Rightarrow> if h = new then [] else [destroy h])"

text \<open>
  The copy step of \<^verbatim>\<open>Buffer::init\<close> seen from outside: the calls it issues on memory
  \<open>m\<close>, and what it leaves in that memory.
\<close>

definition upload_calls :: "Handle \<Rightarrow> DeviceSize \<Rightarrow> uint8 list option \<Rightarrow> Call list" where
  "upload_calls m s data =
     (case data of
        None \<Rightarrow> []
      | Some bytes \<Rightarrow> [MapMemory m 0 s, Memcpy m (take (unat s) bytes), UnmapMemory m])"

definition uploaded ::
  "DeviceSize \<Rightarrow> uint8 list option \<Rightarrow> (nat \<Rightarrow> uint8 option) \<Rightarrow> nat \<Rightarrow> uint8 option" where
  "uploaded s data old =
     (case data of None \<Rightarrow> old | Some bytes \<Rightarrow> overwrite (take (unat s) bytes) old)"

text \<open>The calls issued between two states of the world.\<close>

definition calls_since :: "World \<Rightarrow> World \<Rightarrow> Call list" where
  "calls_since w w' = drop (length (calls w)) (calls w')"

text \<open>
  \<open>occursInOrder [P1, ..., Pn] tr\<close>: the trace has calls at positions
  \<open>i1 < ... < in\<close> that satisfy \<open>P1\<close>, ..., \<open>Pn\<close>.
\<close>

fun occursInOrder :: "('a \<Rightarrow> bool) list \<Rightarrow> 'a list \<Rightarrow> bool" where
  "occursInOrder [] tr = True"
| "occursInOrder (P # Ps) [] = False"
| "occursInOrder (P # Ps) (c # tr) =
     (if P c then occursInOrder Ps tr else occursInOrder (P # Ps) tr)"

definition isCreateBuffer :: "Call \<Rightarrow> bool" where
  "isCreateBuffer c = (case c of CreateBuffer b s u \<Rightarrow> True | _ \<Rightarrow> False)"

definition isGetRayTracingShaderGroupHandles :: "Call \<Rightarrow> bool" where
  "isGetRayTracingShaderGroupHandles c =
     (case c of GetRayTracingShaderGroupHandles p f n s \<Rightarrow> True | _ \<Rightarrow> False)"

definition isCreateRayTracingPipeline :: "Call \<Rightarrow> bool" where
  "isCreateRayTracingPipeline c =
     (case c of CreateRayTracingPipeline p i \<Rightarrow> True | _ \<Rightarrow> False)"

definition isBuild :: "Call \<Rightarrow> bool" where
  "isBuild c = (case c of CmdBuildAccelerationStructures cb i r \<Rightarrow> True | _ \<Rightarrow> False)"

text \<open>
  The GPU has a memory type for each of the two kinds of memory the program asks for,
  whatever the buffer.
\<close>

definition provisioned :: "PhysicalDevice \<Rightarrow> Device \<Rightarrow> bool" where
  "provisioned physicalDevice device \<longleftrightarrow>
     (\<forall>s u. \<exists>t. getMemoryType physicalDevice (getBufferMemoryRequirements device s u)
                   {eDeviceLocal} = Inr t)
   \<and> (\<forall>s u. \<exists>t. getMemoryType physicalDevice (getBufferMemoryRequirements device s u)
                   {eHostVisible, eHostCoherent} = Inr t)"

text \<open>The memory type \<^verbatim>\<open>Buffer::init\<close> ends up with on such a GPU.\<close>

definition memoryTypeOf ::
  "PhysicalDevice \<Rightarrow> Device \<Rightarrow> DeviceSize \<Rightarrow> BufferUsageFlags \<Rightarrow> MemoryPropertyFlags \<Rightarrow> uint32" where
  "memoryTypeOf physicalDevice device s u p =
     (case getMemoryType physicalDevice (getBufferMemoryRequirements device s u) p of
        Inl fatal \<Rightarrow> 0
      | Inr t \<Rightarrow> t)"

section \<open>A sample GPU\<close>

text \<open>
  A GPU to run the program on: device-local memory as type 0 and host-visible coherent
  memory as type 1, buffer memory in units of 256 bytes, shader-group handles of 32 bytes
  aligned to 64, and as handle data the byte \<open>i mod 256\<close> at position \<open>i\<close>.
\<close>

definition sample_physicalDevice :: PhysicalDevice where
  "sample_physicalDevice =
     \<lparr>memoryTypes = [{eDeviceLocal}, {eHostVisible, eHostCoherent}],
      shaderGroupHandleSize = 32, shaderGroupHandleAlignment = 64\<rparr>"

definition sample_device :: Device where
  "sample_device =
     \<lparr>getBufferMemoryRequirements =
        (\<lambda>s u. \<lparr>size_req = ((s + 255) div 256) * 256, alignment_req = 256,
                 memoryTypeBits = 3\<rparr>),
      getBufferAddressKHR = (\<lambda>h. or 0x10000 (push_bit 8 (word_of_nat h))),
      getAccelerationStructureBuildSizesKHR =
        (\<lambda>t g n. \<lparr>accelerationStructureSize = 1024, updateScratchSize = 0,
                   buildScratchSize = 512\<rparr>),
      getAccelerationStructureAddressKHR = (\<lambda>h. or 0x20000 (push_bit 8 (word_of_nat h))),
      createRayTracingPipelineKHR = (\<lambda>i. eSuccess),
      getRayTracingShaderGroupHandlesKHR = (\<lambda>p f n s. (eSuccess, \<lambda>i. word_of_nat i))\<rparr>"

text \<open>The world when \<^verbatim>\<open>initVulkan\<close> reaches \<^verbatim>\<open>createBottomLevelAS\<close>, seen from there.\<close>

definition World_start :: World where
  "World_start =
     \<lparr>nextHandle = 0, hostMemory = (\<lambda>m i. None), calls = [], cout = [], cerr = []\<rparr>"


section \<open>Properties of the aligned handle size\<close>

lemma ceiling_div_nat:
  fixes h a :: nat
  assumes "0 < a"
  shows "\<lceil>real h / real a\<rceil> = int ((h + a - 1) div a)"
proof -
  define q where "q = (h + a - 1) div a"
  have up: "h \<le> q * a"
  proof -
    have "h + a - 1 < (q + 1) * a"
      unfolding q_def using assms
      by (metis Suc_eq_plus1 dividend_less_div_times mult.commute mult_Suc_right add.commute)
    then show ?thesis using assms by (simp add: algebra_simps)
  qed
  have lo: "q * a < h + a"
  proof -
    have "q * a \<le> h + a - 1" unfolding q_def by simp
    then show ?thesis using assms by linarith
  qed
  have "real h / real a \<le> real q"
    using up assms by (simp add: divide_le_eq flip: of_nat_mult)
  moreover have "real q - 1 < real h / real a"
  proof -
    have "real (q * a) < real (h + a)" using lo by (simp only: of_nat_less_iff)
    then have "(real q - 1) * real a < real h" by (simp add: algebra_simps)
    then show ?thesis using assms by (simp add: less_divide_eq)
  qed
  ultimately have "\<lceil>real h / real a\<rceil> = int q"
    by (simp add: ceiling_eq_iff)
  then show ?thesis by (simp add: q_def)
qed

lemma aligned_unat:
  fixes h a :: uint32
  assumes a: "0 < a" and fits: "unat h + unat a \<le> 2 ^ 32"
  shows "unat (((h + a - 1) div a) * a) = ((unat h + unat a - 1) div unat a) * unat a"
proof -
  have a1: "1 \<le> unat a" using a by (simp add: word_less_nat_alt)
  have ha: "h + a - 1 = h + (a - 1)" by simp
  have am: "unat (a - 1) = unat a - 1"
    using a1 by (simp add: unat_sub word_le_nat_alt)
  have s: "unat (h + a - 1) = unat h + unat a - 1"
    unfolding ha using a1 fits am
    by (simp add: unat_word_ariths)
  have d: "unat ((h + a - 1) div a) = (unat h + unat a - 1) div unat a"
    by (simp add: unat_div s)
  have "(unat h + unat a - 1) div unat a * unat a \<le> unat h + unat a - 1"
    by simp
  then have lt: "(unat h + unat a - 1) div unat a * unat a < 2 ^ 32"
    using fits a1 by linarith
  have "unat (((h + a - 1) div a) * a) = (unat ((h + a - 1) div a) * unat a) mod 2 ^ 32"
    by (simp only: unat_word_ariths) simp
  also have "\<dots> = ((unat h + unat a - 1) div unat a * unat a) mod 2 ^ 32"
    by (simp only: d)
  also have "\<dots> = (unat h + unat a - 1) div unat a * unat a"
    using lt by simp
  finally show ?thesis .
qed

lemma round_up_ge:
  fixes h a :: nat
  assumes "0 < a"
  shows "h \<le> ((h + a - 1) div a) * a"
proof -
  have "h + a - 1 < ((h + a - 1) div a + 1) * a"
    using assms
    by (metis Suc_eq_plus1 dividend_less_div_times mult.commute mult_Suc_right add.commute)
  then show ?thesis using assms by (simp add: algebra_simps)
qed

text \<open>
  C4, as stated, at the largest handle size: \<^verbatim>\<open>0xFFFFFFFF + 2 - 1\<close> wraps to 0 in
  \<^verbatim>\<open>uint32_t\<close>, so the aligned size is 0, which is below the handle size (and is not
  \<open>2 * ceil(0xFFFFFFFF / 2) = 2 ^ 32\<close>).
\<close>

theorem getAlignedSize_wraps_around:
  "0 < (0xFFFFFFFF :: uint32) \<and> 0 < (2 :: uint32)
   \<and> getAlignedSize 0xFFFFFFFF 2 = Some 0
   \<and> \<not> (0xFFFFFFFF :: uint32) \<le> 0
   \<and> int (unat (0 :: uint32)) \<noteq> int (unat (2 :: uint32)) * \<lceil>real (unat (0xFFFFFFFF :: uint32)) / real (unat (2 :: uint32))\<rceil>"
proof -
  have c: "\<lceil>real (4294967295::nat) / real (2::nat)\<rceil> = int ((4294967295 + 2 - 1) div 2)"
    by (rule ceiling_div_nat) simp
  show ?thesis
    using c by (simp add: getAlignedSize_def)
qed

text \<open>
  C4 (amended): for every raw handle size \<open>h > 0\<close> and alignment \<open>a > 0\<close> for which
  \<open>h + a - 1\<close> fits in 32 bits, the computed aligned handle size is
  \<open>((h + a - 1) / a) * a\<close> in integer arithmetic, which is \<open>a * ceil(h / a)\<close>; it is a
  multiple of \<open>a\<close> and at least \<open>h\<close>.
\<close>

theorem getAlignedSize_rounds_up:
  fixes h a :: uint32
  assumes "0 < h" and "0 < a" and "unat h + unat a \<le> 2 ^ 32"
  shows "\<exists>r. getAlignedSize h a = Some r
           \<and> unat r = ((unat h + unat a - 1) div unat a) * unat a
           \<and> int (unat r) = int (unat a) * \<lceil>real (unat h) / real (unat a)\<rceil>
           \<and> unat a dvd unat r
           \<and> h \<le> r"
proof -
  define r where "r = ((h + a - 1) div a) * a"
  have a0: "a \<noteq> 0" using assms(2) by auto
  have ua: "0 < unat a" using assms(2) by (simp add: word_less_nat_alt)
  have u: "unat r = ((unat h + unat a - 1) div unat a) * unat a"
    unfolding r_def using assms(2,3) by (rule aligned_unat)
  have "int (unat r) = int (unat a) * int ((unat h + unat a - 1) div unat a)"
    by (simp only: u of_nat_mult mult.commute)
  also have "int ((unat h + unat a - 1) div unat a) = \<lceil>real (unat h) / real (unat a)\<rceil>"
    by (rule ceiling_div_nat [OF ua, symmetric])
  finally have c: "int (unat r) = int (unat a) * \<lceil>real (unat h) / real (unat a)\<rceil>" .
  have d: "unat a dvd unat r" by (simp add: u)
  have "unat h \<le> unat r" unfolding u using ua by (rule round_up_ge)
  then have g: "h \<le> r" by (simp add: word_le_nat_alt)
  have "getAlignedSize h a = Some r" using a0 by (simp add: getAlignedSize_def r_def)
  with u c d g show ?thesis by blast
qed

theorem getAlignedSize_rounds_up_witness:
  "0 < (32 :: uint32) \<and> 0 < (64 :: uint32) \<and> unat (32 :: uint32) + unat (64 :: uint32) \<le> 2 ^ 32
   \<and> (\<exists>r. getAlignedSize 32 64 = Some r \<and> unat r = 64 \<and> unat (64 :: uint32) dvd unat r
          \<and> (32 :: uint32) \<le> r)"
  using getAlignedSize_rounds_up [of 32 64] by (simp add: getAlignedSize_def)

section \<open>Symbolic execution of the program\<close>

lemma UniqueHandle_reset_calls:
  "UniqueHandle_reset destroy held new w = w\<lparr>calls := calls w @ released destroy held new\<rparr>"
  by (simp add: UniqueHandle_reset_def released_def emit_def split: option.splits)

lemma UniqueHandle_destroy_calls:
  "UniqueHandle_destroy destroy held w
     = w\<lparr>calls := calls w @ (case held of None \<Rightarrow> [] | Some h \<Rightarrow> [destroy h])\<rparr>"
  by (simp add: UniqueHandle_destroy_def emit_def split: option.splits)

lemma released_None [simp]: "released destroy None new = []"
  by (simp add: released_def)

lemmas world_defs = emit_def fresh_def print_def printErr_def memcpy_def oneTimeSubmit_def
  Buffer_destroy_def UniqueHandle_reset_calls

lemma Buffer_init_found:
  assumes "getMemoryType pd (getBufferMemoryRequirements dev s u) p = Inr ty"
      and "\<forall>bytes. data = Some bytes \<longrightarrow> unat s \<le> length bytes"
  shows "Buffer_init pd dev s u p data self w =
     Inr (\<lparr>buffer = Some (nextHandle w), memory = Some (Suc (nextHandle w)),
            address = (if eShaderDeviceAddress \<in> u then getBufferAddressKHR dev (nextHandle w)
                       else address self)\<rparr>,
          w\<lparr>nextHandle := Suc (Suc (nextHandle w)),
            hostMemory :=
              (hostMemory w)
                (Suc (nextHandle w) := uploaded s data (hostMemory w (Suc (nextHandle w)))),
            calls := calls w @
              CreateBuffer (nextHandle w) s u
              # released DestroyBuffer (buffer self) (nextHandle w)
              @ GetBufferMemoryRequirements (nextHandle w)
              # AllocateMemory (Suc (nextHandle w))
                 (size_req (getBufferMemoryRequirements dev s u)) ty
                 (if eShaderDeviceAddress \<in> u then {eDeviceAddress} else {})
              # released FreeMemory (memory self) (Suc (nextHandle w))
              @ BindBufferMemory (nextHandle w) (Suc (nextHandle w)) 0
              # upload_calls (Suc (nextHandle w)) s data
              @ (if eShaderDeviceAddress \<in> u then [GetBufferAddress (nextHandle w)] else [])\<rparr>)"
proof (cases data)
  case None
  then show ?thesis using assms(1)
    by (simp add: Buffer_init_def Let_def world_defs upload_calls_def uploaded_def)
next
  case (Some bytes)
  then have le: "unat s \<le> length bytes" using assms(2) by simp
  show ?thesis using assms(1) Some le
    by (simp add: Buffer_init_def Let_def world_defs upload_calls_def uploaded_def)
qed

lemma Buffer_init_Inr:
  assumes "Buffer_init pd dev s u p data self w = Inr (self', w')"
  shows "\<exists>ty. getMemoryType pd (getBufferMemoryRequirements dev s u) p = Inr ty
            \<and> (\<forall>bytes. data = Some bytes \<longrightarrow> unat s \<le> length bytes)"
  using assms
  by (auto simp: Buffer_init_def Let_def fresh_def
           split: sum.splits option.splits if_splits prod.splits)

lemma Buffer_init_InrD:
  assumes "Buffer_init pd dev s u p data self w = Inr (self', w')"
  shows "\<exists>ty. getMemoryType pd (getBufferMemoryRequirements dev s u) p = Inr ty
            \<and> (\<forall>bytes. data = Some bytes \<longrightarrow> unat s \<le> length bytes)
            \<and> Buffer_init pd dev s u p data self w =
     Inr (\<lparr>buffer = Some (nextHandle w), memory = Some (Suc (nextHandle w)),
            address = (if eShaderDeviceAddress \<in> u then getBufferAddressKHR dev (nextHandle w)
                       else address self)\<rparr>,
          w\<lparr>nextHandle := Suc (Suc (nextHandle w)),
            hostMemory :=
              (hostMemory w)
                (Suc (nextHandle w) := uploaded s data (hostMemory w (Suc (nextHandle w)))),
            calls := calls w @
              CreateBuffer (nextHandle w) s u
              # released DestroyBuffer (buffer self) (nextHandle w)
              @ GetBufferMemoryRequirements (nextHandle w)
              # AllocateMemory (Suc (nextHandle w))
                 (size_req (getBufferMemoryRequirements dev s u)) ty
                 (if eShaderDeviceAddress \<in> u then {eDeviceAddress} else {})
              # released FreeMemory (memory self) (Suc (nextHandle w))
              @ BindBufferMemory (nextHandle w) (Suc (nextHandle w)) 0
              # upload_calls (Suc (nextHandle w)) s data
              @ (if eShaderDeviceAddress \<in> u then [GetBufferAddress (nextHandle w)] else [])\<rparr>)"
proof -
  from Buffer_init_Inr [OF assms] obtain ty where
    t: "getMemoryType pd (getBufferMemoryRequirements dev s u) p = Inr ty"
    and d: "\<forall>bytes. data = Some bytes \<longrightarrow> unat s \<le> length bytes" by blast
  from t d Buffer_init_found [OF t d, of self w] show ?thesis by blast
qed

lemma map_overwrite:
  "n \<le> length bs \<Longrightarrow> map (overwrite bs old) [0..<n] = map Some (take n bs)"
  by (rule nth_equalityI) (simp_all add: overwrite_def)

text \<open>
  C8: for every requested size \<open>s\<close> and every usage and memory-property combination for
  which a memory type exists, \<^verbatim>\<open>Buffer::init\<close> returns, having allocated backing memory of
  exactly the size the memory-requirements query reported and bound the buffer to it at
  offset 0; on a device that reports at least the requested size, as Vulkan guarantees,
  the backing memory is at least \<open>s\<close> bytes. This holds for every receiver: when it
  already holds a buffer or memory, these are destroyed right after the new ones are
  created. (The claim asks for \<open>s > 0\<close>; the theorem holds for every \<open>s\<close>.)
\<close>

theorem Buffer_init_backing_memory:
  assumes valid: "getMemoryType pd (getBufferMemoryRequirements dev s u) p = Inr ty"
      and reported: "s \<le> size_req (getBufferMemoryRequirements dev s u)"
      and src: "\<forall>bytes. data = Some bytes \<longrightarrow> unat s \<le> length bytes"
  shows "\<exists>self' w' b m n rest.
           Buffer_init pd dev s u p data self w = Inr (self', w')
         \<and> buffer self' = Some b \<and> memory self' = Some m
         \<and> n = size_req (getBufferMemoryRequirements dev s u)
         \<and> calls_since w w' =
             [CreateBuffer b s u] @ released DestroyBuffer (buffer self) b
             @ [GetBufferMemoryRequirements b,
                AllocateMemory m n ty
                  (if eShaderDeviceAddress \<in> u then {eDeviceAddress} else {})]
             @ released FreeMemory (memory self) m
             @ [BindBufferMemory b m 0] @ rest
         \<and> s \<le> n
         \<and> (\<forall>c \<in> set rest. c \<in> {MapMemory m 0 s, UnmapMemory m, GetBufferAddress b}
                             \<or> (\<exists>bytes. c = Memcpy m bytes))"
proof -
  note run = Buffer_init_found [OF valid src, of self w]
  show ?thesis
    unfolding run using reported
    by (cases data) (auto simp: calls_since_def upload_calls_def)
qed

text \<open>C8 on the sample GPU: a buffer of 36 bytes gets 256 bytes of memory of type 1.\<close>

theorem Buffer_init_backing_memory_witness:
  "getMemoryType sample_physicalDevice
     (getBufferMemoryRequirements sample_device 36 {eTransferSrc}) {eHostVisible, eHostCoherent}
     = Inr 1
   \<and> (36 :: DeviceSize) \<le> size_req (getBufferMemoryRequirements sample_device 36 {eTransferSrc})
   \<and> (\<exists>self' w' b m rest.
         Buffer_init sample_physicalDevice sample_device 36 {eTransferSrc}
           {eHostVisible, eHostCoherent} None Buffer_new World_start = Inr (self', w')
       \<and> buffer self' = Some b \<and> memory self' = Some m
       \<and> calls_since World_start w' =
           [CreateBuffer b 36 {eTransferSrc}, GetBufferMemoryRequirements b,
            AllocateMemory m 256 1 {}, BindBufferMemory b m 0] @ rest)"
proof -
  have v: "getMemoryType sample_physicalDevice
     (getBufferMemoryRequirements sample_device 36 {eTransferSrc}) {eHostVisible, eHostCoherent}
     = Inr 1"
    by (simp add: getMemoryType_def sample_physicalDevice_def sample_device_def upt_rec)
  have r: "(36 :: DeviceSize) \<le> size_req (getBufferMemoryRequirements sample_device 36 {eTransferSrc})"
    by (simp add: sample_device_def)
  have d: "\<forall>bytes. (None :: uint8 list option) = Some bytes \<longrightarrow> unat (36 :: DeviceSize) \<le> length bytes"
    by simp
  have n: "size_req (getBufferMemoryRequirements sample_device 36 {eTransferSrc}) = 256"
    by (simp add: sample_device_def)
  have e: "released destroy (buffer Buffer_new) x = []"
          "released destroy (memory Buffer_new) x = []" for destroy x
    by (simp_all add: Buffer_new_def)
  from Buffer_init_backing_memory [OF v r d, of Buffer_new World_start]
  obtain self' w' b m rest where
    "Buffer_init sample_physicalDevice sample_device 36 {eTransferSrc}
           {eHostVisible, eHostCoherent} None Buffer_new World_start = Inr (self', w')"
    "buffer self' = Some b" "memory self' = Some m"
    "calls_since World_start w' =
           [CreateBuffer b 36 {eTransferSrc}, GetBufferMemoryRequirements b,
            AllocateMemory m 256 1 {}, BindBufferMemory b m 0] @ rest"
    unfolding n e by auto
  then show ?thesis using v r by blast
qed

text \<open>
  C7, as stated, on the sample GPU: for a buffer of 4 bytes the driver asks for 256
  bytes of memory, and \<^verbatim>\<open>Buffer::init\<close> maps the 4 bytes from offset 0 of that memory
  object, not its full range.
\<close>

theorem Buffer_init_maps_buffer_extent_only:
  "calls_of (Buffer_init sample_physicalDevice sample_device 4 {eTransferSrc}
               {eHostVisible, eHostCoherent} (Some [1, 2, 3, 4]) Buffer_new World_start)
     = [CreateBuffer 0 4 {eTransferSrc}, GetBufferMemoryRequirements 0,
        AllocateMemory 1 256 1 {}, BindBufferMemory 0 1 0,
        MapMemory 1 0 4, Memcpy 1 [1, 2, 3, 4], UnmapMemory 1]
   \<and> (4 :: DeviceSize) < 256"
proof -
  have v: "getMemoryType sample_physicalDevice
     (getBufferMemoryRequirements sample_device 4 {eTransferSrc}) {eHostVisible, eHostCoherent}
     = Inr 1"
    by (simp add: getMemoryType_def sample_physicalDevice_def sample_device_def upt_rec)
  have d: "\<forall>bs. Some [1, 2, 3, 4 :: uint8] = Some bs \<longrightarrow> unat (4 :: DeviceSize) \<le> length bs"
    by simp
  show ?thesis
    unfolding Buffer_init_found [OF v d]
    by (simp add: calls_of_def World_start_def sample_device_def upload_calls_def Buffer_new_def)
qed

text \<open>
  C7 (amended): in \<^verbatim>\<open>Buffer::init\<close>, when the data pointer is non-null and \<open>size\<close> bytes
  are readable behind it, the range of \<open>size\<close> bytes from offset 0 of the memory is mapped
  (the extent of the buffer, which is the whole memory object only when the driver asks
  for no more than \<open>size\<close> bytes), exactly \<open>size\<close> bytes are copied from the source, and
  the memory is unmapped; reading the mapped bytes back yields the source bytes. The
  calls are given in full, for every receiver.
\<close>

theorem Buffer_init_upload_roundtrip:
  assumes valid: "getMemoryType pd (getBufferMemoryRequirements dev s u) p = Inr ty"
      and src: "unat s \<le> length bytes"
  shows "\<exists>self' w' b m.
           Buffer_init pd dev s u p (Some bytes) self w = Inr (self', w')
         \<and> buffer self' = Some b \<and> memory self' = Some m
         \<and> calls_since w w' =
             [CreateBuffer b s u] @ released DestroyBuffer (buffer self) b
             @ [GetBufferMemoryRequirements b,
                AllocateMemory m (size_req (getBufferMemoryRequirements dev s u)) ty
                  (if eShaderDeviceAddress \<in> u then {eDeviceAddress} else {})]
             @ released FreeMemory (memory self) m
             @ [BindBufferMemory b m 0,
                MapMemory m 0 s, Memcpy m (take (unat s) bytes), UnmapMemory m]
             @ (if eShaderDeviceAddress \<in> u then [GetBufferAddress b] else [])
         \<and> readMapped w' m (unat s) = map Some (take (unat s) bytes)"
proof -
  have d: "\<forall>bs. Some bytes = Some bs \<longrightarrow> unat s \<le> length bs" using src by simp
  show ?thesis
    unfolding Buffer_init_found [OF valid d] using src
    by (simp add: calls_since_def readMapped_def map_overwrite upload_calls_def uploaded_def)
qed

text \<open>C7 (amended) on the sample GPU: four bytes written, the same four read back.\<close>

theorem Buffer_init_upload_roundtrip_witness:
  "getMemoryType sample_physicalDevice
     (getBufferMemoryRequirements sample_device 4 {eTransferSrc}) {eHostVisible, eHostCoherent}
     = Inr 1
   \<and> unat (4 :: DeviceSize) \<le> length [1, 2, 3, 4 :: uint8]
   \<and> (\<exists>self' w' m.
         Buffer_init sample_physicalDevice sample_device 4 {eTransferSrc}
           {eHostVisible, eHostCoherent} (Some [1, 2, 3, 4]) Buffer_new World_start
           = Inr (self', w')
       \<and> memory self' = Some m
       \<and> readMapped w' m 4 = [Some 1, Some 2, Some 3, Some 4])"
proof -
  have v: "getMemoryType sample_physicalDevice
     (getBufferMemoryRequirements sample_device 4 {eTransferSrc}) {eHostVisible, eHostCoherent}
     = Inr 1"
    by (simp add: getMemoryType_def sample_physicalDevice_def sample_device_def upt_rec)
  have l: "unat (4 :: DeviceSize) \<le> length [1, 2, 3, 4 :: uint8]" by simp
  from Buffer_init_upload_roundtrip [OF v l, of Buffer_new World_start]
  obtain self' w' m where
    "Buffer_init sample_physicalDevice sample_device 4 {eTransferSrc}
           {eHostVisible, eHostCoherent} (Some [1, 2, 3, 4]) Buffer_new World_start
           = Inr (self', w')"
    "memory self' = Some m"
    "readMapped w' m 4 = [Some 1, Some 2, Some 3, Some 4]"
    by auto
  then show ?thesis using v l by blast
qed

section \<open>Acceleration structures\<close>

lemma provisioned_local:
  "provisioned pd dev \<Longrightarrow>
   getMemoryType pd (getBufferMemoryRequirements dev s u) {eDeviceLocal}
     = Inr (memoryTypeOf pd dev s u {eDeviceLocal})"
  unfolding provisioned_def memoryTypeOf_def
  by (metis sum.simps(6))

lemma provisioned_host:
  "provisioned pd dev \<Longrightarrow>
   getMemoryType pd (getBufferMemoryRequirements dev s u) {eHostVisible, eHostCoherent}
     = Inr (memoryTypeOf pd dev s u {eHostVisible, eHostCoherent})"
  unfolding provisioned_def memoryTypeOf_def
  by (metis sum.simps(6))

lemma sample_local:
  "getMemoryType sample_physicalDevice (getBufferMemoryRequirements sample_device s u)
     {eDeviceLocal} = Inr 0"
  by (simp add: getMemoryType_def sample_physicalDevice_def sample_device_def upt_rec)

lemma sample_host:
  "getMemoryType sample_physicalDevice (getBufferMemoryRequirements sample_device s u)
     {eHostVisible, eHostCoherent} = Inr 1"
  by (simp add: getMemoryType_def sample_physicalDevice_def sample_device_def upt_rec)

lemma sample_provisioned: "provisioned sample_physicalDevice sample_device"
  unfolding provisioned_def using sample_local sample_host by blast

lemma no_data_readable:
  "\<forall>bytes. (None :: uint8 list option) = Some bytes \<longrightarrow> unat (x :: DeviceSize) \<le> length bytes"
  by simp

lemma AccelStruct_init_found:
  assumes bi: "buildInfo = \<lparr>buildType = type, buildMode = eBuild,
                  buildFlags = {ePreferFastTrace}, geometries = [geometry'],
                  dstAccelerationStructure = None, scratchData = 0\<rparr>"
      and sz: "sizes = getAccelerationStructureBuildSizesKHR dev eDevice buildInfo n"
      and m1: "getMemoryType pd (getBufferMemoryRequirements dev (accelerationStructureSize sizes)
                  {eAccelerationStructureStorageKHR}) {eDeviceLocal} = Inr ty1"
      and m2: "getMemoryType pd (getBufferMemoryRequirements dev (buildScratchSize sizes)
                  {eStorageBuffer, eShaderDeviceAddress}) {eDeviceLocal} = Inr ty2"
      and b: "b = nextHandle w"
  shows "AccelStruct_init pd dev type geometry' n self w =
     Inr (\<lparr>accel = Some (Suc (Suc b)),
            accelBuffer = \<lparr>buffer = Some b, memory = Some (Suc b),
                            address = getAccelerationStructureAddressKHR dev (Suc (Suc b))\<rparr>\<rparr>,
          w\<lparr>nextHandle := Suc (Suc (Suc (Suc (Suc (Suc b))))),
            calls := calls w @
              GetAccelerationStructureBuildSizes eDevice buildInfo n
              # CreateBuffer b (accelerationStructureSize sizes) {eAccelerationStructureStorageKHR}
              # released DestroyBuffer (buffer (accelBuffer self)) b
              @ GetBufferMemoryRequirements b
              # AllocateMemory (Suc b)
                (size_req (getBufferMemoryRequirements dev (accelerationStructureSize sizes)
                   {eAccelerationStructureStorageKHR})) ty1 {}
              # released FreeMemory (memory (accelBuffer self)) (Suc b)
              @ BindBufferMemory b (Suc b) 0
              # CreateAccelerationStructure (Suc (Suc b))
                \<lparr>createBuffer = Some b, createSize = accelerationStructureSize sizes,
                 createType = type\<rparr>
              # released DestroyAccelerationStructure (accel self) (Suc (Suc b))
              @ [CreateBuffer (Suc (Suc (Suc b))) (buildScratchSize sizes)
                   {eStorageBuffer, eShaderDeviceAddress},
                 GetBufferMemoryRequirements (Suc (Suc (Suc b))),
                 AllocateMemory (Suc (Suc (Suc (Suc b))))
                   (size_req (getBufferMemoryRequirements dev (buildScratchSize sizes)
                      {eStorageBuffer, eShaderDeviceAddress})) ty2 {eDeviceAddress},
                 BindBufferMemory (Suc (Suc (Suc b))) (Suc (Suc (Suc (Suc b)))) 0,
                 GetBufferAddress (Suc (Suc (Suc b))),
                 AllocateCommandBuffer (Suc (Suc (Suc (Suc (Suc b))))),
                 BeginCommandBuffer (Suc (Suc (Suc (Suc (Suc b))))),
                 CmdBuildAccelerationStructures (Suc (Suc (Suc (Suc (Suc b)))))
                   (buildInfo\<lparr>dstAccelerationStructure := Some (Suc (Suc b)),
                               scratchData := getBufferAddressKHR dev (Suc (Suc (Suc b)))\<rparr>)
                   \<lparr>primitiveCount = n, primitiveOffset = 0, firstVertex = 0,
                    transformOffset = 0\<rparr>,
                 EndCommandBuffer (Suc (Suc (Suc (Suc (Suc b))))),
                 QueueSubmit (Suc (Suc (Suc (Suc (Suc b))))), QueueWaitIdle,
                 FreeCommandBuffer (Suc (Suc (Suc (Suc (Suc b))))),
                 GetAccelerationStructureAddress (Suc (Suc b)),
                 FreeMemory (Suc (Suc (Suc (Suc b)))), DestroyBuffer (Suc (Suc (Suc b)))]\<rparr>)"
proof -
  note i1 = Buffer_init_found [OF m1 [unfolded sz bi] no_data_readable]
  note i2 = Buffer_init_found [OF m2 [unfolded sz bi] no_data_readable]
  show ?thesis
    unfolding AccelStruct_init_def bi sz b
    by (simp add: Let_def i1 i2 world_defs Buffer_new_def upload_calls_def uploaded_def)
qed

lemma AccelStruct_init_Inr:
  assumes "AccelStruct_init pd dev type geometry' n self w = Inr (self', w')"
      and bi: "buildInfo = \<lparr>buildType = type, buildMode = eBuild,
                  buildFlags = {ePreferFastTrace}, geometries = [geometry'],
                  dstAccelerationStructure = None, scratchData = 0\<rparr>"
      and sz: "sizes = getAccelerationStructureBuildSizesKHR dev eDevice buildInfo n"
  shows "\<exists>ty1 ty2.
           getMemoryType pd (getBufferMemoryRequirements dev (accelerationStructureSize sizes)
                  {eAccelerationStructureStorageKHR}) {eDeviceLocal} = Inr ty1
         \<and> getMemoryType pd (getBufferMemoryRequirements dev (buildScratchSize sizes)
                  {eStorageBuffer, eShaderDeviceAddress}) {eDeviceLocal} = Inr ty2"
  using assms(1) unfolding AccelStruct_init_def bi sz Let_def
  by (auto split: sum.splits prod.splits dest!: Buffer_init_Inr)

text \<open>
  C5: \<^verbatim>\<open>AccelStruct::init\<close> queries the build sizes; creates a buffer of exactly the
  reported structure size with acceleration-structure-storage usage in device-local
  memory; creates the structure on that buffer; creates a second buffer, with handles of
  its own, of exactly the reported scratch size with storage and device-address usage;
  records one build command whose single range has the full primitive count and
  primitive offset, first vertex and transform offset 0; waits for the queue; then
  queries the structure's device address and stores it. The calls are given in full, for
  every receiver: what it held before (buffer, memory, structure) is destroyed right after
  its replacement is created.
\<close>

theorem AccelStruct_init_protocol:
  assumes bi: "buildInfo = \<lparr>buildType = type, buildMode = eBuild,
                  buildFlags = {ePreferFastTrace}, geometries = [geometry'],
                  dstAccelerationStructure = None, scratchData = 0\<rparr>"
      and sz: "sizes = getAccelerationStructureBuildSizesKHR dev eDevice buildInfo n"
      and m1: "getMemoryType pd (getBufferMemoryRequirements dev (accelerationStructureSize sizes)
                  {eAccelerationStructureStorageKHR}) {eDeviceLocal} = Inr ty1"
      and m2: "getMemoryType pd (getBufferMemoryRequirements dev (buildScratchSize sizes)
                  {eStorageBuffer, eShaderDeviceAddress}) {eDeviceLocal} = Inr ty2"
  shows "\<exists>self' w' b m a sb sm cb.
           AccelStruct_init pd dev type geometry' n self w = Inr (self', w')
         \<and> accel self' = Some a
         \<and> buffer (accelBuffer self') = Some b
         \<and> memory (accelBuffer self') = Some m
         \<and> address (accelBuffer self') = getAccelerationStructureAddressKHR dev a
         \<and> sb \<noteq> b \<and> sm \<noteq> m
         \<and> calls_since w w' =
             [GetAccelerationStructureBuildSizes eDevice buildInfo n,
              CreateBuffer b (accelerationStructureSize sizes) {eAccelerationStructureStorageKHR}]
             @ released DestroyBuffer (buffer (accelBuffer self)) b
             @ [GetBufferMemoryRequirements b,
                AllocateMemory m
                  (size_req (getBufferMemoryRequirements dev (accelerationStructureSize sizes)
                     {eAccelerationStructureStorageKHR})) ty1 {}]
             @ released FreeMemory (memory (accelBuffer self)) m
             @ [BindBufferMemory b m 0,
                CreateAccelerationStructure a
                  \<lparr>createBuffer = Some b, createSize = accelerationStructureSize sizes,
                   createType = type\<rparr>]
             @ released DestroyAccelerationStructure (accel self) a
             @ [CreateBuffer sb (buildScratchSize sizes) {eStorageBuffer, eShaderDeviceAddress},
                GetBufferMemoryRequirements sb,
                AllocateMemory sm
                  (size_req (getBufferMemoryRequirements dev (buildScratchSize sizes)
                     {eStorageBuffer, eShaderDeviceAddress})) ty2 {eDeviceAddress},
                BindBufferMemory sb sm 0,
                GetBufferAddress sb,
                AllocateCommandBuffer cb,
                BeginCommandBuffer cb,
                CmdBuildAccelerationStructures cb
                  (buildInfo\<lparr>dstAccelerationStructure := Some a,
                              scratchData := getBufferAddressKHR dev sb\<rparr>)
                  \<lparr>primitiveCount = n, primitiveOffset = 0, firstVertex = 0,
                   transformOffset = 0\<rparr>,
                EndCommandBuffer cb, QueueSubmit cb, QueueWaitIdle, FreeCommandBuffer cb,
                GetAccelerationStructureAddress a,
                FreeMemory sm, DestroyBuffer sb]"
  unfolding AccelStruct_init_found [OF bi sz m1 m2 refl]
  by (simp add: calls_since_def)

text \<open>C5 on the sample GPU, for a top-level structure over one instance.\<close>

theorem AccelStruct_init_protocol_witness:
  "getMemoryType sample_physicalDevice
     (getBufferMemoryRequirements sample_device
        (accelerationStructureSize
           (getAccelerationStructureBuildSizesKHR sample_device eDevice
              \<lparr>buildType = eTopLevel, buildMode = eBuild, buildFlags = {ePreferFastTrace},
               geometries =
                 [\<lparr>geometryType = eInstances,
                   geometry = Instances \<lparr>arrayOfPointers = False, instancesAddress = 0x10000\<rparr>,
                   geometryFlags = {eOpaque}\<rparr>],
               dstAccelerationStructure = None, scratchData = 0\<rparr> 1))
        {eAccelerationStructureStorageKHR}) {eDeviceLocal} = Inr 0
   \<and> getMemoryType sample_physicalDevice
     (getBufferMemoryRequirements sample_device
        (buildScratchSize
           (getAccelerationStructureBuildSizesKHR sample_device eDevice
              \<lparr>buildType = eTopLevel, buildMode = eBuild, buildFlags = {ePreferFastTrace},
               geometries =
                 [\<lparr>geometryType = eInstances,
                   geometry = Instances \<lparr>arrayOfPointers = False, instancesAddress = 0x10000\<rparr>,
                   geometryFlags = {eOpaque}\<rparr>],
               dstAccelerationStructure = None, scratchData = 0\<rparr> 1))
        {eStorageBuffer, eShaderDeviceAddress}) {eDeviceLocal} = Inr 0
   \<and> (\<exists>self' w' a.
         AccelStruct_init sample_physicalDevice sample_device eTopLevel
           \<lparr>geometryType = eInstances,
            geometry = Instances \<lparr>arrayOfPointers = False, instancesAddress = 0x10000\<rparr>,
            geometryFlags = {eOpaque}\<rparr> 1 AccelStruct_new World_start = Inr (self', w')
       \<and> accel self' = Some a
       \<and> address (accelBuffer self') = getAccelerationStructureAddressKHR sample_device a)"
proof -
  from AccelStruct_init_protocol [OF refl refl sample_local sample_local,
         of eTopLevel
            "\<lparr>geometryType = eInstances,
              geometry = Instances \<lparr>arrayOfPointers = False, instancesAddress = 0x10000\<rparr>,
              geometryFlags = {eOpaque}\<rparr>" 1 AccelStruct_new World_start]
  obtain self' w' a where
    "AccelStruct_init sample_physicalDevice sample_device eTopLevel
           \<lparr>geometryType = eInstances,
            geometry = Instances \<lparr>arrayOfPointers = False, instancesAddress = 0x10000\<rparr>,
            geometryFlags = {eOpaque}\<rparr> 1 AccelStruct_new World_start = Inr (self', w')"
    "accel self' = Some a"
    "address (accelBuffer self') = getAccelerationStructureAddressKHR sample_device a"
    by (elim exE conjE)
  then have "\<exists>self' w' a.
         AccelStruct_init sample_physicalDevice sample_device eTopLevel
           \<lparr>geometryType = eInstances,
            geometry = Instances \<lparr>arrayOfPointers = False, instancesAddress = 0x10000\<rparr>,
            geometryFlags = {eOpaque}\<rparr> 1 AccelStruct_new World_start = Inr (self', w')
       \<and> accel self' = Some a
       \<and> address (accelBuffer self') = getAccelerationStructureAddressKHR sample_device a"
    by (intro exI conjI)
  then show ?thesis by (intro conjI sample_local)
qed

text \<open>
  C2 (amended): after \<^verbatim>\<open>Buffer::init\<close> returns, the address field holds the address the
  device reports for the new buffer if the usage flags include device-address capability,
  and the value it had before the call otherwise; so on a device that reports no null
  buffer address, and for a \<^verbatim>\<open>Buffer\<close> whose address field was zero before the call, the
  field is non-zero if and only if device-address capability was requested. The
  \<^verbatim>\<open>Buffer\<close> owned by an \<^verbatim>\<open>AccelStruct\<close> does not follow this rule: after
  \<^verbatim>\<open>AccelStruct::init\<close> returns, it is a buffer created with acceleration-structure-storage
  usage only, and its address field holds the address the device reports for the
  acceleration structure, which is non-zero on a device that reports no null address for
  an acceleration structure.
\<close>

theorem address_nonzero_iff_requested:
  "(\<forall>self' w'. Buffer_init pd dev s u p data self w = Inr (self', w') \<longrightarrow>
      (\<exists>b. buffer self' = Some b
          \<and> address self' = (if eShaderDeviceAddress \<in> u then getBufferAddressKHR dev b
                              else address self))
      \<and> ((\<forall>h. getBufferAddressKHR dev h \<noteq> 0) \<and> address self = 0 \<longrightarrow>
            (address self' \<noteq> 0 \<longleftrightarrow> eShaderDeviceAddress \<in> u)))
   \<and> (\<forall>accel' w2'. AccelStruct_init pd dev type geometry' n accel0 w2 = Inr (accel', w2') \<longrightarrow>
        (\<exists>b a sz sb ssz. buffer (accelBuffer accel') = Some b \<and> accel accel' = Some a
           \<and> sb \<noteq> b
           \<and> filter isCreateBuffer (calls_since w2 w2')
              = [CreateBuffer b sz {eAccelerationStructureStorageKHR},
                 CreateBuffer sb ssz {eStorageBuffer, eShaderDeviceAddress}]
           \<and> eShaderDeviceAddress \<notin> {eAccelerationStructureStorageKHR}
           \<and> address (accelBuffer accel') = getAccelerationStructureAddressKHR dev a
           \<and> ((\<forall>h. getAccelerationStructureAddressKHR dev h \<noteq> 0) \<longrightarrow>
                 address (accelBuffer accel') \<noteq> 0)))"
proof (intro conjI allI impI)
  fix self' w'
  assume r: "Buffer_init pd dev s u p data self w = Inr (self', w')"
  from Buffer_init_InrD [OF r] obtain ty where
    e: "Buffer_init pd dev s u p data self w =
     Inr (\<lparr>buffer = Some (nextHandle w), memory = Some (Suc (nextHandle w)),
            address = (if eShaderDeviceAddress \<in> u then getBufferAddressKHR dev (nextHandle w)
                       else address self)\<rparr>,
          w\<lparr>nextHandle := Suc (Suc (nextHandle w)),
            hostMemory :=
              (hostMemory w)
                (Suc (nextHandle w) := uploaded s data (hostMemory w (Suc (nextHandle w)))),
            calls := calls w @
              CreateBuffer (nextHandle w) s u
              # released DestroyBuffer (buffer self) (nextHandle w)
              @ GetBufferMemoryRequirements (nextHandle w)
              # AllocateMemory (Suc (nextHandle w))
                 (size_req (getBufferMemoryRequirements dev s u)) ty
                 (if eShaderDeviceAddress \<in> u then {eDeviceAddress} else {})
              # released FreeMemory (memory self) (Suc (nextHandle w))
              @ BindBufferMemory (nextHandle w) (Suc (nextHandle w)) 0
              # upload_calls (Suc (nextHandle w)) s data
              @ (if eShaderDeviceAddress \<in> u then [GetBufferAddress (nextHandle w)] else [])\<rparr>)"
    by blast
  from r [unfolded e] have s': "self' = \<lparr>buffer = Some (nextHandle w),
            memory = Some (Suc (nextHandle w)),
            address = (if eShaderDeviceAddress \<in> u then getBufferAddressKHR dev (nextHandle w)
                       else address self)\<rparr>"
    by simp
  show "\<exists>b. buffer self' = Some b
          \<and> address self' = (if eShaderDeviceAddress \<in> u then getBufferAddressKHR dev b
                              else address self)"
    unfolding s' by simp
  show "address self' \<noteq> 0 \<longleftrightarrow> eShaderDeviceAddress \<in> u"
    if "(\<forall>h. getBufferAddressKHR dev h \<noteq> 0) \<and> address self = 0"
    using that unfolding s' by simp
next
  fix accel' w2'
  assume r: "AccelStruct_init pd dev type geometry' n accel0 w2 = Inr (accel', w2')"
  from AccelStruct_init_Inr [OF r refl refl] obtain ty1 ty2 where
    m1: "getMemoryType pd (getBufferMemoryRequirements dev (accelerationStructureSize
           (getAccelerationStructureBuildSizesKHR dev eDevice
              \<lparr>buildType = type, buildMode = eBuild,
                  buildFlags = {ePreferFastTrace}, geometries = [geometry'],
                  dstAccelerationStructure = None, scratchData = 0\<rparr> n))
                  {eAccelerationStructureStorageKHR}) {eDeviceLocal} = Inr ty1"
    and m2: "getMemoryType pd (getBufferMemoryRequirements dev (buildScratchSize
           (getAccelerationStructureBuildSizesKHR dev eDevice
              \<lparr>buildType = type, buildMode = eBuild,
                  buildFlags = {ePreferFastTrace}, geometries = [geometry'],
                  dstAccelerationStructure = None, scratchData = 0\<rparr> n))
                  {eStorageBuffer, eShaderDeviceAddress}) {eDeviceLocal} = Inr ty2"
    by blast
  have fr: "filter isCreateBuffer (released DestroyBuffer h x) = []"
           "filter isCreateBuffer (released FreeMemory h x) = []"
           "filter isCreateBuffer (released DestroyAccelerationStructure h x) = []" for h x
    by (simp_all add: released_def isCreateBuffer_def split: option.splits)
  from r [unfolded AccelStruct_init_found [OF refl refl m1 m2 refl]]
  have "buffer (accelBuffer accel') = Some (nextHandle w2)
      \<and> accel accel' = Some (Suc (Suc (nextHandle w2)))
      \<and> filter isCreateBuffer (calls_since w2 w2')
          = [CreateBuffer (nextHandle w2)
               (accelerationStructureSize
                 (getAccelerationStructureBuildSizesKHR dev eDevice
                    \<lparr>buildType = type, buildMode = eBuild,
                     buildFlags = {ePreferFastTrace}, geometries = [geometry'],
                     dstAccelerationStructure = None, scratchData = 0\<rparr> n))
               {eAccelerationStructureStorageKHR},
             CreateBuffer (Suc (Suc (Suc (nextHandle w2))))
                   (buildScratchSize (getAccelerationStructureBuildSizesKHR dev eDevice
                      \<lparr>buildType = type, buildMode = eBuild,
                       buildFlags = {ePreferFastTrace}, geometries = [geometry'],
                       dstAccelerationStructure = None, scratchData = 0\<rparr> n))
                   {eStorageBuffer, eShaderDeviceAddress}]
      \<and> address (accelBuffer accel')
          = getAccelerationStructureAddressKHR dev (Suc (Suc (nextHandle w2)))"
    by (auto simp: calls_since_def fr isCreateBuffer_def)
  moreover have "Suc (Suc (Suc (nextHandle w2))) \<noteq> nextHandle w2" by simp
  ultimately show "\<exists>b a sz sb ssz. buffer (accelBuffer accel') = Some b \<and> accel accel' = Some a
           \<and> sb \<noteq> b
           \<and> filter isCreateBuffer (calls_since w2 w2')
              = [CreateBuffer b sz {eAccelerationStructureStorageKHR},
                 CreateBuffer sb ssz {eStorageBuffer, eShaderDeviceAddress}]
           \<and> eShaderDeviceAddress \<notin> {eAccelerationStructureStorageKHR}
           \<and> address (accelBuffer accel') = getAccelerationStructureAddressKHR dev a
           \<and> ((\<forall>h. getAccelerationStructureAddressKHR dev h \<noteq> 0) \<longrightarrow>
                 address (accelBuffer accel') \<noteq> 0)"
    by (intro exI [of _ "nextHandle w2"] exI [of _ "Suc (Suc (nextHandle w2))"]
              exI [of _ "Suc (Suc (Suc (nextHandle w2)))"] exI) auto
qed

lemma length_bytes_of_Vertex: "length (bytes_of_Vertex v) = 12"
  by (simp add: bytes_of_Vertex_def le32_def split: prod.splits)

lemma length_concat_fixed:
  "(\<And>x. length (f x) = k) \<Longrightarrow> length (concat (map f xs)) = length xs * k"
  by (induction xs) simp_all

lemma unat_times_le:
  "unat (word_of_nat n * word_of_nat k :: 64 word) \<le> n * k"
proof -
  have "unat (word_of_nat n * word_of_nat k :: 64 word)
          \<le> unat (word_of_nat n :: 64 word) * unat (word_of_nat k :: 64 word)"
    by (simp only: unat_word_ariths) simp
  also have "\<dots> \<le> n * k"
    by (intro mult_le_mono) (simp_all add: unat_of_nat)
  finally show ?thesis .
qed

lemma vertices_readable:
  "\<forall>bytes. vector_data bytes_of_Vertex vs = Some bytes \<longrightarrow>
     unat (word_of_nat (length vs) * word_of_nat sizeof_Vertex :: 64 word) \<le> length bytes"
  using unat_times_le [of "length vs" 12]
  by (auto simp: vector_data_def sizeof_Vertex_def length_concat_fixed [OF length_bytes_of_Vertex])

lemma indices_readable:
  "\<forall>bytes. vector_data le32 is = Some bytes \<longrightarrow>
     unat (word_of_nat (length is) * word_of_nat sizeof_uint32_t :: 64 word) \<le> length bytes"
  using unat_times_le [of "length is" 4]
  by (auto simp: vector_data_def sizeof_uint32_t_def length_concat_fixed [of le32 4] le32_def)

lemma upload_calls_cases:
  "(case vector_data f xs of None \<Rightarrow> [] | Some bytes \<Rightarrow> g bytes)
   = (if xs = [] then [] else g (concat (map f xs)))"
  by (simp add: vector_data_def)



lemma filter_isBuild_upload [simp]: "filter isBuild (upload_calls m s d) = []"
  by (simp add: upload_calls_def isBuild_def split: option.splits)

lemma filter_isBuild_released [simp]:
  "filter isBuild (released DestroyBuffer h x) = []"
  "filter isBuild (released FreeMemory h x) = []"
  "filter isBuild (released DestroyAccelerationStructure h x) = []"
  "filter isBuild (released DestroyShaderModule h x) = []"
  "filter isBuild (released DestroyDescriptorPool h x) = []"
  "filter isBuild (released DestroyDescriptorSetLayout h x) = []"
  "filter isBuild (released FreeDescriptorSet h x) = []"
  "filter isBuild (released DestroyPipelineLayout h x) = []"
  "filter isBuild (released DestroyPipeline h x) = []"
  by (simp_all add: released_def isBuild_def split: option.splits)

text \<open>
  C10: the primitive count handed to the bottom-level build is the number of indices
  divided by 3 in integer division, so the indices beyond the last full triple do not
  count; the function returns for every index list and rejects none; for the three
  indices of the source the count is 1.
\<close>

theorem primitive_count_is_index_count_div_3:
  assumes p: "provisioned pd dev"
  shows "(\<exists>app' w' cb info.
            createBottomLevelAS_of vs is pd dev app w = Inr (app', w')
          \<and> filter isBuild (calls_since w w') =
               [CmdBuildAccelerationStructures cb info
                  \<lparr>primitiveCount = word_of_nat (length is div 3), primitiveOffset = 0,
                   firstVertex = 0, transformOffset = 0\<rparr>])
       \<and> 3 * (length is div 3) \<le> length is
       \<and> createBottomLevelAS pd dev app w
           = createBottomLevelAS_of triangle_vertices triangle_indices pd dev app w
       \<and> (word_of_nat (length triangle_indices div 3) :: uint32) = 1"
proof -
  note h = provisioned_host [OF p] and l = provisioned_local [OF p]
  note i1 = Buffer_init_found [OF h vertices_readable]
  note i2 = Buffer_init_found [OF h indices_readable]
  note i3 = AccelStruct_init_found [OF refl refl l l refl]
  have "\<exists>app' w' cb info.
            createBottomLevelAS_of vs is pd dev app w = Inr (app', w')
          \<and> filter isBuild (calls_since w w') =
               [CmdBuildAccelerationStructures cb info
                  \<lparr>primitiveCount = word_of_nat (length is div 3), primitiveOffset = 0,
                   firstVertex = 0, transformOffset = 0\<rparr>]"
    unfolding createBottomLevelAS_of_def
    by (simp add: Let_def i1 i2 i3 world_defs Buffer_new_def calls_since_def isBuild_def)
  moreover have "3 * (length is div 3) \<le> length is" by simp
  moreover have "createBottomLevelAS pd dev app w
           = createBottomLevelAS_of triangle_vertices triangle_indices pd dev app w"
    by (simp add: createBottomLevelAS_def)
  moreover have "(word_of_nat (length triangle_indices div 3) :: uint32) = 1"
    by (simp add: triangle_indices_def)
  ultimately show ?thesis by blast
qed

text \<open>C10 on the sample GPU with four indices: one primitive, the fourth index dropped.\<close>

theorem primitive_count_is_index_count_div_3_witness:
  "provisioned sample_physicalDevice sample_device
   \<and> (\<exists>app' w' cb info.
         createBottomLevelAS_of triangle_vertices [0, 1, 2, 0] sample_physicalDevice
           sample_device Application_new World_start = Inr (app', w')
       \<and> filter isBuild (calls_since World_start w') =
            [CmdBuildAccelerationStructures cb info
               \<lparr>primitiveCount = 1, primitiveOffset = 0, firstVertex = 0,
                transformOffset = 0\<rparr>])"
proof -
  from primitive_count_is_index_count_div_3 [OF sample_provisioned,
          of triangle_vertices "[0, 1, 2, 0]" Application_new World_start]
  have "\<exists>app' w' cb info.
         createBottomLevelAS_of triangle_vertices [0, 1, 2, 0] sample_physicalDevice
           sample_device Application_new World_start = Inr (app', w')
       \<and> filter isBuild (calls_since World_start w') =
            [CmdBuildAccelerationStructures cb info
               \<lparr>primitiveCount = word_of_nat (length [0, 1, 2, 0 :: uint32] div 3),
                primitiveOffset = 0, firstVertex = 0, transformOffset = 0\<rparr>]"
    by (rule conjunct1)
  moreover have "(word_of_nat (length [0, 1, 2, 0 :: uint32] div 3) :: uint32) = 1" by simp
  ultimately show ?thesis using sample_provisioned by simp
qed

section \<open>The order of the two builds in initVulkan\<close>

lemma length_le32 [simp]: "length (le32 x) = 4"
  by (simp add: le32_def)

lemma length_le64 [simp]: "length (le64 x) = 8"
  by (simp add: le64_def)

lemma length_concat_le32 [simp]: "length (concat (map le32 xs)) = length xs * 4"
  by (rule length_concat_fixed) simp

lemma length_concat_Vertex [simp]: "length (concat (map bytes_of_Vertex vs)) = length vs * 12"
  by (rule length_concat_fixed) (rule length_bytes_of_Vertex)

lemma length_bytes_of_instance:
  "length (bytes_of_AccelerationStructureInstanceKHR i) = length (concat (transform i)) * 4 + 16"
  by (simp add: bytes_of_AccelerationStructureInstanceKHR_def)

lemma instance_readable:
  "length (concat (transform i)) = 12 \<Longrightarrow>
   \<forall>bytes. Some (bytes_of_AccelerationStructureInstanceKHR i) = Some bytes \<longrightarrow>
     unat (word_of_nat sizeof_AccelerationStructureInstanceKHR :: 64 word) \<le> length bytes"
  by (simp add: length_bytes_of_instance sizeof_AccelerationStructureInstanceKHR_def)

lemma occursInOrder_Nil_iff [simp]: "occursInOrder Ps [] \<longleftrightarrow> Ps = []"
  by (cases Ps) simp_all

lemma occursInOrder_drop_cons:
  "(occursInOrder (P # Ps) tr \<longrightarrow> occursInOrder Ps tr)
   \<and> (occursInOrder Ps tr \<longrightarrow> occursInOrder Ps (c # tr))"
proof (induction tr arbitrary: P Ps c)
  case Nil
  then show ?case by simp
next
  case (Cons d tr)
  have A: "occursInOrder (P # Ps) (d # tr) \<longrightarrow> occursInOrder Ps (d # tr)" for P Ps
    using Cons.IH by (auto split: if_splits)
  have B: "occursInOrder Ps (d # tr) \<longrightarrow> occursInOrder Ps (c # d # tr)"
  proof (cases Ps)
    case Nil
    then show ?thesis by simp
  next
    case (Cons Q Qs)
    then show ?thesis using A [of Q Qs] by simp
  qed
  from A B show ?case by blast
qed

lemma occursInOrder_prepend:
  "occursInOrder Ps tr \<Longrightarrow> occursInOrder Ps (pre @ tr)"
  by (induction pre) (simp_all add: occursInOrder_drop_cons [THEN conjunct2, rule_format])

lemma occursInOrder_append:
  "occursInOrder Ps xs \<Longrightarrow> occursInOrder Qs ys \<Longrightarrow> occursInOrder (Ps @ Qs) (xs @ ys)"
proof (induction xs arbitrary: Ps)
  case Nil
  then show ?case by simp
next
  case (Cons x xs)
  show ?case
  proof (cases Ps)
    case Nil
    then show ?thesis using Cons.prems(2) occursInOrder_prepend [of Qs ys "x # xs"] by simp
  next
    case (Cons P Ps')
    show ?thesis
    proof (cases "P x")
      case True
      then have "occursInOrder Ps' xs" using Cons.prems(1) \<open>Ps = P # Ps'\<close> by simp
      from Cons.IH [OF this Cons.prems(2)] show ?thesis
        using True \<open>Ps = P # Ps'\<close> by simp
    next
      case False
      then have "occursInOrder (P # Ps') xs" using Cons.prems(1) \<open>Ps = P # Ps'\<close> by simp
      from Cons.IH [OF this Cons.prems(2)] show ?thesis
        using False \<open>Ps = P # Ps'\<close> by simp
    qed
  qed
qed

lemma occursInOrder_skip:
  "\<forall>c \<in> set pre. \<not> P c \<Longrightarrow>
   occursInOrder (P # Ps) (pre @ tr) = occursInOrder (P # Ps) tr"
  by (induction pre) simp_all

lemma set_released: "set (released d held x) \<subseteq> range d"
  by (auto simp: released_def split: option.splits if_splits)

lemma occursInOrder_released:
  "\<forall>h. \<not> P (d h) \<Longrightarrow>
   occursInOrder (P # Ps) (released d held x @ tr) = occursInOrder (P # Ps) tr"
  by (rule occursInOrder_skip) (use set_released [of d held x] in auto)

lemma filter_released:
  "\<forall>h. \<not> P (d h) \<Longrightarrow> filter P (released d held x) = []"
  by (auto simp: released_def split: option.splits)

lemma filter_upload_calls:
  "\<forall>m s x y. \<not> P (MapMemory m s x) \<and> \<not> P (Memcpy m y) \<and> \<not> P (UnmapMemory m) \<Longrightarrow>
   filter P (upload_calls m s d) = []"
  by (auto simp: upload_calls_def split: option.splits)

text \<open>What the greedy scan finds are increasing positions of the trace.\<close>

lemma occursInOrder_positions:
  "occursInOrder Ps tr \<Longrightarrow>
   \<exists>is. length is = length Ps \<and> sorted_wrt (<) is \<and> (\<forall>i \<in> set is. i < length tr)
        \<and> (\<forall>k < length Ps. (Ps ! k) (tr ! (is ! k)))"
proof (induction Ps tr rule: occursInOrder.induct)
  case (1 tr)
  then show ?case by simp
next
  case (2 P Ps)
  then show ?case by simp
next
  case (3 P Ps c tr)
  show ?case
  proof (cases "P c")
    case True
    with 3 obtain js where js: "length js = length Ps" "sorted_wrt (<) js"
      "\<forall>i \<in> set js. i < length tr" "\<forall>k < length Ps. (Ps ! k) (tr ! (js ! k))"
      by auto
    let ?is = "0 # map Suc js"
    have "length ?is = length (P # Ps)" using js by simp
    moreover have "sorted_wrt (<) ?is" using js by (simp add: sorted_wrt_map)
    moreover have "\<forall>i \<in> set ?is. i < length (c # tr)" using js by auto
    moreover have "\<forall>k < length (P # Ps). ((P # Ps) ! k) ((c # tr) ! (?is ! k))"
      using js True by (auto simp: nth_Cons split: nat.splits)
    ultimately show ?thesis by blast
  next
    case False
    with 3 obtain js where js: "length js = length (P # Ps)" "sorted_wrt (<) js"
      "\<forall>i \<in> set js. i < length tr" "\<forall>k < length (P # Ps). ((P # Ps) ! k) (tr ! (js ! k))"
      by auto
    let ?is = "map Suc js"
    have "length ?is = length (P # Ps)" using js by simp
    moreover have "sorted_wrt (<) ?is" using js by (simp add: sorted_wrt_map)
    moreover have "\<forall>i \<in> set ?is. i < length (c # tr)" using js by auto
    moreover have "\<forall>k < length (P # Ps). ((P # Ps) ! k) ((c # tr) ! (?is ! k))"
      using js by auto
    ultimately show ?thesis by blast
  qed
qed

lemmas trace_preds = isBuild_def isCreateBuffer_def isCreateRayTracingPipeline_def
  isGetRayTracingShaderGroupHandles_def

lemma createBottomLevelAS_trace:
  assumes p: "provisioned pd dev" and b: "b = nextHandle w"
      and info: "info =
        \<lparr>buildType = eBottomLevel, buildMode = eBuild, buildFlags = {ePreferFastTrace},
         geometries =
           [\<lparr>geometryType = eTriangles,
             geometry = Triangles
               \<lparr>vertexFormat = eR32G32B32Sfloat,
                vertexData = getBufferAddressKHR dev b,
                vertexStride = word_of_nat sizeof_Vertex,
                maxVertex = word_of_nat (length triangle_vertices),
                indexType = eUint32,
                indexData = getBufferAddressKHR dev (Suc (Suc b))\<rparr>,
             geometryFlags = {eOpaque}\<rparr>],
         dstAccelerationStructure = Some (Suc (Suc (Suc (Suc (Suc (Suc b)))))),
         scratchData = getBufferAddressKHR dev (Suc (Suc (Suc (Suc (Suc (Suc (Suc b)))))))\<rparr>"
      and rng: "rng =
        \<lparr>primitiveCount = word_of_nat (length triangle_indices div 3), primitiveOffset = 0,
         firstVertex = 0, transformOffset = 0\<rparr>"
  shows "\<exists>w1 T.
           createBottomLevelAS pd dev app w =
             Inr (app\<lparr>bottomAccel :=
                        \<lparr>accel = Some (Suc (Suc (Suc (Suc (Suc (Suc b)))))),
                         accelBuffer =
                           \<lparr>buffer = Some (Suc (Suc (Suc (Suc b)))),
                            memory = Some (Suc (Suc (Suc (Suc (Suc b))))),
                            address = getAccelerationStructureAddressKHR dev (Suc (Suc (Suc (Suc (Suc (Suc b))))))\<rparr>\<rparr>\<rparr>,
                  w1)
         \<and> nextHandle w1 = (Suc (Suc (Suc (Suc (Suc (Suc (Suc (Suc (Suc (Suc b))))))))))
         \<and> cerr w1 = cerr w
         \<and> calls w1 = calls w @ T
         \<and> occursInOrder
              [(\<lambda>c. c = CmdBuildAccelerationStructures (Suc (Suc (Suc (Suc (Suc (Suc (Suc (Suc (Suc b))))))))) info rng),
               (\<lambda>c. c = QueueSubmit (Suc (Suc (Suc (Suc (Suc (Suc (Suc (Suc (Suc b)))))))))),
               (\<lambda>c. c = QueueWaitIdle),
               (\<lambda>c. c = GetAccelerationStructureAddress (Suc (Suc (Suc (Suc (Suc (Suc b)))))))]
              T
         \<and> filter isBuild T = [CmdBuildAccelerationStructures (Suc (Suc (Suc (Suc (Suc (Suc (Suc (Suc (Suc b))))))))) info rng]
         \<and> filter isCreateRayTracingPipeline T = []
         \<and> filter isGetRayTracingShaderGroupHandles T = []"
proof -
  note h = provisioned_host [OF p] and l = provisioned_local [OF p]
  note i1 = Buffer_init_found [OF h vertices_readable]
  note i2 = Buffer_init_found [OF h indices_readable]
  note i3 = AccelStruct_init_found [OF refl refl l l refl]
  show ?thesis
    unfolding createBottomLevelAS_def createBottomLevelAS_of_def b info rng
    apply (simp add: Let_def i1 i2 i3 world_defs Buffer_new_def trace_preds
             filter_released filter_upload_calls occursInOrder_released)
    apply (simp add: upload_calls_def vector_data_def triangle_vertices_def
          triangle_indices_def occursInOrder_released)
    done
qed

lemma createTopLevelAS_trace:
  assumes p: "provisioned pd dev" and b: "b = nextHandle w"
      and inst: "inst =
        \<lparr>transform = [[f_1_0, f_0_0, f_0_0, f_0_0],
                      [f_0_0, f_1_0, f_0_0, f_0_0],
                      [f_0_0, f_0_0, f_1_0, f_0_0]],
         instanceCustomIndex = 0,
         mask = 0xFF,
         instanceShaderBindingTableRecordOffset = 0,
         instanceFlags = eTriangleFacingCullDisable,
         accelerationStructureReference = address (accelBuffer (bottomAccel app))\<rparr>"
      and info: "info =
        \<lparr>buildType = eTopLevel, buildMode = eBuild, buildFlags = {ePreferFastTrace},
         geometries =
           [\<lparr>geometryType = eInstances,
             geometry = Instances
               \<lparr>arrayOfPointers = False, instancesAddress = getBufferAddressKHR dev b\<rparr>,
             geometryFlags = {eOpaque}\<rparr>],
         dstAccelerationStructure = Some (Suc (Suc (Suc (Suc b)))),
         scratchData = getBufferAddressKHR dev (Suc (Suc (Suc (Suc (Suc b)))))\<rparr>"
      and rng: "rng =
        \<lparr>primitiveCount = 1, primitiveOffset = 0, firstVertex = 0, transformOffset = 0\<rparr>"
  shows "\<exists>w2 T.
           createTopLevelAS pd dev app w =
             Inr (app\<lparr>topAccel :=
                        \<lparr>accel = Some (Suc (Suc (Suc (Suc b)))),
                         accelBuffer =
                           \<lparr>buffer = Some (Suc (Suc b)),
                            memory = Some (Suc (Suc (Suc b))),
                            address = getAccelerationStructureAddressKHR dev (Suc (Suc (Suc (Suc b))))\<rparr>\<rparr>\<rparr>,
                  w2)
         \<and> nextHandle w2 = (Suc (Suc (Suc (Suc (Suc (Suc (Suc (Suc b))))))))
         \<and> cerr w2 = cerr w
         \<and> calls w2 = calls w @ T
         \<and> occursInOrder
              [(\<lambda>c. c = BindBufferMemory b (Suc b) 0),
               (\<lambda>c. c = Memcpy (Suc b) (bytes_of_AccelerationStructureInstanceKHR inst)),
               (\<lambda>c. c = GetBufferAddress b),
               (\<lambda>c. c = CmdBuildAccelerationStructures (Suc (Suc (Suc (Suc (Suc (Suc (Suc b))))))) info rng)]
              T
         \<and> filter isBuild T = [CmdBuildAccelerationStructures (Suc (Suc (Suc (Suc (Suc (Suc (Suc b))))))) info rng]
         \<and> filter isCreateRayTracingPipeline T = []
         \<and> filter isGetRayTracingShaderGroupHandles T = []"
proof -
  note h = provisioned_host [OF p] and l = provisioned_local [OF p]
  note i3 = AccelStruct_init_found [OF refl refl l l refl]
  note i4 = Buffer_init_found [OF h instance_readable]
  show ?thesis
    unfolding createTopLevelAS_def b inst info rng
    apply (simp add: Let_def i3 i4 world_defs Buffer_new_def trace_preds
             filter_released filter_upload_calls occursInOrder_released)
    apply (simp add: upload_calls_def occursInOrder_released length_bytes_of_instance
             sizeof_AccelerationStructureInstanceKHR_def)
    done
qed

lemma length_resize [simp]: "length (resize n d v) = n"
  by (simp add: resize_def)

lemma foldl_UniqueHandle_destroy:
  "foldl (\<lambda>v held. UniqueHandle_destroy d held v) w hs
     = w\<lparr>calls := calls w
             @ concat (map (\<lambda>held. case held of None \<Rightarrow> [] | Some h \<Rightarrow> [d h]) hs)\<rparr>"
  by (induction hs arbitrary: w) (simp_all add: UniqueHandle_destroy_calls)

lemma filter_destroyed:
  "\<forall>h. \<not> P (d h) \<Longrightarrow>
   filter P (concat (map (\<lambda>held. case held of None \<Rightarrow> [] | Some h \<Rightarrow> [d h]) hs)) = []"
  by (induction hs) (simp_all split: option.splits)

lemma addShader_found:
  assumes "unat si < length (shaderModules app)" "unat si < length (shaderStages app)"
          "unat gi < length (shaderGroups app)"
  shows "\<exists>app'. addShader si gi filename st app w =
           Inr (app',
                w\<lparr>nextHandle := Suc (nextHandle w),
                  calls := calls w @ CreateShaderModule (nextHandle w) filename
                    # released DestroyShaderModule (shaderModules app ! unat si)
                        (nextHandle w)\<rparr>)
         \<and> length (shaderModules app') = length (shaderModules app)
         \<and> length (shaderStages app') = length (shaderStages app)
         \<and> length (shaderGroups app') = length (shaderGroups app)"
  using assms
  by (simp add: addShader_def createShaderModule_def Let_def world_defs)

lemma prepareShaders_trace:
  "\<exists>app' w' T. prepareShaders app w = Inr (app', w')
      \<and> cerr w' = cerr w
      \<and> calls w' = calls w @ T
      \<and> length (shaderGroups app') = 3
      \<and> filter isBuild T = []
      \<and> filter isCreateRayTracingPipeline T = []
      \<and> filter isGetRayTracingShaderGroupHandles T = []"
proof -
  define app1 where "app1 = app\<lparr>shaderStages := resize 3 PipelineShaderStageCreateInfo_new (shaderStages app),
                     shaderModules := resize 3 None (shaderModules app),
                     shaderGroups :=
                       resize 3 RayTracingShaderGroupCreateInfoKHR_new (shaderGroups app)\<rparr>"
  define w1 where "w1 = foldl (\<lambda>v held. UniqueHandle_destroy DestroyShaderModule held v)
                          (print (''Prepare shaders'' @ newline) w)
                          (drop 3 (shaderModules app))"
  define T0 where "T0 = concat (map (\<lambda>held. case held of None \<Rightarrow> []
                                      | Some h \<Rightarrow> [DestroyShaderModule h])
                                  (drop 3 (shaderModules app)))"
  have w1: "calls w1 = calls w @ T0" "cerr w1 = cerr w"
    by (simp_all add: w1_def T0_def foldl_UniqueHandle_destroy print_def)
  have f0: "filter isBuild T0 = []" "filter isCreateRayTracingPipeline T0 = []"
           "filter isGetRayTracingShaderGroupHandles T0 = []"
    unfolding T0_def by (rule filter_destroyed, simp add: trace_preds)+
  have l1: "length (shaderModules app1) = 3" "length (shaderStages app1) = 3"
           "length (shaderGroups app1) = 3"
    by (simp_all add: app1_def)
  from addShader_found [of 0 app1 0 "''raygen.rgen.spv''" eRaygenKHR w1] l1
  obtain app2 where
    a2: "addShader 0 0 ''raygen.rgen.spv'' eRaygenKHR app1 w1 =
           Inr (app2,
                w1\<lparr>nextHandle := Suc (nextHandle w1),
                  calls := calls w1 @ CreateShaderModule (nextHandle w1) ''raygen.rgen.spv''
                    # released DestroyShaderModule (shaderModules app1 ! unat (0 :: uint32))
                        (nextHandle w1)\<rparr>)"
    and l2: "length (shaderModules app2) = 3" "length (shaderStages app2) = 3"
            "length (shaderGroups app2) = 3"
    by auto
  define w2 where "w2 = w1\<lparr>nextHandle := Suc (nextHandle w1),
                  calls := calls w1 @ CreateShaderModule (nextHandle w1) ''raygen.rgen.spv''
                    # released DestroyShaderModule (shaderModules app1 ! unat (0 :: uint32))
                        (nextHandle w1)\<rparr>"
  from addShader_found [of 1 app2 1 "''miss.rmiss.spv''" eMissKHR w2] l2
  obtain app3 where
    a3: "addShader 1 1 ''miss.rmiss.spv'' eMissKHR app2 w2 =
           Inr (app3,
                w2\<lparr>nextHandle := Suc (nextHandle w2),
                  calls := calls w2 @ CreateShaderModule (nextHandle w2) ''miss.rmiss.spv''
                    # released DestroyShaderModule (shaderModules app2 ! unat (1 :: uint32))
                        (nextHandle w2)\<rparr>)"
    and l3: "length (shaderModules app3) = 3" "length (shaderStages app3) = 3"
            "length (shaderGroups app3) = 3"
    by auto
  define w3 where "w3 = w2\<lparr>nextHandle := Suc (nextHandle w2),
                  calls := calls w2 @ CreateShaderModule (nextHandle w2) ''miss.rmiss.spv''
                    # released DestroyShaderModule (shaderModules app2 ! unat (1 :: uint32))
                        (nextHandle w2)\<rparr>"
  from addShader_found [of 2 app3 2 "''closesthit.rchit.spv''" eClosestHitKHR w3] l3
  obtain app4 where
    a4: "addShader 2 2 ''closesthit.rchit.spv'' eClosestHitKHR app3 w3 =
           Inr (app4,
                w3\<lparr>nextHandle := Suc (nextHandle w3),
                  calls := calls w3 @ CreateShaderModule (nextHandle w3) ''closesthit.rchit.spv''
                    # released DestroyShaderModule (shaderModules app3 ! unat (2 :: uint32))
                        (nextHandle w3)\<rparr>)"
    and l4: "length (shaderGroups app4) = 3"
    by auto
  define w4 where "w4 = w3\<lparr>nextHandle := Suc (nextHandle w3),
                  calls := calls w3 @ CreateShaderModule (nextHandle w3) ''closesthit.rchit.spv''
                    # released DestroyShaderModule (shaderModules app3 ! unat (2 :: uint32))
                        (nextHandle w3)\<rparr>"
  define T where "T = T0
     @ (CreateShaderModule (nextHandle w1) ''raygen.rgen.spv''
        # released DestroyShaderModule (shaderModules app1 ! unat (0 :: uint32)) (nextHandle w1))
     @ (CreateShaderModule (nextHandle w2) ''miss.rmiss.spv''
        # released DestroyShaderModule (shaderModules app2 ! unat (1 :: uint32)) (nextHandle w2))
     @ (CreateShaderModule (nextHandle w3) ''closesthit.rchit.spv''
        # released DestroyShaderModule (shaderModules app3 ! unat (2 :: uint32)) (nextHandle w3))"
  have r: "prepareShaders app w = Inr (app4, w4)"
    unfolding prepareShaders_def Let_def
    unfolding app1_def [symmetric] w1_def [symmetric]
    by (simp add: a2 [folded w2_def] a3 [folded w3_def] a4 [folded w4_def])
  have c: "calls w4 = calls w @ T" "cerr w4 = cerr w"
    by (simp_all add: w4_def w3_def w2_def w1 T_def)
  have f: "filter isBuild T = []" "filter isCreateRayTracingPipeline T = []"
          "filter isGetRayTracingShaderGroupHandles T = []"
    unfolding T_def by (simp_all add: f0 filter_released trace_preds)
  from r c l4 f show ?thesis by blast
qed

lemma createDescriptorPool_trace:
  "\<exists>app' w' T. createDescriptorPool app w = (app', w')
      \<and> cerr w' = cerr w \<and> calls w' = calls w @ T
      \<and> shaderGroups app' = shaderGroups app
      \<and> filter isBuild T = []
      \<and> filter isCreateRayTracingPipeline T = []
      \<and> filter isGetRayTracingShaderGroupHandles T = []"
  by (simp add: createDescriptorPool_def world_defs trace_preds filter_released)

lemma createDescSetLayout_trace:
  "\<exists>app' w' T. createDescSetLayout app w = (app', w')
      \<and> cerr w' = cerr w \<and> calls w' = calls w @ T
      \<and> shaderGroups app' = shaderGroups app
      \<and> filter isBuild T = []
      \<and> filter isCreateRayTracingPipeline T = []
      \<and> filter isGetRayTracingShaderGroupHandles T = []"
  by (simp add: createDescSetLayout_def world_defs trace_preds filter_released)

lemma createDescriptorSet_trace:
  "\<exists>app' w' T. createDescriptorSet app w = (app', w')
      \<and> cerr w' = cerr w \<and> calls w' = calls w @ T
      \<and> shaderGroups app' = shaderGroups app
      \<and> filter isBuild T = []
      \<and> filter isCreateRayTracingPipeline T = []
      \<and> filter isGetRayTracingShaderGroupHandles T = []"
  by (simp add: createDescriptorSet_def world_defs trace_preds filter_released)

lemma grows_case:
  assumes "\<exists>tr. calls (world_of r) = calls w @ tr \<and> filter P tr = []"
      and "\<And>x w'. r = Inr (x, w') \<Longrightarrow>
             \<exists>tr. calls (world_of (k x w')) = calls w' @ tr \<and> filter P tr = []"
  shows "\<exists>tr. calls (world_of (case r of Inl stop \<Rightarrow> Inl stop | Inr (x, w') \<Rightarrow> k x w'))
               = calls w @ tr \<and> filter P tr = []"
proof (cases r)
  case (Inl stop)
  then show ?thesis using assms(1) by (cases stop) (simp add: world_of_def)
next
  case (Inr xw)
  obtain x w' where xw: "xw = (x, w')" by (cases xw)
  from assms(1) Inr xw obtain t1 where t1: "calls w' = calls w @ t1" "filter P t1 = []"
    by (auto simp: world_of_def)
  from assms(2) [of x w'] Inr xw obtain t2 where
    t2: "calls (world_of (k x w')) = calls w' @ t2" "filter P t2 = []" by auto
  have "calls (world_of (k x w')) = calls w @ (t1 @ t2)" "filter P (t1 @ t2) = []"
    using t1 t2 by simp_all
  then show ?thesis using Inr xw by (simp only: sum.case prod.case) blast
qed

lemma Buffer_init_grows:
  assumes "\<forall>b s u. \<not> P (CreateBuffer b s u)" "\<forall>b. \<not> P (DestroyBuffer b)"
          "\<forall>b. \<not> P (GetBufferMemoryRequirements b)" "\<forall>m s t f. \<not> P (AllocateMemory m s t f)"
          "\<forall>m. \<not> P (FreeMemory m)" "\<forall>b m x. \<not> P (BindBufferMemory b m x)"
          "\<forall>m x y. \<not> P (MapMemory m x y)" "\<forall>m y. \<not> P (Memcpy m y)"
          "\<forall>m. \<not> P (UnmapMemory m)" "\<forall>b. \<not> P (GetBufferAddress b)"
  shows "\<exists>tr. calls (world_of (Buffer_init pd dev s u p data self w)) = calls w @ tr
              \<and> filter P tr = []"
  using assms
  by (auto simp: Buffer_init_def Let_def world_defs world_of_def released_def
           split: sum.splits option.splits)

lemma createRayTracingPipeline_grows:
  "\<exists>tr. calls (world_of (createRayTracingPipeline dev app w)) = calls w @ tr
        \<and> filter isBuild tr = []"
  by (simp add: createRayTracingPipeline_def Let_def world_defs world_of_def trace_preds
        filter_released)

lemma createShaderBindingTable_grows:
  "\<exists>tr. calls (world_of (createShaderBindingTable pd dev app w)) = calls w @ tr
        \<and> filter isBuild tr = []"
proof -
  note bi = Buffer_init_grows [where P = isBuild, simplified trace_preds, simplified,
              folded isBuild_def]
  show ?thesis
  proof (cases "getAlignedSize (shaderGroupHandleSize pd) (shaderGroupHandleAlignment pd)")
    case None
    then show ?thesis
      by (simp add: createShaderBindingTable_def getRayTracingProps_def emit_def world_of_def
            trace_preds)
  next
    case (Some aligned)
    define groupCount where "groupCount = (word_of_nat (length (shaderGroups app)) :: uint32)"
    define res where "res = getRayTracingShaderGroupHandlesKHR dev (pipeline app) 0 groupCount
                              (unat (groupCount * aligned))"
    define w2 where "w2 = w\<lparr>calls := calls w @
        [GetRayTracingProps,
         GetRayTracingShaderGroupHandles (pipeline app) 0 groupCount
           (unat (groupCount * aligned))]\<rparr>"
    have w2: "\<exists>tr. calls w2 = calls w @ tr \<and> filter isBuild tr = []"
      by (simp add: w2_def trace_preds)
    show ?thesis
    proof (cases "fst res = eSuccess")
      case False
      then show ?thesis using Some
        by (simp add: createShaderBindingTable_def getRayTracingProps_def emit_def world_of_def
              trace_preds Let_def split_beta res_def groupCount_def printErr_def)
    next
      case True
      define app1 where "app1 = app\<lparr>handleSizeAligned := aligned\<rparr>"
      define blob where "blob = map (snd res) [0 ..< unat (groupCount * aligned)]"
      define usage where "usage = {eShaderBindingTableKHR, eTransferSrc, eShaderDeviceAddress}"
      define mp where "mp = {eHostVisible, eHostCoherent}"
      define k3 where "k3 = (\<lambda>raygen miss hit (w5 :: World).
          (Inr (app1\<lparr>raygenSBT := raygen, missSBT := miss, hitSBT := hit\<rparr>, w5)
             :: Application Outcome))"
      define k2 where "k2 = (\<lambda>raygen miss w4.
          case Buffer_init pd dev (ucast (shaderGroupHandleSize pd)) usage mp
                 (pointer_add (vector_data (\<lambda>b. [b]) blob) (unat (2 * aligned)))
                 (hitSBT app1) w4 of
            Inl stop \<Rightarrow> Inl stop
          | Inr (hit, w5) \<Rightarrow> k3 raygen miss hit w5)"
      define k1 where "k1 = (\<lambda>raygen w3.
          case Buffer_init pd dev (ucast (shaderGroupHandleSize pd)) usage mp
                 (pointer_add (vector_data (\<lambda>b. [b]) blob) (unat (1 * aligned)))
                 (missSBT app1) w3 of
            Inl stop \<Rightarrow> Inl stop
          | Inr (miss, w4) \<Rightarrow> k2 raygen miss w4)"
      have e: "createShaderBindingTable pd dev app w =
          (case Buffer_init pd dev (ucast (shaderGroupHandleSize pd)) usage mp
                 (pointer_add (vector_data (\<lambda>b. [b]) blob) (unat (0 * aligned)))
                 (raygenSBT app1) w2 of
            Inl stop \<Rightarrow> Inl stop
          | Inr (raygen, w3) \<Rightarrow> k1 raygen w3)"
        using Some True
        by (simp add: createShaderBindingTable_def getRayTracingProps_def emit_def Let_def
              split_beta res_def groupCount_def app1_def blob_def usage_def mp_def
              k1_def k2_def k3_def w2_def cong: sum.case_cong)
      have g3: "\<exists>tr. calls (world_of (k3 r m h v)) = calls v @ tr \<and> filter isBuild tr = []"
        for r m h v
        by (simp add: k3_def world_of_def)
      have g2: "\<exists>tr. calls (world_of (k2 r m v)) = calls v @ tr \<and> filter isBuild tr = []"
        for r m v
        unfolding k2_def by (rule grows_case [OF bi]) (simp add: g3)
      have g1: "\<exists>tr. calls (world_of (k1 r v)) = calls v @ tr \<and> filter isBuild tr = []"
        for r v
        unfolding k1_def by (rule grows_case [OF bi]) (simp add: g2)
      have g0: "\<exists>tr. calls (world_of (createShaderBindingTable pd dev app w))
                       = calls w2 @ tr \<and> filter isBuild tr = []"
        unfolding e by (rule grows_case [OF bi]) (simp add: g1)
      from g0 w2 show ?thesis by (auto simp: w2_def trace_preds)
    qed
  qed
qed

lemma initVulkan_reaches_pipeline:
  assumes p: "provisioned pd dev"
  shows "\<exists>app6 w6 T blas tlas ib im cb1 cb2 info1 info2 rng1 rng2 inst.
      initVulkan pd dev app w =
        (case createRayTracingPipeline dev app6 w6 of
           Inl stop \<Rightarrow> Inl stop
         | Inr (app7, w7) \<Rightarrow> createShaderBindingTable pd dev app7 w7)
    \<and> calls w6 = calls w @ T \<and> cerr w6 = cerr w \<and> length (shaderGroups app6) = 3
    \<and> occursInOrder
         [(\<lambda>c. c = CmdBuildAccelerationStructures cb1 info1 rng1),
          (\<lambda>c. c = QueueSubmit cb1),
          (\<lambda>c. c = QueueWaitIdle),
          (\<lambda>c. c = GetAccelerationStructureAddress blas),
          (\<lambda>c. c = BindBufferMemory ib im 0),
          (\<lambda>c. c = Memcpy im (bytes_of_AccelerationStructureInstanceKHR inst)),
          (\<lambda>c. c = GetBufferAddress ib),
          (\<lambda>c. c = CmdBuildAccelerationStructures cb2 info2 rng2)]
         T
    \<and> filter isBuild T = [CmdBuildAccelerationStructures cb1 info1 rng1,
                           CmdBuildAccelerationStructures cb2 info2 rng2]
    \<and> filter isCreateRayTracingPipeline T = []
    \<and> filter isGetRayTracingShaderGroupHandles T = []
    \<and> buildType info1 = eBottomLevel \<and> dstAccelerationStructure info1 = Some blas
    \<and> buildType info2 = eTopLevel \<and> dstAccelerationStructure info2 = Some tlas
    \<and> blas \<noteq> tlas
    \<and> geometries info2 =
         [\<lparr>geometryType = eInstances,
           geometry = Instances
             \<lparr>arrayOfPointers = False, instancesAddress = getBufferAddressKHR dev ib\<rparr>,
           geometryFlags = {eOpaque}\<rparr>]
    \<and> accelerationStructureReference inst = getAccelerationStructureAddressKHR dev blas"
proof -
  define b where "b = nextHandle w"
  define info1 where "info1 =
        \<lparr>buildType = eBottomLevel, buildMode = eBuild, buildFlags = {ePreferFastTrace},
         geometries =
           [\<lparr>geometryType = eTriangles,
             geometry = Triangles
               \<lparr>vertexFormat = eR32G32B32Sfloat,
                vertexData = getBufferAddressKHR dev b,
                vertexStride = word_of_nat sizeof_Vertex,
                maxVertex = word_of_nat (length triangle_vertices),
                indexType = eUint32,
                indexData = getBufferAddressKHR dev (Suc (Suc b))\<rparr>,
             geometryFlags = {eOpaque}\<rparr>],
         dstAccelerationStructure = Some (Suc (Suc (Suc (Suc (Suc (Suc b)))))),
         scratchData = getBufferAddressKHR dev (Suc (Suc (Suc (Suc (Suc (Suc (Suc b)))))))\<rparr>"
  define rng1 where "rng1 =
        \<lparr>primitiveCount = word_of_nat (length triangle_indices div 3), primitiveOffset = 0,
         firstVertex = 0, transformOffset = 0\<rparr>"
  define app1 where "app1 = app\<lparr>bottomAccel :=
                        \<lparr>accel = Some (Suc (Suc (Suc (Suc (Suc (Suc b)))))),
                         accelBuffer =
                           \<lparr>buffer = Some (Suc (Suc (Suc (Suc b)))),
                            memory = Some (Suc (Suc (Suc (Suc (Suc b))))),
                            address = getAccelerationStructureAddressKHR dev (Suc (Suc (Suc (Suc (Suc (Suc b))))))\<rparr>\<rparr>\<rparr>"
  from createBottomLevelAS_trace [OF p b_def info1_def rng1_def, of app]
  obtain w1 T1 where
    r1: "createBottomLevelAS pd dev app w = Inr (app1, w1)"
    and n1: "nextHandle w1 = (Suc (Suc (Suc (Suc (Suc (Suc (Suc (Suc (Suc (Suc b))))))))))"
    and e1: "cerr w1 = cerr w"
    and c1: "calls w1 = calls w @ T1"
    and o1: "occursInOrder
              [(\<lambda>c. c = CmdBuildAccelerationStructures (Suc (Suc (Suc (Suc (Suc (Suc (Suc (Suc (Suc b))))))))) info1 rng1),
               (\<lambda>c. c = QueueSubmit (Suc (Suc (Suc (Suc (Suc (Suc (Suc (Suc (Suc b)))))))))),
               (\<lambda>c. c = QueueWaitIdle),
               (\<lambda>c. c = GetAccelerationStructureAddress (Suc (Suc (Suc (Suc (Suc (Suc b)))))))] T1"
    and f1: "filter isBuild T1 = [CmdBuildAccelerationStructures (Suc (Suc (Suc (Suc (Suc (Suc (Suc (Suc (Suc b))))))))) info1 rng1]"
            "filter isCreateRayTracingPipeline T1 = []"
            "filter isGetRayTracingShaderGroupHandles T1 = []"
    unfolding app1_def by blast
  define c where "c = nextHandle w1"
  define inst where "inst =
        \<lparr>transform = [[f_1_0, f_0_0, f_0_0, f_0_0],
                      [f_0_0, f_1_0, f_0_0, f_0_0],
                      [f_0_0, f_0_0, f_1_0, f_0_0]],
         instanceCustomIndex = 0,
         mask = 0xFF,
         instanceShaderBindingTableRecordOffset = 0,
         instanceFlags = eTriangleFacingCullDisable,
         accelerationStructureReference = address (accelBuffer (bottomAccel app1))\<rparr>"
  define info2 where "info2 =
        \<lparr>buildType = eTopLevel, buildMode = eBuild, buildFlags = {ePreferFastTrace},
         geometries =
           [\<lparr>geometryType = eInstances,
             geometry = Instances
               \<lparr>arrayOfPointers = False, instancesAddress = getBufferAddressKHR dev c\<rparr>,
             geometryFlags = {eOpaque}\<rparr>],
         dstAccelerationStructure = Some (Suc (Suc (Suc (Suc c)))),
         scratchData = getBufferAddressKHR dev (Suc (Suc (Suc (Suc (Suc c)))))\<rparr>"
  define rng2 :: AccelerationStructureBuildRangeInfoKHR where "rng2 =
        \<lparr>primitiveCount = 1, primitiveOffset = 0, firstVertex = 0, transformOffset = 0\<rparr>"
  define app2 where "app2 = app1\<lparr>topAccel :=
                        \<lparr>accel = Some (Suc (Suc (Suc (Suc c)))),
                         accelBuffer =
                           \<lparr>buffer = Some (Suc (Suc c)),
                            memory = Some (Suc (Suc (Suc c))),
                            address = getAccelerationStructureAddressKHR dev (Suc (Suc (Suc (Suc c))))\<rparr>\<rparr>\<rparr>"
  from createTopLevelAS_trace [OF p c_def inst_def info2_def rng2_def]
  obtain w2 T2 where
    r2: "createTopLevelAS pd dev app1 w1 = Inr (app2, w2)"
    and e2: "cerr w2 = cerr w1"
    and c2: "calls w2 = calls w1 @ T2"
    and o2: "occursInOrder
              [(\<lambda>x. x = BindBufferMemory c (Suc c) 0),
               (\<lambda>x. x = Memcpy (Suc c) (bytes_of_AccelerationStructureInstanceKHR inst)),
               (\<lambda>x. x = GetBufferAddress c),
               (\<lambda>x. x = CmdBuildAccelerationStructures (Suc (Suc (Suc (Suc (Suc (Suc (Suc c))))))) info2 rng2)] T2"
    and f2: "filter isBuild T2 = [CmdBuildAccelerationStructures (Suc (Suc (Suc (Suc (Suc (Suc (Suc c))))))) info2 rng2]"
            "filter isCreateRayTracingPipeline T2 = []"
            "filter isGetRayTracingShaderGroupHandles T2 = []"
    unfolding app2_def by blast
  from prepareShaders_trace [of app2 w2] obtain app3 w3 T3 where
    r3: "prepareShaders app2 w2 = Inr (app3, w3)"
    and e3: "cerr w3 = cerr w2" and c3: "calls w3 = calls w2 @ T3"
    and l3: "length (shaderGroups app3) = 3"
    and f3: "filter isBuild T3 = []" "filter isCreateRayTracingPipeline T3 = []"
            "filter isGetRayTracingShaderGroupHandles T3 = []"
    by blast
  from createDescriptorPool_trace [of app3 w3] obtain app4 w4 T4 where
    r4: "createDescriptorPool app3 w3 = (app4, w4)"
    and e4: "cerr w4 = cerr w3" and c4: "calls w4 = calls w3 @ T4"
    and l4: "shaderGroups app4 = shaderGroups app3"
    and f4: "filter isBuild T4 = []" "filter isCreateRayTracingPipeline T4 = []"
            "filter isGetRayTracingShaderGroupHandles T4 = []"
    by blast
  from createDescSetLayout_trace [of app4 w4] obtain app5 w5 T5 where
    r5: "createDescSetLayout app4 w4 = (app5, w5)"
    and e5: "cerr w5 = cerr w4" and c5: "calls w5 = calls w4 @ T5"
    and l5: "shaderGroups app5 = shaderGroups app4"
    and f5: "filter isBuild T5 = []" "filter isCreateRayTracingPipeline T5 = []"
            "filter isGetRayTracingShaderGroupHandles T5 = []"
    by blast
  from createDescriptorSet_trace [of app5 w5] obtain app6 w6 T6 where
    r6: "createDescriptorSet app5 w5 = (app6, w6)"
    and e6: "cerr w6 = cerr w5" and c6: "calls w6 = calls w5 @ T6"
    and l6: "shaderGroups app6 = shaderGroups app5"
    and f6: "filter isBuild T6 = []" "filter isCreateRayTracingPipeline T6 = []"
            "filter isGetRayTracingShaderGroupHandles T6 = []"
    by blast
  define T where "T = (T1 @ T2) @ (T3 @ T4 @ T5 @ T6)"
  have run: "initVulkan pd dev app w =
        (case createRayTracingPipeline dev app6 w6 of
           Inl stop \<Rightarrow> Inl stop
         | Inr (app7, w7) \<Rightarrow> createShaderBindingTable pd dev app7 w7)"
    by (simp add: initVulkan_def r1 r2 r3 r4 r5 r6)
  have cs: "calls w6 = calls w @ T" by (simp add: T_def c1 c2 c3 c4 c5 c6)
  have ce: "cerr w6 = cerr w" by (simp add: e1 e2 e3 e4 e5 e6)
  have ln: "length (shaderGroups app6) = 3" by (simp add: l3 l4 l5 l6)
  have o12: "occursInOrder
         ([(\<lambda>c. c = CmdBuildAccelerationStructures (Suc (Suc (Suc (Suc (Suc (Suc (Suc (Suc (Suc b))))))))) info1 rng1),
           (\<lambda>c. c = QueueSubmit (Suc (Suc (Suc (Suc (Suc (Suc (Suc (Suc (Suc b)))))))))),
           (\<lambda>c. c = QueueWaitIdle),
           (\<lambda>c. c = GetAccelerationStructureAddress (Suc (Suc (Suc (Suc (Suc (Suc b)))))))]
          @ [(\<lambda>x. x = BindBufferMemory c (Suc c) 0),
             (\<lambda>x. x = Memcpy (Suc c) (bytes_of_AccelerationStructureInstanceKHR inst)),
             (\<lambda>x. x = GetBufferAddress c),
             (\<lambda>x. x = CmdBuildAccelerationStructures (Suc (Suc (Suc (Suc (Suc (Suc (Suc c))))))) info2 rng2)])
         (T1 @ T2)"
    using o1 o2 by (rule occursInOrder_append)
  have oe: "occursInOrder [] (T3 @ T4 @ T5 @ T6)" by simp
  have ord: "occursInOrder
         [(\<lambda>c. c = CmdBuildAccelerationStructures (Suc (Suc (Suc (Suc (Suc (Suc (Suc (Suc (Suc b))))))))) info1 rng1),
          (\<lambda>c. c = QueueSubmit (Suc (Suc (Suc (Suc (Suc (Suc (Suc (Suc (Suc b)))))))))),
          (\<lambda>c. c = QueueWaitIdle),
          (\<lambda>c. c = GetAccelerationStructureAddress (Suc (Suc (Suc (Suc (Suc (Suc b))))))),
          (\<lambda>x. x = BindBufferMemory c (Suc c) 0),
          (\<lambda>x. x = Memcpy (Suc c) (bytes_of_AccelerationStructureInstanceKHR inst)),
          (\<lambda>x. x = GetBufferAddress c),
          (\<lambda>x. x = CmdBuildAccelerationStructures (Suc (Suc (Suc (Suc (Suc (Suc (Suc c))))))) info2 rng2)]
         T"
    using occursInOrder_append [OF o12 oe] unfolding T_def by simp
  have fb: "filter isBuild T = [CmdBuildAccelerationStructures (Suc (Suc (Suc (Suc (Suc (Suc (Suc (Suc (Suc b))))))))) info1 rng1,
                                CmdBuildAccelerationStructures (Suc (Suc (Suc (Suc (Suc (Suc (Suc c))))))) info2 rng2]"
    by (simp add: T_def f1 f2 f3 f4 f5 f6)
  have fp: "filter isCreateRayTracingPipeline T = []"
    by (simp add: T_def f1 f2 f3 f4 f5 f6)
  have fg: "filter isGetRayTracingShaderGroupHandles T = []"
    by (simp add: T_def f1 f2 f3 f4 f5 f6)
  have i1: "buildType info1 = eBottomLevel" "dstAccelerationStructure info1 = Some (Suc (Suc (Suc (Suc (Suc (Suc b))))))"
    by (simp_all add: info1_def)
  have i2: "buildType info2 = eTopLevel" "dstAccelerationStructure info2 = Some (Suc (Suc (Suc (Suc c))))"
    "geometries info2 =
         [\<lparr>geometryType = eInstances,
           geometry = Instances
             \<lparr>arrayOfPointers = False, instancesAddress = getBufferAddressKHR dev c\<rparr>,
           geometryFlags = {eOpaque}\<rparr>]"
    by (simp_all add: info2_def)
  have ne: "(Suc (Suc (Suc (Suc (Suc (Suc b)))))) \<noteq> (Suc (Suc (Suc (Suc c))))" unfolding c_def n1 by simp
  have rf: "accelerationStructureReference inst
              = getAccelerationStructureAddressKHR dev (Suc (Suc (Suc (Suc (Suc (Suc b))))))"
    by (simp add: inst_def app1_def)
  from run cs ce ln ord fb fp fg i1 i2 ne rf show ?thesis by blast
qed

text \<open>
  C6: on a provisioned GPU, however \<^verbatim>\<open>initVulkan\<close> ends, the calls it has issued contain,
  in this order: the build command of the bottom-level structure, the submission of its
  command buffer, the wait for the queue to be idle, the query of the bottom-level
  structure's device address, the binding of the instance buffer to its memory, the copy
  into that memory of the instance record whose reference field holds exactly the address
  the device reports for the bottom-level structure, the query of the instance buffer's
  address, and the build command of the top-level structure, whose one geometry is the
  instance data at that address. These two are the only build commands. The reference
  is non-zero when the device reports no null address.
\<close>

theorem blas_ready_before_tlas:
  assumes p: "provisioned pd dev"
  shows "\<exists>blas tlas ib im cb1 cb2 info1 info2 rng1 rng2 inst.
      occursInOrder
         [(\<lambda>c. c = CmdBuildAccelerationStructures cb1 info1 rng1),
          (\<lambda>c. c = QueueSubmit cb1),
          (\<lambda>c. c = QueueWaitIdle),
          (\<lambda>c. c = GetAccelerationStructureAddress blas),
          (\<lambda>c. c = BindBufferMemory ib im 0),
          (\<lambda>c. c = Memcpy im (bytes_of_AccelerationStructureInstanceKHR inst)),
          (\<lambda>c. c = GetBufferAddress ib),
          (\<lambda>c. c = CmdBuildAccelerationStructures cb2 info2 rng2)]
         (calls_since w (world_of (initVulkan pd dev app w)))
    \<and> filter isBuild (calls_since w (world_of (initVulkan pd dev app w)))
         = [CmdBuildAccelerationStructures cb1 info1 rng1,
            CmdBuildAccelerationStructures cb2 info2 rng2]
    \<and> buildType info1 = eBottomLevel \<and> dstAccelerationStructure info1 = Some blas
    \<and> buildType info2 = eTopLevel \<and> dstAccelerationStructure info2 = Some tlas
    \<and> blas \<noteq> tlas
    \<and> geometries info2 =
         [\<lparr>geometryType = eInstances,
           geometry = Instances
             \<lparr>arrayOfPointers = False, instancesAddress = getBufferAddressKHR dev ib\<rparr>,
           geometryFlags = {eOpaque}\<rparr>]
    \<and> accelerationStructureReference inst = getAccelerationStructureAddressKHR dev blas
    \<and> ((\<forall>a. getAccelerationStructureAddressKHR dev a \<noteq> 0) \<longrightarrow>
           accelerationStructureReference inst \<noteq> 0)"
proof -
  from initVulkan_reaches_pipeline [OF p, of app w]
  obtain app6 w6 T blas tlas ib im cb1 cb2 info1 info2 rng1 rng2 inst where
    run: "initVulkan pd dev app w =
        (case createRayTracingPipeline dev app6 w6 of
           Inl stop \<Rightarrow> Inl stop
         | Inr (app7, w7) \<Rightarrow> createShaderBindingTable pd dev app7 w7)"
    and cs: "calls w6 = calls w @ T"
    and ord: "occursInOrder
         [(\<lambda>c. c = CmdBuildAccelerationStructures cb1 info1 rng1),
          (\<lambda>c. c = QueueSubmit cb1),
          (\<lambda>c. c = QueueWaitIdle),
          (\<lambda>c. c = GetAccelerationStructureAddress blas),
          (\<lambda>c. c = BindBufferMemory ib im 0),
          (\<lambda>c. c = Memcpy im (bytes_of_AccelerationStructureInstanceKHR inst)),
          (\<lambda>c. c = GetBufferAddress ib),
          (\<lambda>c. c = CmdBuildAccelerationStructures cb2 info2 rng2)]
         T"
    and fb: "filter isBuild T = [CmdBuildAccelerationStructures cb1 info1 rng1,
                                CmdBuildAccelerationStructures cb2 info2 rng2]"
    and props: "buildType info1 = eBottomLevel" "dstAccelerationStructure info1 = Some blas"
      "buildType info2 = eTopLevel" "dstAccelerationStructure info2 = Some tlas"
      "blas \<noteq> tlas"
      "geometries info2 =
         [\<lparr>geometryType = eInstances,
           geometry = Instances
             \<lparr>arrayOfPointers = False, instancesAddress = getBufferAddressKHR dev ib\<rparr>,
           geometryFlags = {eOpaque}\<rparr>]"
      "accelerationStructureReference inst = getAccelerationStructureAddressKHR dev blas"
    by blast
  have "\<exists>tr. calls (world_of (initVulkan pd dev app w)) = calls w6 @ tr
             \<and> filter isBuild tr = []"
    unfolding run
    by (rule grows_case [OF createRayTracingPipeline_grows])
       (rule createShaderBindingTable_grows)
  then obtain tr where
    tr: "calls (world_of (initVulkan pd dev app w)) = calls w6 @ tr" "filter isBuild tr = []"
    by blast
  have since: "calls_since w (world_of (initVulkan pd dev app w)) = T @ tr"
    by (simp add: calls_since_def tr cs)
  have o: "occursInOrder
         [(\<lambda>c. c = CmdBuildAccelerationStructures cb1 info1 rng1),
          (\<lambda>c. c = QueueSubmit cb1),
          (\<lambda>c. c = QueueWaitIdle),
          (\<lambda>c. c = GetAccelerationStructureAddress blas),
          (\<lambda>c. c = BindBufferMemory ib im 0),
          (\<lambda>c. c = Memcpy im (bytes_of_AccelerationStructureInstanceKHR inst)),
          (\<lambda>c. c = GetBufferAddress ib),
          (\<lambda>c. c = CmdBuildAccelerationStructures cb2 info2 rng2)]
         (calls_since w (world_of (initVulkan pd dev app w)))"
    using occursInOrder_append [OF ord, of "[]" tr] unfolding since by simp
  have f: "filter isBuild (calls_since w (world_of (initVulkan pd dev app w)))
         = [CmdBuildAccelerationStructures cb1 info1 rng1,
            CmdBuildAccelerationStructures cb2 info2 rng2]"
    unfolding since by (simp add: fb tr)
  have nz: "(\<forall>a. getAccelerationStructureAddressKHR dev a \<noteq> 0) \<longrightarrow>
           accelerationStructureReference inst \<noteq> 0"
    by (simp add: props)
  from o f props nz show ?thesis by blast
qed

lemma sample_accel_address_nonnull: "\<forall>a. getAccelerationStructureAddressKHR sample_device a \<noteq> 0"
  by (simp add: sample_device_def or_eq_0_iff)

text \<open>C6 on the sample GPU.\<close>

theorem blas_ready_before_tlas_witness:
  "provisioned sample_physicalDevice sample_device
   \<and> (\<forall>a. getAccelerationStructureAddressKHR sample_device a \<noteq> 0)
   \<and> (\<exists>blas tlas ib im cb1 cb2 info1 info2 rng1 rng2 inst.
        occursInOrder
          [(\<lambda>c. c = CmdBuildAccelerationStructures cb1 info1 rng1),
           (\<lambda>c. c = QueueSubmit cb1),
           (\<lambda>c. c = QueueWaitIdle),
           (\<lambda>c. c = GetAccelerationStructureAddress blas),
           (\<lambda>c. c = BindBufferMemory ib im 0),
           (\<lambda>c. c = Memcpy im (bytes_of_AccelerationStructureInstanceKHR inst)),
           (\<lambda>c. c = GetBufferAddress ib),
           (\<lambda>c. c = CmdBuildAccelerationStructures cb2 info2 rng2)]
          (calls_since World_start
             (world_of (initVulkan sample_physicalDevice sample_device Application_new
                          World_start)))
      \<and> dstAccelerationStructure info1 = Some blas
      \<and> dstAccelerationStructure info2 = Some tlas
      \<and> accelerationStructureReference inst
           = getAccelerationStructureAddressKHR sample_device blas
      \<and> accelerationStructureReference inst \<noteq> 0)"
proof -
  from blas_ready_before_tlas [OF sample_provisioned, where app = Application_new and w = World_start]
  obtain blas tlas ib im cb1 cb2 info1 info2 rng1 rng2 inst where
    f: "occursInOrder
          [(\<lambda>c. c = CmdBuildAccelerationStructures cb1 info1 rng1),
           (\<lambda>c. c = QueueSubmit cb1),
           (\<lambda>c. c = QueueWaitIdle),
           (\<lambda>c. c = GetAccelerationStructureAddress blas),
           (\<lambda>c. c = BindBufferMemory ib im 0),
           (\<lambda>c. c = Memcpy im (bytes_of_AccelerationStructureInstanceKHR inst)),
           (\<lambda>c. c = GetBufferAddress ib),
           (\<lambda>c. c = CmdBuildAccelerationStructures cb2 info2 rng2)]
          (calls_since World_start
             (world_of (initVulkan sample_physicalDevice sample_device Application_new
                          World_start)))"
       "dstAccelerationStructure info1 = Some blas"
       "dstAccelerationStructure info2 = Some tlas"
       "accelerationStructureReference inst
           = getAccelerationStructureAddressKHR sample_device blas"
       "(\<forall>a. getAccelerationStructureAddressKHR sample_device a \<noteq> 0) \<longrightarrow>
           accelerationStructureReference inst \<noteq> 0"
    by blast
  from f(5) sample_accel_address_nonnull
  have "accelerationStructureReference inst \<noteq> 0" by blast
  with f(1-4) have "\<exists>blas tlas ib im cb1 cb2 info1 info2 rng1 rng2 inst.
        occursInOrder
          [(\<lambda>c. c = CmdBuildAccelerationStructures cb1 info1 rng1),
           (\<lambda>c. c = QueueSubmit cb1),
           (\<lambda>c. c = QueueWaitIdle),
           (\<lambda>c. c = GetAccelerationStructureAddress blas),
           (\<lambda>c. c = BindBufferMemory ib im 0),
           (\<lambda>c. c = Memcpy im (bytes_of_AccelerationStructureInstanceKHR inst)),
           (\<lambda>c. c = GetBufferAddress ib),
           (\<lambda>c. c = CmdBuildAccelerationStructures cb2 info2 rng2)]
          (calls_since World_start
             (world_of (initVulkan sample_physicalDevice sample_device Application_new
                          World_start)))
      \<and> dstAccelerationStructure info1 = Some blas
      \<and> dstAccelerationStructure info2 = Some tlas
      \<and> accelerationStructureReference inst
           = getAccelerationStructureAddressKHR sample_device blas
      \<and> accelerationStructureReference inst \<noteq> 0"
    by blast
  with sample_provisioned sample_accel_address_nonnull show ?thesis by blast
qed

section \<open>Device addresses\<close>

lemma filter_isCreateBuffer_upload [simp]: "filter isCreateBuffer (upload_calls m s d) = []"
  by (simp add: upload_calls_def isCreateBuffer_def split: option.splits)

lemma sample_buffer_address_nonnull: "\<forall>h. getBufferAddressKHR sample_device h \<noteq> 0"
  by (simp add: sample_device_def or_eq_0_iff)

lemma sample_createBottomLevelAS:
  "\<exists>w1. createBottomLevelAS sample_physicalDevice sample_device Application_new World_start =
          Inr (Application_new\<lparr>bottomAccel :=
                 \<lparr>accel = Some 6,
                  accelBuffer = \<lparr>buffer = Some 4, memory = Some 5, address = 0x20600\<rparr>\<rparr>\<rparr>, w1)
       \<and> filter isCreateBuffer (calls w1) =
           [CreateBuffer 0 36 {eAccelerationStructureBuildInputReadOnlyKHR, eShaderDeviceAddress},
            CreateBuffer 2 12 {eAccelerationStructureBuildInputReadOnlyKHR, eShaderDeviceAddress},
            CreateBuffer 4 1024 {eAccelerationStructureStorageKHR},
            CreateBuffer 7 512 {eStorageBuffer, eShaderDeviceAddress}]"
proof -
  note i1 = Buffer_init_found [OF sample_host vertices_readable]
  note i2 = Buffer_init_found [OF sample_host indices_readable]
  note i3 = AccelStruct_init_found [OF refl refl sample_local sample_local refl]
  have n: "(2 :: nat) = Suc (Suc 0)" "(4 :: nat) = Suc (Suc (Suc (Suc 0)))"
    "(5 :: nat) = Suc (Suc (Suc (Suc (Suc 0))))"
    "(6 :: nat) = Suc (Suc (Suc (Suc (Suc (Suc 0)))))"
    "(7 :: nat) = Suc (Suc (Suc (Suc (Suc (Suc (Suc 0))))))"
    by simp_all
  have a: "getAccelerationStructureAddressKHR sample_device (Suc (Suc (Suc (Suc (Suc (Suc 0))))))
             = 0x20600"
    by (simp add: sample_device_def)
  have s: "getAccelerationStructureBuildSizesKHR sample_device t g k
             = \<lparr>accelerationStructureSize = 1024, updateScratchSize = 0,
                buildScratchSize = 512\<rparr>" for t g k
    by (simp add: sample_device_def)
  show ?thesis
    unfolding createBottomLevelAS_def createBottomLevelAS_of_def n
    apply (simp add: Let_def i1 i2 i3 world_defs Buffer_new_def isCreateBuffer_def
             Application_new_def AccelStruct_new_def)
    apply (simp add: World_start_def a s triangle_vertices_def
        triangle_indices_def sizeof_Vertex_def sizeof_uint32_t_def)
    done
qed

text \<open>
  C2, as stated, on the sample GPU: after \<^verbatim>\<open>createBottomLevelAS\<close> the buffer of
  \<^verbatim>\<open>bottomAccel\<close> (buffer 4) has a non-zero address, and it was created without
  device-address usage. And a \<^verbatim>\<open>Buffer\<close> that got its address from a first \<^verbatim>\<open>init\<close> keeps
  that address through a second \<^verbatim>\<open>init\<close> without device-address usage.
\<close>

theorem AccelStruct_buffer_has_address_without_usage:
  "value_of (createBottomLevelAS sample_physicalDevice sample_device Application_new World_start)
     = Some (Application_new\<lparr>bottomAccel :=
               \<lparr>accel = Some 6,
                accelBuffer = \<lparr>buffer = Some 4, memory = Some 5, address = 0x20600\<rparr>\<rparr>\<rparr>)
   \<and> filter isCreateBuffer
         (calls_of (createBottomLevelAS sample_physicalDevice sample_device Application_new
                      World_start))
       = [CreateBuffer 0 36 {eAccelerationStructureBuildInputReadOnlyKHR, eShaderDeviceAddress},
          CreateBuffer 2 12 {eAccelerationStructureBuildInputReadOnlyKHR, eShaderDeviceAddress},
          CreateBuffer 4 1024 {eAccelerationStructureStorageKHR},
          CreateBuffer 7 512 {eStorageBuffer, eShaderDeviceAddress}]
   \<and> (0x20600 :: DeviceAddress) \<noteq> 0
   \<and> eShaderDeviceAddress \<notin> {eAccelerationStructureStorageKHR}
   \<and> (\<exists>w1 w2.
         Buffer_init sample_physicalDevice sample_device 4 {eTransferSrc, eShaderDeviceAddress}
           {eDeviceLocal} None Buffer_new World_start
           = Inr (\<lparr>buffer = Some 0, memory = Some 1, address = 0x10000\<rparr>, w1)
       \<and> Buffer_init sample_physicalDevice sample_device 4 {eTransferSrc}
           {eDeviceLocal} None \<lparr>buffer = Some 0, memory = Some 1, address = 0x10000\<rparr> w1
           = Inr (\<lparr>buffer = Some 2, memory = Some 3, address = 0x10000\<rparr>, w2))
   \<and> (0x10000 :: DeviceAddress) \<noteq> 0
   \<and> eShaderDeviceAddress \<notin> {eTransferSrc}"
proof -
  from sample_createBottomLevelAS obtain w1 where
    "createBottomLevelAS sample_physicalDevice sample_device Application_new World_start =
          Inr (Application_new\<lparr>bottomAccel :=
                 \<lparr>accel = Some 6,
                  accelBuffer = \<lparr>buffer = Some 4, memory = Some 5, address = 0x20600\<rparr>\<rparr>\<rparr>, w1)"
    "filter isCreateBuffer (calls w1) =
           [CreateBuffer 0 36 {eAccelerationStructureBuildInputReadOnlyKHR, eShaderDeviceAddress},
            CreateBuffer 2 12 {eAccelerationStructureBuildInputReadOnlyKHR, eShaderDeviceAddress},
            CreateBuffer 4 1024 {eAccelerationStructureStorageKHR},
            CreateBuffer 7 512 {eStorageBuffer, eShaderDeviceAddress}]"
    by blast
  then have A: "value_of (createBottomLevelAS sample_physicalDevice sample_device Application_new World_start)
     = Some (Application_new\<lparr>bottomAccel :=
               \<lparr>accel = Some 6,
                accelBuffer = \<lparr>buffer = Some 4, memory = Some 5, address = 0x20600\<rparr>\<rparr>\<rparr>)
   \<and> filter isCreateBuffer
         (calls_of (createBottomLevelAS sample_physicalDevice sample_device Application_new
                      World_start))
       = [CreateBuffer 0 36 {eAccelerationStructureBuildInputReadOnlyKHR, eShaderDeviceAddress},
          CreateBuffer 2 12 {eAccelerationStructureBuildInputReadOnlyKHR, eShaderDeviceAddress},
          CreateBuffer 4 1024 {eAccelerationStructureStorageKHR},
          CreateBuffer 7 512 {eStorageBuffer, eShaderDeviceAddress}]"
    by (simp add: value_of_def calls_of_def)
  have n: "(2 :: nat) = Suc (Suc 0)" "(3 :: nat) = Suc (Suc (Suc 0))" "(1 :: nat) = Suc 0"
    by simp_all
  have ad: "getBufferAddressKHR sample_device 0 = 0x10000"
    by (simp add: sample_device_def)
  note r1 = Buffer_init_found [OF sample_local no_data_readable,
      of 4 "{eTransferSrc, eShaderDeviceAddress}" Buffer_new World_start]
  have B: "\<exists>w1 w2.
         Buffer_init sample_physicalDevice sample_device 4 {eTransferSrc, eShaderDeviceAddress}
           {eDeviceLocal} None Buffer_new World_start
           = Inr (\<lparr>buffer = Some 0, memory = Some 1, address = 0x10000\<rparr>, w1)
       \<and> Buffer_init sample_physicalDevice sample_device 4 {eTransferSrc}
           {eDeviceLocal} None \<lparr>buffer = Some 0, memory = Some 1, address = 0x10000\<rparr> w1
           = Inr (\<lparr>buffer = Some 2, memory = Some 3, address = 0x10000\<rparr>, w2)"
    unfolding r1 n
    by (simp add: Buffer_init_found [OF sample_local no_data_readable] World_start_def ad)
  from A B show ?thesis by simp
qed

text \<open>C2 (amended) on the sample GPU.\<close>

theorem address_nonzero_iff_requested_witness:
  "(\<forall>h. getBufferAddressKHR sample_device h \<noteq> 0) \<and> address Buffer_new = 0
   \<and> (\<exists>self' w'.
         Buffer_init sample_physicalDevice sample_device 36 {eTransferSrc, eShaderDeviceAddress}
           {eDeviceLocal} None Buffer_new World_start = Inr (self', w')
       \<and> address self' \<noteq> 0)
   \<and> (\<exists>self' w'.
         Buffer_init sample_physicalDevice sample_device 36 {eTransferSrc}
           {eDeviceLocal} None Buffer_new World_start = Inr (self', w')
       \<and> address self' = 0)
   \<and> (\<forall>h. getAccelerationStructureAddressKHR sample_device h \<noteq> 0)
   \<and> (\<exists>accel' w' b sz sb ssz.
         AccelStruct_init sample_physicalDevice sample_device eBottomLevel
           \<lparr>geometryType = eTriangles,
            geometry = Triangles
              \<lparr>vertexFormat = eR32G32B32Sfloat, vertexData = 0x10000, vertexStride = 12,
               maxVertex = 3, indexType = eUint32, indexData = 0x10200\<rparr>,
            geometryFlags = {eOpaque}\<rparr> 1 AccelStruct_new World_start = Inr (accel', w')
       \<and> buffer (accelBuffer accel') = Some b
       \<and> filter isCreateBuffer (calls_since World_start w')
            = [CreateBuffer b sz {eAccelerationStructureStorageKHR},
               CreateBuffer sb ssz {eStorageBuffer, eShaderDeviceAddress}]
       \<and> address (accelBuffer accel') \<noteq> 0)"
proof -
  have u: "address Buffer_new = 0" by (simp add: Buffer_new_def)
  from Buffer_init_found [OF sample_local no_data_readable,
      of 36 "{eTransferSrc, eShaderDeviceAddress}" Buffer_new World_start]
  obtain s1 w1 where
    r1: "Buffer_init sample_physicalDevice sample_device 36 {eTransferSrc, eShaderDeviceAddress}
           {eDeviceLocal} None Buffer_new World_start = Inr (s1, w1)"
    by blast
  from Buffer_init_found [OF sample_local no_data_readable,
      of 36 "{eTransferSrc}" Buffer_new World_start]
  obtain s2 w2 where
    r2: "Buffer_init sample_physicalDevice sample_device 36 {eTransferSrc}
           {eDeviceLocal} None Buffer_new World_start = Inr (s2, w2)"
    by blast
  from AccelStruct_init_found [OF refl refl sample_local sample_local refl,
      of eBottomLevel "\<lparr>geometryType = eTriangles,
            geometry = Triangles
              \<lparr>vertexFormat = eR32G32B32Sfloat, vertexData = 0x10000, vertexStride = 12,
               maxVertex = 3, indexType = eUint32, indexData = 0x10200\<rparr>,
            geometryFlags = {eOpaque}\<rparr>" 1 AccelStruct_new World_start]
  obtain a3 w3 where
    r3: "AccelStruct_init sample_physicalDevice sample_device eBottomLevel
           \<lparr>geometryType = eTriangles,
            geometry = Triangles
              \<lparr>vertexFormat = eR32G32B32Sfloat, vertexData = 0x10000, vertexStride = 12,
               maxVertex = 3, indexType = eUint32, indexData = 0x10200\<rparr>,
            geometryFlags = {eOpaque}\<rparr> 1 AccelStruct_new World_start = Inr (a3, w3)"
    by blast
  from address_nonzero_iff_requested [THEN conjunct1, rule_format, OF r1, THEN conjunct2]
       sample_buffer_address_nonnull u
  have a1: "address s1 \<noteq> 0" by simp
  from address_nonzero_iff_requested [THEN conjunct1, rule_format, OF r2, THEN conjunct2]
       sample_buffer_address_nonnull u
  have a2: "address s2 = 0" by simp
  from address_nonzero_iff_requested [THEN conjunct2, rule_format, OF r3]
       sample_accel_address_nonnull
  obtain b sz sb ssz where
    a3: "buffer (accelBuffer a3) = Some b"
        "filter isCreateBuffer (calls_since World_start w3)
            = [CreateBuffer b sz {eAccelerationStructureStorageKHR},
               CreateBuffer sb ssz {eStorageBuffer, eShaderDeviceAddress}]"
        "address (accelBuffer a3) \<noteq> 0"
    by blast
  from r1 a1 have c1: "\<exists>self' w'.
         Buffer_init sample_physicalDevice sample_device 36 {eTransferSrc, eShaderDeviceAddress}
           {eDeviceLocal} None Buffer_new World_start = Inr (self', w')
       \<and> address self' \<noteq> 0" by blast
  from r2 a2 have c2: "\<exists>self' w'.
         Buffer_init sample_physicalDevice sample_device 36 {eTransferSrc}
           {eDeviceLocal} None Buffer_new World_start = Inr (self', w')
       \<and> address self' = 0" by blast
  from r3 a3 have c3: "\<exists>accel' w' b sz sb ssz.
         AccelStruct_init sample_physicalDevice sample_device eBottomLevel
           \<lparr>geometryType = eTriangles,
            geometry = Triangles
              \<lparr>vertexFormat = eR32G32B32Sfloat, vertexData = 0x10000, vertexStride = 12,
               maxVertex = 3, indexType = eUint32, indexData = 0x10200\<rparr>,
            geometryFlags = {eOpaque}\<rparr> 1 AccelStruct_new World_start = Inr (accel', w')
       \<and> buffer (accelBuffer accel') = Some b
       \<and> filter isCreateBuffer (calls_since World_start w')
            = [CreateBuffer b sz {eAccelerationStructureStorageKHR},
               CreateBuffer sb ssz {eStorageBuffer, eShaderDeviceAddress}]
       \<and> address (accelBuffer accel') \<noteq> 0" by blast
  from sample_buffer_address_nonnull u c1 c2 sample_accel_address_nonnull c3
  show ?thesis by (intro conjI)
qed

section \<open>The shader binding table\<close>

lemma vector_data_bytes:
  "vector_data (\<lambda>b. [b]) xs = (if xs = [] then None else Some xs)"
  by (simp add: vector_data_def)

lemma createShaderBindingTable_Inr:
  assumes ret: "createShaderBindingTable pd dev app w = Inr (app', w')"
      and gc: "groupCount = (word_of_nat (length (shaderGroups app)) :: uint32)"
      and u: "usage = {eShaderBindingTableKHR, eTransferSrc, eShaderDeviceAddress}"
  shows "\<exists>aligned ty.
           getAlignedSize (shaderGroupHandleSize pd) (shaderGroupHandleAlignment pd) = Some aligned
         \<and> fst (getRayTracingShaderGroupHandlesKHR dev (pipeline app) 0 groupCount
                  (unat (groupCount * aligned))) = eSuccess
         \<and> getMemoryType pd
               (getBufferMemoryRequirements dev (ucast (shaderGroupHandleSize pd)) usage)
               {eHostVisible, eHostCoherent} = Inr ty
         \<and> (\<forall>k \<in> {0, 1, 2}. \<forall>bytes.
               pointer_add
                 (vector_data (\<lambda>b. [b])
                    (map (snd (getRayTracingShaderGroupHandlesKHR dev (pipeline app) 0 groupCount
                                 (unat (groupCount * aligned))))
                       [0 ..< unat (groupCount * aligned)]))
                 (unat (k * aligned)) = Some bytes
               \<longrightarrow> unat (ucast (shaderGroupHandleSize pd) :: DeviceSize) \<le> length bytes)"
  using ret unfolding createShaderBindingTable_def gc u getRayTracingProps_def Let_def
  by (auto split: option.splits sum.splits prod.splits if_splits dest!: Buffer_init_Inr)


lemma filter_isGet_upload [simp]:
  "filter isGetRayTracingShaderGroupHandles (upload_calls m s d) = []"
  by (simp add: upload_calls_def isGetRayTracingShaderGroupHandles_def split: option.splits)

lemma createShaderBindingTable_found:
  assumes al: "getAlignedSize (shaderGroupHandleSize pd) (shaderGroupHandleAlignment pd)
                 = Some aligned"
      and gc: "groupCount = (word_of_nat (length (shaderGroups app)) :: uint32)"
      and u: "usage = {eShaderBindingTableKHR, eTransferSrc, eShaderDeviceAddress}"
      and ok: "fst (getRayTracingShaderGroupHandlesKHR dev (pipeline app) 0 groupCount
                  (unat (groupCount * aligned))) = eSuccess"
      and ty: "getMemoryType pd
               (getBufferMemoryRequirements dev (ucast (shaderGroupHandleSize pd)) usage)
               {eHostVisible, eHostCoherent} = Inr ty"
      and blob: "blob = map (snd (getRayTracingShaderGroupHandlesKHR dev (pipeline app) 0
                                    groupCount (unat (groupCount * aligned))))
                          [0 ..< unat (groupCount * aligned)]"
      and d: "d = (\<lambda>k. pointer_add (vector_data (\<lambda>b. [b]) blob) (unat (k * aligned)))"
      and rd: "\<forall>k \<in> {0, 1, 2}. \<forall>bytes. d k = Some bytes
               \<longrightarrow> unat (ucast (shaderGroupHandleSize pd) :: DeviceSize) \<le> length bytes"
      and s: "s = (ucast (shaderGroupHandleSize pd) :: DeviceSize)"
      and b: "b = nextHandle w"
  shows "\<exists>X Y. createShaderBindingTable pd dev app w = Inr (X, Y)
         \<and> handleSizeAligned X = aligned
         \<and> raygenSBT X = \<lparr>buffer = Some b, memory = Some (Suc b),
                            address = getBufferAddressKHR dev b\<rparr>
         \<and> missSBT X = \<lparr>buffer = Some (Suc (Suc b)), memory = Some (Suc (Suc (Suc b))),
                          address = getBufferAddressKHR dev (Suc (Suc b))\<rparr>
         \<and> hitSBT X = \<lparr>buffer = Some (Suc (Suc (Suc (Suc b)))),
                         memory = Some (Suc (Suc (Suc (Suc (Suc b))))),
                         address = getBufferAddressKHR dev (Suc (Suc (Suc (Suc b))))\<rparr>
         \<and> filter isCreateBuffer (calls_since w Y) =
              [CreateBuffer b s usage, CreateBuffer (Suc (Suc b)) s usage,
               CreateBuffer (Suc (Suc (Suc (Suc b)))) s usage]
         \<and> AllocateMemory (Suc b) (size_req (getBufferMemoryRequirements dev s usage)) ty
               {eDeviceAddress} \<in> set (calls_since w Y)
         \<and> AllocateMemory (Suc (Suc (Suc b)))
               (size_req (getBufferMemoryRequirements dev s usage)) ty
               {eDeviceAddress} \<in> set (calls_since w Y)
         \<and> AllocateMemory (Suc (Suc (Suc (Suc (Suc b)))))
               (size_req (getBufferMemoryRequirements dev s usage)) ty
               {eDeviceAddress} \<in> set (calls_since w Y)
         \<and> filter isGetRayTracingShaderGroupHandles (calls_since w Y) =
              [GetRayTracingShaderGroupHandles (pipeline app) 0 groupCount
                 (unat (groupCount * aligned))]
         \<and> hostMemory Y (Suc b) = uploaded s (d 0) (hostMemory w (Suc b))
         \<and> hostMemory Y (Suc (Suc (Suc b))) = uploaded s (d 1) (hostMemory w (Suc (Suc (Suc b))))
         \<and> hostMemory Y (Suc (Suc (Suc (Suc (Suc b)))))
             = uploaded s (d 2) (hostMemory w (Suc (Suc (Suc (Suc (Suc b))))))"
proof -
  note i = Buffer_init_found [OF ty [unfolded u]]
  show ?thesis
    using rd [unfolded d blob gc, simplified] ok [unfolded gc] al
    unfolding createShaderBindingTable_def getRayTracingProps_def s b u d blob gc
    by (simp add: Let_def i world_defs split_beta calls_since_def isCreateBuffer_def
          isGetRayTracingShaderGroupHandles_def filter_released)
qed

text \<open>
  C1 (amended): when \<^verbatim>\<open>createShaderBindingTable\<close> returns, it has created one buffer for
  each of raygen, miss and hit, each requested with exactly the raw handle size that the
  device reports, with shader-binding-table, transfer-source and device-address usage, in
  memory of a type chosen for host-visible and host-coherent properties. (The aligned
  handle size is what the function has stored in \<^verbatim>\<open>handleSizeAligned\<close>.)
\<close>

theorem sbt_buffers_of_raw_handle_size:
  assumes ret: "createShaderBindingTable pd dev app w = Inr (app', w')"
  shows "\<exists>ty rb rm mb mm hb hm.
           getMemoryType pd
             (getBufferMemoryRequirements dev (ucast (shaderGroupHandleSize pd))
                {eShaderBindingTableKHR, eTransferSrc, eShaderDeviceAddress})
             {eHostVisible, eHostCoherent} = Inr ty
         \<and> buffer (raygenSBT app') = Some rb \<and> memory (raygenSBT app') = Some rm
         \<and> buffer (missSBT app') = Some mb \<and> memory (missSBT app') = Some mm
         \<and> buffer (hitSBT app') = Some hb \<and> memory (hitSBT app') = Some hm
         \<and> distinct [rb, mb, hb] \<and> distinct [rm, mm, hm]
         \<and> filter isCreateBuffer (calls_since w w') =
              [CreateBuffer rb (ucast (shaderGroupHandleSize pd))
                 {eShaderBindingTableKHR, eTransferSrc, eShaderDeviceAddress},
               CreateBuffer mb (ucast (shaderGroupHandleSize pd))
                 {eShaderBindingTableKHR, eTransferSrc, eShaderDeviceAddress},
               CreateBuffer hb (ucast (shaderGroupHandleSize pd))
                 {eShaderBindingTableKHR, eTransferSrc, eShaderDeviceAddress}]
         \<and> (\<forall>m \<in> {rm, mm, hm}.
               AllocateMemory m
                 (size_req (getBufferMemoryRequirements dev (ucast (shaderGroupHandleSize pd))
                    {eShaderBindingTableKHR, eTransferSrc, eShaderDeviceAddress}))
                 ty {eDeviceAddress} \<in> set (calls_since w w'))
         \<and> getAlignedSize (shaderGroupHandleSize pd) (shaderGroupHandleAlignment pd)
             = Some (handleSizeAligned app')"
proof -
  from createShaderBindingTable_Inr [OF ret refl refl] obtain aligned ty where
    al: "getAlignedSize (shaderGroupHandleSize pd) (shaderGroupHandleAlignment pd) = Some aligned"
    and ok: "fst (getRayTracingShaderGroupHandlesKHR dev (pipeline app) 0
                  (word_of_nat (length (shaderGroups app)))
                  (unat (word_of_nat (length (shaderGroups app)) * aligned))) = eSuccess"
    and ty: "getMemoryType pd
               (getBufferMemoryRequirements dev (ucast (shaderGroupHandleSize pd))
                  {eShaderBindingTableKHR, eTransferSrc, eShaderDeviceAddress})
               {eHostVisible, eHostCoherent} = Inr ty"
    and rd: "\<forall>k \<in> {0, 1, 2}. \<forall>bytes.
               pointer_add
                 (vector_data (\<lambda>b. [b])
                    (map (snd (getRayTracingShaderGroupHandlesKHR dev (pipeline app) 0
                                 (word_of_nat (length (shaderGroups app)))
                                 (unat (word_of_nat (length (shaderGroups app)) * aligned))))
                       [0 ..< unat (word_of_nat (length (shaderGroups app)) * aligned)]))
                 (unat (k * aligned)) = Some bytes
               \<longrightarrow> unat (ucast (shaderGroupHandleSize pd) :: DeviceSize) \<le> length bytes"
    by blast
  from createShaderBindingTable_found [OF al refl refl ok ty refl refl rd refl refl, of w]
  obtain X Y where run: "createShaderBindingTable pd dev app w = Inr (X, Y)"
    and f: "handleSizeAligned X = aligned"
      "raygenSBT X = \<lparr>buffer = Some (nextHandle w), memory = Some (Suc (nextHandle w)),
                            address = getBufferAddressKHR dev (nextHandle w)\<rparr>"
      "missSBT X = \<lparr>buffer = Some (Suc (Suc (nextHandle w))),
                          memory = Some (Suc (Suc (Suc (nextHandle w)))),
                          address = getBufferAddressKHR dev (Suc (Suc (nextHandle w)))\<rparr>"
      "hitSBT X = \<lparr>buffer = Some (Suc (Suc (Suc (Suc (nextHandle w))))),
                         memory = Some (Suc (Suc (Suc (Suc (Suc (nextHandle w)))))),
                         address = getBufferAddressKHR dev (Suc (Suc (Suc (Suc (nextHandle w)))))\<rparr>"
      "filter isCreateBuffer (calls_since w Y) =
              [CreateBuffer (nextHandle w) (ucast (shaderGroupHandleSize pd))
                 {eShaderBindingTableKHR, eTransferSrc, eShaderDeviceAddress},
               CreateBuffer (Suc (Suc (nextHandle w))) (ucast (shaderGroupHandleSize pd))
                 {eShaderBindingTableKHR, eTransferSrc, eShaderDeviceAddress},
               CreateBuffer (Suc (Suc (Suc (Suc (nextHandle w)))))
                 (ucast (shaderGroupHandleSize pd))
                 {eShaderBindingTableKHR, eTransferSrc, eShaderDeviceAddress}]"
      "AllocateMemory (Suc (nextHandle w))
         (size_req (getBufferMemoryRequirements dev (ucast (shaderGroupHandleSize pd))
            {eShaderBindingTableKHR, eTransferSrc, eShaderDeviceAddress})) ty
               {eDeviceAddress} \<in> set (calls_since w Y)"
      "AllocateMemory (Suc (Suc (Suc (nextHandle w))))
         (size_req (getBufferMemoryRequirements dev (ucast (shaderGroupHandleSize pd))
            {eShaderBindingTableKHR, eTransferSrc, eShaderDeviceAddress})) ty
               {eDeviceAddress} \<in> set (calls_since w Y)"
      "AllocateMemory (Suc (Suc (Suc (Suc (Suc (nextHandle w))))))
         (size_req (getBufferMemoryRequirements dev (ucast (shaderGroupHandleSize pd))
            {eShaderBindingTableKHR, eTransferSrc, eShaderDeviceAddress})) ty
               {eDeviceAddress} \<in> set (calls_since w Y)"
    by blast
  from ret run have e: "app' = X" "w' = Y" by simp_all
  show ?thesis
    apply (rule exI [of _ ty])
    apply (rule exI [of _ "nextHandle w"])
    apply (rule exI [of _ "Suc (nextHandle w)"])
    apply (rule exI [of _ "Suc (Suc (nextHandle w))"])
    apply (rule exI [of _ "Suc (Suc (Suc (nextHandle w)))"])
    apply (rule exI [of _ "Suc (Suc (Suc (Suc (nextHandle w))))"])
    apply (rule exI [of _ "Suc (Suc (Suc (Suc (Suc (nextHandle w)))))"])
    using ty al f unfolding e
    apply simp
    done
qed


lemma unat_ucast_32_64 [simp]: "unat (ucast (x :: uint32) :: DeviceSize) = unat x"
proof -
  have "unat x < 2 ^ 32" using unsigned_less [of x, where ?'a = nat] by simp
  then have "take_bit 64 (unat x) = unat x" by (simp add: take_bit_nat_eq_self_iff)
  then show ?thesis by (simp add: unsigned_ucast_eq)
qed

lemma readMapped_uploaded:
  assumes "unat s \<le> length bs" and "n = unat s"
  shows "map (uploaded s (Some bs) old) [0 ..< n] = map Some (take n bs)"
proof -
  have "map (overwrite (take (unat s) bs) old) [0 ..< unat s]
          = map Some (take (unat s) (take (unat s) bs))"
    using assms(1) by (intro map_overwrite) simp
  then show ?thesis by (simp add: uploaded_def assms(2))
qed

text \<open>
  C3: when \<^verbatim>\<open>createShaderBindingTable\<close> returns, it has queried the handles once, from
  group 0, for all groups, into \<open>groupCount * handleSizeAligned\<close> bytes; and, that blob
  being non-empty, the memory of the raygen, miss and hit buffer holds the \<open>handleSize\<close>
  bytes of the blob from byte \<open>0\<close>, \<open>handleSizeAligned\<close> and \<open>2 * handleSizeAligned\<close> on.
  For handle size 32, alignment 64 and three groups the blob has 192 bytes and the three
  buffers receive its bytes 0 to 31, 64 to 95 and 128 to 159.
\<close>

theorem sbt_slices:
  assumes ret: "createShaderBindingTable pd dev app w = Inr (app', w')"
      and gc: "groupCount = (word_of_nat (length (shaderGroups app)) :: uint32)"
      and sz: "sbtSize = groupCount * handleSizeAligned app'"
      and blob: "blob = map (snd (getRayTracingShaderGroupHandlesKHR dev (pipeline app) 0
                                    groupCount (unat sbtSize)))
                          [0 ..< unat sbtSize]"
      and ne: "sbtSize \<noteq> 0"
      and hs: "handleSize = unat (shaderGroupHandleSize pd)"
  shows "filter isGetRayTracingShaderGroupHandles (calls_since w w')
           = [GetRayTracingShaderGroupHandles (pipeline app) 0 groupCount (unat sbtSize)]
       \<and> length blob = unat sbtSize
       \<and> (\<exists>rm mm hm.
             memory (raygenSBT app') = Some rm \<and> memory (missSBT app') = Some mm
           \<and> memory (hitSBT app') = Some hm
           \<and> readMapped w' rm handleSize
               = map Some (take handleSize (drop (unat (0 * handleSizeAligned app')) blob))
           \<and> readMapped w' mm handleSize
               = map Some (take handleSize (drop (unat (1 * handleSizeAligned app')) blob))
           \<and> readMapped w' hm handleSize
               = map Some (take handleSize (drop (unat (2 * handleSizeAligned app')) blob))
           \<and> length (take handleSize (drop (unat (0 * handleSizeAligned app')) blob)) = handleSize
           \<and> length (take handleSize (drop (unat (1 * handleSizeAligned app')) blob)) = handleSize
           \<and> length (take handleSize (drop (unat (2 * handleSizeAligned app')) blob)) = handleSize)
       \<and> (shaderGroupHandleSize pd = 32 \<and> shaderGroupHandleAlignment pd = 64
            \<and> length (shaderGroups app) = 3 \<longrightarrow>
              length blob = 192
            \<and> (\<exists>rm mm hm.
                  memory (raygenSBT app') = Some rm \<and> memory (missSBT app') = Some mm
                \<and> memory (hitSBT app') = Some hm
                \<and> readMapped w' rm 32 = map Some (take 32 (drop 0 blob))
                \<and> readMapped w' mm 32 = map Some (take 32 (drop 64 blob))
                \<and> readMapped w' hm 32 = map Some (take 32 (drop 128 blob))))"
proof -
  from createShaderBindingTable_Inr [OF ret refl refl] obtain aligned ty where
    al: "getAlignedSize (shaderGroupHandleSize pd) (shaderGroupHandleAlignment pd) = Some aligned"
    and ok: "fst (getRayTracingShaderGroupHandlesKHR dev (pipeline app) 0
                  (word_of_nat (length (shaderGroups app)))
                  (unat (word_of_nat (length (shaderGroups app)) * aligned))) = eSuccess"
    and ty: "getMemoryType pd
               (getBufferMemoryRequirements dev (ucast (shaderGroupHandleSize pd))
                  {eShaderBindingTableKHR, eTransferSrc, eShaderDeviceAddress})
               {eHostVisible, eHostCoherent} = Inr ty"
    and rd: "\<forall>k \<in> {0, 1, 2}. \<forall>bytes.
               pointer_add
                 (vector_data (\<lambda>b. [b])
                    (map (snd (getRayTracingShaderGroupHandlesKHR dev (pipeline app) 0
                                 (word_of_nat (length (shaderGroups app)))
                                 (unat (word_of_nat (length (shaderGroups app)) * aligned))))
                       [0 ..< unat (word_of_nat (length (shaderGroups app)) * aligned)]))
                 (unat (k * aligned)) = Some bytes
               \<longrightarrow> unat (ucast (shaderGroupHandleSize pd) :: DeviceSize) \<le> length bytes"
    by blast
  define s where "s = (ucast (shaderGroupHandleSize pd) :: DeviceSize)"
  define b where "b = nextHandle w"
  define d where "d = (\<lambda>k. pointer_add
                 (vector_data (\<lambda>b. [b])
                    (map (snd (getRayTracingShaderGroupHandlesKHR dev (pipeline app) 0
                                 (word_of_nat (length (shaderGroups app)))
                                 (unat (word_of_nat (length (shaderGroups app)) * aligned))))
                       [0 ..< unat (word_of_nat (length (shaderGroups app)) * aligned)]))
                 (unat (k * aligned)))"
  have rd': "\<forall>k \<in> {0, 1, 2}. \<forall>bytes. d k = Some bytes
               \<longrightarrow> unat (ucast (shaderGroupHandleSize pd) :: DeviceSize) \<le> length bytes"
    unfolding d_def by (rule rd)
  from createShaderBindingTable_found [OF al refl refl ok ty refl d_def rd' s_def b_def]
  obtain X Y where run: "createShaderBindingTable pd dev app w = Inr (X, Y)"
    and ha: "handleSizeAligned X = aligned"
    and mr: "raygenSBT X = \<lparr>buffer = Some b, memory = Some (Suc b),
                            address = getBufferAddressKHR dev b\<rparr>"
    and mm: "missSBT X = \<lparr>buffer = Some (Suc (Suc b)), memory = Some (Suc (Suc (Suc b))),
                          address = getBufferAddressKHR dev (Suc (Suc b))\<rparr>"
    and mh: "hitSBT X = \<lparr>buffer = Some (Suc (Suc (Suc (Suc b)))),
                         memory = Some (Suc (Suc (Suc (Suc (Suc b))))),
                         address = getBufferAddressKHR dev (Suc (Suc (Suc (Suc b))))\<rparr>"
    and gh: "filter isGetRayTracingShaderGroupHandles (calls_since w Y) =
              [GetRayTracingShaderGroupHandles (pipeline app) 0
                 (word_of_nat (length (shaderGroups app)))
                 (unat (word_of_nat (length (shaderGroups app)) * aligned))]"
    and h0: "hostMemory Y (Suc b) = uploaded s (d 0) (hostMemory w (Suc b))"
    and h1: "hostMemory Y (Suc (Suc (Suc b)))
               = uploaded s (d 1) (hostMemory w (Suc (Suc (Suc b))))"
    and h2: "hostMemory Y (Suc (Suc (Suc (Suc (Suc b)))))
             = uploaded s (d 2) (hostMemory w (Suc (Suc (Suc (Suc (Suc b))))))"
    by blast
  from ret run have e: "app' = X" "w' = Y" by simp_all
  have a: "handleSizeAligned app' = aligned" by (simp add: e ha)
  have bl: "blob = map (snd (getRayTracingShaderGroupHandlesKHR dev (pipeline app) 0
                                 (word_of_nat (length (shaderGroups app)))
                                 (unat (word_of_nat (length (shaderGroups app)) * aligned))))
                       [0 ..< unat (word_of_nat (length (shaderGroups app)) * aligned)]"
    by (simp add: blob sz gc a)
  have len: "length blob = unat sbtSize" by (simp add: blob)
  have "unat sbtSize \<noteq> 0" using ne by (simp add: unat_eq_0)
  then have nonempty: "blob \<noteq> []" using len by auto
  have dk: "d k = Some (drop (unat (k * aligned)) blob)" for k
    using nonempty by (simp add: d_def bl [symmetric] vector_data_bytes pointer_add_def)
  have su: "unat s = handleSize" by (simp add: s_def hs)
  have fit: "handleSize \<le> length (drop (unat (k * aligned)) blob)" if "k \<in> {0, 1, 2}" for k
    using rd' [rule_format, OF that dk] by (simp add: hs)
  have rdk: "map (uploaded s (d k) old) [0 ..< handleSize]
               = map Some (take handleSize (drop (unat (k * aligned)) blob))"
    if "k \<in> {0, 1, 2}" for k old
    unfolding dk using fit [OF that] su by (intro readMapped_uploaded) simp_all
  have inr: "length (take handleSize (drop (unat (k * aligned)) blob)) = handleSize"
    if "k \<in> {0, 1, 2}" for k
    using fit [OF that] by simp
  have r0: "readMapped w' (Suc b) handleSize
               = map Some (take handleSize (drop (unat (0 * aligned)) blob))"
    unfolding readMapped_def e h0 by (rule rdk) simp
  have r1: "readMapped w' (Suc (Suc (Suc b))) handleSize
               = map Some (take handleSize (drop (unat (1 * aligned)) blob))"
    unfolding readMapped_def e h1 by (rule rdk) simp
  have r2: "readMapped w' (Suc (Suc (Suc (Suc (Suc b))))) handleSize
               = map Some (take handleSize (drop (unat (2 * aligned)) blob))"
    unfolding readMapped_def e h2 by (rule rdk) simp
  have c1: "filter isGetRayTracingShaderGroupHandles (calls_since w w')
           = [GetRayTracingShaderGroupHandles (pipeline app) 0 groupCount (unat sbtSize)]"
    by (simp add: sz gc e ha gh)
  have c3: "\<exists>rm mm hm.
             memory (raygenSBT app') = Some rm \<and> memory (missSBT app') = Some mm
           \<and> memory (hitSBT app') = Some hm
           \<and> readMapped w' rm handleSize
               = map Some (take handleSize (drop (unat (0 * handleSizeAligned app')) blob))
           \<and> readMapped w' mm handleSize
               = map Some (take handleSize (drop (unat (1 * handleSizeAligned app')) blob))
           \<and> readMapped w' hm handleSize
               = map Some (take handleSize (drop (unat (2 * handleSizeAligned app')) blob))
           \<and> length (take handleSize (drop (unat (0 * handleSizeAligned app')) blob)) = handleSize
           \<and> length (take handleSize (drop (unat (1 * handleSizeAligned app')) blob)) = handleSize
           \<and> length (take handleSize (drop (unat (2 * handleSizeAligned app')) blob)) = handleSize"
    apply (rule exI [of _ "Suc b"])
    apply (rule exI [of _ "Suc (Suc (Suc b))"])
    apply (rule exI [of _ "Suc (Suc (Suc (Suc (Suc b))))"])
    unfolding a
    using r0 r1 r2 inr [of 0] inr [of 1] inr [of 2]
    apply (simp add: e mr mm mh)
    done
  have c4: "length blob = 192
            \<and> (\<exists>rm mm hm.
                  memory (raygenSBT app') = Some rm \<and> memory (missSBT app') = Some mm
                \<and> memory (hitSBT app') = Some hm
                \<and> readMapped w' rm 32 = map Some (take 32 (drop 0 blob))
                \<and> readMapped w' mm 32 = map Some (take 32 (drop 64 blob))
                \<and> readMapped w' hm 32 = map Some (take 32 (drop 128 blob)))"
    if p: "shaderGroupHandleSize pd = 32" "shaderGroupHandleAlignment pd = 64"
          "length (shaderGroups app) = 3"
  proof -
    have al64: "aligned = 64" using al by (simp add: p getAlignedSize_def)
    have h32: "handleSize = 32" by (simp add: hs p)
    have "length blob = 192" by (simp add: len sz gc a al64 p)
    moreover have "\<exists>rm mm hm.
                  memory (raygenSBT app') = Some rm \<and> memory (missSBT app') = Some mm
                \<and> memory (hitSBT app') = Some hm
                \<and> readMapped w' rm 32 = map Some (take 32 (drop 0 blob))
                \<and> readMapped w' mm 32 = map Some (take 32 (drop 64 blob))
                \<and> readMapped w' hm 32 = map Some (take 32 (drop 128 blob))"
      apply (rule exI [of _ "Suc b"])
      apply (rule exI [of _ "Suc (Suc (Suc b))"])
      apply (rule exI [of _ "Suc (Suc (Suc (Suc (Suc b))))"])
      using r0 r1 r2 unfolding al64 h32
      apply (simp add: e mr mm mh)
      done
    ultimately show ?thesis by blast
  qed
  from c1 len c3 c4 show ?thesis by blast
qed

lemma sample_createShaderBindingTable:
  "\<exists>X Y. createShaderBindingTable sample_physicalDevice sample_device
            (Application_new\<lparr>shaderGroups := replicate 3 RayTracingShaderGroupCreateInfoKHR_new,
                              pipeline := Some 25\<rparr>)
            (World_start\<lparr>nextHandle := 26\<rparr>) = Inr (X, Y)
         \<and> handleSizeAligned X = 64
         \<and> calls_since (World_start\<lparr>nextHandle := 26\<rparr>) Y = calls Y
         \<and> filter isCreateBuffer (calls Y) =
              [CreateBuffer 26 32 {eShaderBindingTableKHR, eTransferSrc, eShaderDeviceAddress},
               CreateBuffer 28 32 {eShaderBindingTableKHR, eTransferSrc, eShaderDeviceAddress},
               CreateBuffer 30 32 {eShaderBindingTableKHR, eTransferSrc, eShaderDeviceAddress}]"
proof -
  define app where "app = Application_new
       \<lparr>shaderGroups := replicate 3 RayTracingShaderGroupCreateInfoKHR_new, pipeline := Some 25\<rparr>"
  define w where "w = World_start\<lparr>nextHandle := 26\<rparr>"
  have al: "getAlignedSize (shaderGroupHandleSize sample_physicalDevice)
              (shaderGroupHandleAlignment sample_physicalDevice) = Some 64"
    by (simp add: getAlignedSize_def sample_physicalDevice_def)
  have ok: "fst (getRayTracingShaderGroupHandlesKHR sample_device (pipeline app) 0
                  (word_of_nat (length (shaderGroups app)))
                  (unat (word_of_nat (length (shaderGroups app)) * (64 :: uint32)))) = eSuccess"
    by (simp add: sample_device_def)
  have rd: "\<forall>k \<in> {0, 1, 2}. \<forall>bytes.
       (\<lambda>k. pointer_add
          (vector_data (\<lambda>b. [b])
             (map (snd (getRayTracingShaderGroupHandlesKHR sample_device (pipeline app) 0
                          (word_of_nat (length (shaderGroups app)))
                          (unat (word_of_nat (length (shaderGroups app)) * (64 :: uint32)))))
                [0 ..< unat (word_of_nat (length (shaderGroups app)) * (64 :: uint32))]))
          (unat (k * (64 :: uint32)))) k = Some bytes
       \<longrightarrow> unat (ucast (shaderGroupHandleSize sample_physicalDevice) :: DeviceSize)
             \<le> length bytes"
    by (auto simp: app_def vector_data_bytes pointer_add_def sample_physicalDevice_def)
  from createShaderBindingTable_found [OF al refl refl ok sample_host refl refl rd refl refl,
         of w]
  obtain X Y where
    "createShaderBindingTable sample_physicalDevice sample_device app w = Inr (X, Y)"
    "handleSizeAligned X = 64"
    "filter isCreateBuffer (calls_since w Y) =
       [CreateBuffer (nextHandle w) (ucast (shaderGroupHandleSize sample_physicalDevice))
          {eShaderBindingTableKHR, eTransferSrc, eShaderDeviceAddress},
        CreateBuffer (Suc (Suc (nextHandle w)))
          (ucast (shaderGroupHandleSize sample_physicalDevice))
          {eShaderBindingTableKHR, eTransferSrc, eShaderDeviceAddress},
        CreateBuffer (Suc (Suc (Suc (Suc (nextHandle w)))))
          (ucast (shaderGroupHandleSize sample_physicalDevice))
          {eShaderBindingTableKHR, eTransferSrc, eShaderDeviceAddress}]"
    by blast
  then show ?thesis
    unfolding app_def [symmetric] w_def [symmetric]
    by (simp add: w_def World_start_def calls_since_def sample_physicalDevice_def)
qed

text \<open>
  C1, as stated, on the sample GPU (handle size 32, alignment 64): the aligned handle
  size is 64, and the three buffers are requested with 32 bytes.
\<close>

theorem sbt_buffers_not_of_aligned_size:
  "map_option handleSizeAligned
     (value_of (createShaderBindingTable sample_physicalDevice sample_device
        (Application_new\<lparr>shaderGroups := replicate 3 RayTracingShaderGroupCreateInfoKHR_new,
                          pipeline := Some 25\<rparr>)
        (World_start\<lparr>nextHandle := 26\<rparr>))) = Some 64
   \<and> filter isCreateBuffer
        (calls_of (createShaderBindingTable sample_physicalDevice sample_device
           (Application_new\<lparr>shaderGroups := replicate 3 RayTracingShaderGroupCreateInfoKHR_new,
                             pipeline := Some 25\<rparr>)
           (World_start\<lparr>nextHandle := 26\<rparr>)))
       = [CreateBuffer 26 32 {eShaderBindingTableKHR, eTransferSrc, eShaderDeviceAddress},
          CreateBuffer 28 32 {eShaderBindingTableKHR, eTransferSrc, eShaderDeviceAddress},
          CreateBuffer 30 32 {eShaderBindingTableKHR, eTransferSrc, eShaderDeviceAddress}]
   \<and> (32 :: DeviceSize) \<noteq> 64"
proof -
  from sample_createShaderBindingTable obtain X Y where
    "createShaderBindingTable sample_physicalDevice sample_device
            (Application_new\<lparr>shaderGroups := replicate 3 RayTracingShaderGroupCreateInfoKHR_new,
                              pipeline := Some 25\<rparr>)
            (World_start\<lparr>nextHandle := 26\<rparr>) = Inr (X, Y)"
    "handleSizeAligned X = 64"
    "filter isCreateBuffer (calls Y) =
              [CreateBuffer 26 32 {eShaderBindingTableKHR, eTransferSrc, eShaderDeviceAddress},
               CreateBuffer 28 32 {eShaderBindingTableKHR, eTransferSrc, eShaderDeviceAddress},
               CreateBuffer 30 32 {eShaderBindingTableKHR, eTransferSrc, eShaderDeviceAddress}]"
    by blast
  then show ?thesis by (simp add: value_of_def calls_of_def)
qed

text \<open>C1 (amended) on the sample GPU.\<close>

theorem sbt_buffers_of_raw_handle_size_witness:
  "\<exists>app' w' rb mb hb.
      createShaderBindingTable sample_physicalDevice sample_device
        (Application_new\<lparr>shaderGroups := replicate 3 RayTracingShaderGroupCreateInfoKHR_new,
                          pipeline := Some 25\<rparr>)
        (World_start\<lparr>nextHandle := 26\<rparr>) = Inr (app', w')
    \<and> buffer (raygenSBT app') = Some rb \<and> buffer (missSBT app') = Some mb
    \<and> buffer (hitSBT app') = Some hb
    \<and> filter isCreateBuffer (calls_since (World_start\<lparr>nextHandle := 26\<rparr>) w') =
         [CreateBuffer rb (ucast (shaderGroupHandleSize sample_physicalDevice))
            {eShaderBindingTableKHR, eTransferSrc, eShaderDeviceAddress},
          CreateBuffer mb (ucast (shaderGroupHandleSize sample_physicalDevice))
            {eShaderBindingTableKHR, eTransferSrc, eShaderDeviceAddress},
          CreateBuffer hb (ucast (shaderGroupHandleSize sample_physicalDevice))
            {eShaderBindingTableKHR, eTransferSrc, eShaderDeviceAddress}]"
proof -
  from sample_createShaderBindingTable obtain X Y where
    r: "createShaderBindingTable sample_physicalDevice sample_device
            (Application_new\<lparr>shaderGroups := replicate 3 RayTracingShaderGroupCreateInfoKHR_new,
                              pipeline := Some 25\<rparr>)
            (World_start\<lparr>nextHandle := 26\<rparr>) = Inr (X, Y)"
    by blast
  from sbt_buffers_of_raw_handle_size [OF r] r show ?thesis by blast
qed


text \<open>C3 on the sample GPU, whose handle data has byte \<open>i\<close> at position \<open>i\<close>.\<close>

theorem sbt_slices_witness:
  "\<exists>app' w' rm mm hm.
      createShaderBindingTable sample_physicalDevice sample_device
        (Application_new\<lparr>shaderGroups := replicate 3 RayTracingShaderGroupCreateInfoKHR_new,
                          pipeline := Some 25\<rparr>)
        (World_start\<lparr>nextHandle := 26\<rparr>) = Inr (app', w')
    \<and> memory (raygenSBT app') = Some rm \<and> memory (missSBT app') = Some mm
    \<and> memory (hitSBT app') = Some hm
    \<and> readMapped w' rm 32 = map Some (map word_of_nat [0 ..< 32])
    \<and> readMapped w' mm 32 = map Some (map word_of_nat [64 ..< 96])
    \<and> readMapped w' hm 32 = map Some (map word_of_nat [128 ..< 160])"
proof -
  define app where "app = Application_new
       \<lparr>shaderGroups := replicate 3 RayTracingShaderGroupCreateInfoKHR_new, pipeline := Some 25\<rparr>"
  define w where "w = World_start\<lparr>nextHandle := 26\<rparr>"
  from sample_createShaderBindingTable obtain X Y where
    r: "createShaderBindingTable sample_physicalDevice sample_device app w = Inr (X, Y)"
    and a: "handleSizeAligned X = 64"
    unfolding app_def w_def by blast
  define blob where "blob = map (snd (getRayTracingShaderGroupHandlesKHR sample_device
                (pipeline app) 0 (word_of_nat (length (shaderGroups app)))
                (unat (word_of_nat (length (shaderGroups app)) * handleSizeAligned X))))
           [0 ..< unat (word_of_nat (length (shaderGroups app)) * handleSizeAligned X)]"
  have b: "blob = map word_of_nat [0 ..< 192]"
    by (simp add: blob_def a app_def sample_device_def)
  have ne: "(word_of_nat (length (shaderGroups app)) :: uint32) * handleSizeAligned X \<noteq> 0"
    by (simp add: a app_def)
  have p: "shaderGroupHandleSize sample_physicalDevice = 32
         \<and> shaderGroupHandleAlignment sample_physicalDevice = 64
         \<and> length (shaderGroups app) = 3"
    by (simp add: sample_physicalDevice_def app_def)
  from sbt_slices [OF r refl refl blob_def ne refl] p
  obtain rm mm hm where
    "memory (raygenSBT X) = Some rm" "memory (missSBT X) = Some mm"
    "memory (hitSBT X) = Some hm"
    "readMapped Y rm 32 = map Some (take 32 (drop 0 blob))"
    "readMapped Y mm 32 = map Some (take 32 (drop 64 blob))"
    "readMapped Y hm 32 = map Some (take 32 (drop 128 blob))"
    by blast
  then have "memory (raygenSBT X) = Some rm \<and> memory (missSBT X) = Some mm
    \<and> memory (hitSBT X) = Some hm
    \<and> readMapped Y rm 32 = map Some (map word_of_nat [0 ..< 32])
    \<and> readMapped Y mm 32 = map Some (map word_of_nat [64 ..< 96])
    \<and> readMapped Y hm 32 = map Some (map word_of_nat [128 ..< 160])"
    by (simp add: b take_map drop_map)
  with r show ?thesis unfolding app_def w_def by blast
qed

section \<open>Failures of the pipeline creation and of the handle fetch\<close>



lemma filter_isCreateRayTracingPipeline_pipeline:
  "filter isCreateRayTracingPipeline
     ([CreatePipelineLayout l d] @ released DestroyPipelineLayout h x
      @ [CreateRayTracingPipeline p info]) = [CreateRayTracingPipeline p info]"
  by (simp add: trace_preds filter_released)

lemma filter_isGet_pipeline:
  "filter isGetRayTracingShaderGroupHandles
     (([CreatePipelineLayout l d] @ released DestroyPipelineLayout h x
       @ [CreateRayTracingPipeline p info]) @ released DestroyPipeline h' x') = []"
  by (simp add: trace_preds filter_released)


lemma provisioned_update [simp]:
  "provisioned pd (dev\<lparr>createRayTracingPipelineKHR := c\<rparr>) = provisioned pd dev"
  "provisioned pd (dev\<lparr>getRayTracingShaderGroupHandlesKHR := g\<rparr>) = provisioned pd dev"
  by (simp_all add: provisioned_def)



end
